theory Spec2Isabelle
  imports Main "HOL-Library.Word" "HOL-Library.Multiset"
begin

unbundle bit_operations_syntax


section \<open>Resource signature description (PipelineResourceSignatureBase.hpp)\<close>

text \<open>
  The enumerations of the engine. \<open>SHADER_RESOURCE_VARIABLE_TYPE\<close> has the values
  STATIC = 0, MUTABLE = 1, DYNAMIC = 2 and NUM_TYPES = 3; the code uses a value both as
  an enumerator and as an array index, which \<open>VarIdx\<close> makes explicit.
  \<open>SHADER_TYPE\<close> is a 32-bit flag set, \<open>SHADER_TYPE_UNKNOWN\<close> being 0.
\<close>

datatype SHADER_RESOURCE_VARIABLE_TYPE =
  SHADER_RESOURCE_VARIABLE_TYPE_STATIC
| SHADER_RESOURCE_VARIABLE_TYPE_MUTABLE
| SHADER_RESOURCE_VARIABLE_TYPE_DYNAMIC

fun VarIdx :: "SHADER_RESOURCE_VARIABLE_TYPE \<Rightarrow> nat" where
  "VarIdx SHADER_RESOURCE_VARIABLE_TYPE_STATIC = 0"
| "VarIdx SHADER_RESOURCE_VARIABLE_TYPE_MUTABLE = 1"
| "VarIdx SHADER_RESOURCE_VARIABLE_TYPE_DYNAMIC = 2"

definition SHADER_RESOURCE_VARIABLE_TYPE_NUM_TYPES :: nat where
  "SHADER_RESOURCE_VARIABLE_TYPE_NUM_TYPES = 3"

datatype SHADER_RESOURCE_TYPE =
  SHADER_RESOURCE_TYPE_UNKNOWN
| SHADER_RESOURCE_TYPE_CONSTANT_BUFFER
| SHADER_RESOURCE_TYPE_TEXTURE_SRV
| SHADER_RESOURCE_TYPE_BUFFER_SRV
| SHADER_RESOURCE_TYPE_TEXTURE_UAV
| SHADER_RESOURCE_TYPE_BUFFER_UAV
| SHADER_RESOURCE_TYPE_SAMPLER
| SHADER_RESOURCE_TYPE_INPUT_ATTACHMENT
| SHADER_RESOURCE_TYPE_ACCEL_STRUCT

type_synonym SHADER_TYPE = "32 word"

record PipelineResourceDesc =
  Name :: string
  ShaderStages :: SHADER_TYPE
  ArraySize :: "32 word"
  ResourceType :: SHADER_RESOURCE_TYPE
  VarType :: SHADER_RESOURCE_VARIABLE_TYPE
  Flags :: "8 word"

text \<open>
  An immutable sampler: the name it is matched by, its stages, and the sampler state.
  The sampler state \<open>SamplerDesc\<close> is declared outside the sources at hand; only its
  equality and its hash are used, so it is a type parameter.
\<close>

record 'sam ImmutableSamplerDesc =
  SamplerOrTextureName :: string
  SamShaderStages :: SHADER_TYPE
  SamDesc :: 'sam

text \<open>
  The description. \<open>NumResources\<close> and \<open>NumImmutableSamplers\<close> are the lengths of the
  two arrays. A null \<open>CombinedSamplerSuffix\<close> is \<open>None\<close>.
\<close>

record 'sam PipelineResourceSignatureDesc =
  Resources :: "PipelineResourceDesc list"
  ImmutableSamplers :: "'sam ImmutableSamplerDesc list"
  BindingIndex :: "8 word"
  UseCombinedTextureSamplers :: bool
  CombinedSamplerSuffix :: "string option"
  SRBAllocationGranularity :: "32 word"

subsection \<open>CopyDescription\<close>

text \<open>
  The first loop of \<open>CopyDescription\<close> copies every resource and counts it in
  \<open>m_ResourceOffsets[VarType + 1]\<close>. The table is a
  \<open>std::array<Uint16, NUM_TYPES + 1>\<close>, zero at the start, so the counters are 16-bit
  and wrap.
\<close>

fun CountResourceOffsets :: "PipelineResourceDesc list \<Rightarrow> 16 word list \<Rightarrow> 16 word list" where
  "CountResourceOffsets [] offs = offs"
| "CountResourceOffsets (r # rs) offs =
     CountResourceOffsets rs
       (offs[VarIdx (VarType r) + 1 := offs ! (VarIdx (VarType r) + 1) + 1])"

text \<open>
  \<open>std::sort\<close> with the comparator \<open>lhs.VarType < rhs.VarType\<close>. The C++ standard
  promises a sorted permutation of the input and nothing about the order of elements
  that compare equal. The algorithm sees the elements only through the comparator, so
  the rearrangement it performs is a function of the sequence of keys: it is modelled
  by a parameter \<open>srt\<close> that maps the key sequence to the list of source positions,
  position \<open>i\<close> of the output holding the element that was at \<open>srt keys ! i\<close>.
  \<open>std_sort_spec\<close> is what the standard guarantees about it.
\<close>

definition std_sort_spec :: "(nat list \<Rightarrow> nat list) \<Rightarrow> bool" where
  "std_sort_spec srt \<longleftrightarrow>
     (\<forall>ks. mset (srt ks) = mset [0..<length ks] \<and> sorted (map (\<lambda>i. ks ! i) (srt ks)))"

definition std_sort ::
  "(nat list \<Rightarrow> nat list) \<Rightarrow> PipelineResourceDesc list \<Rightarrow> PipelineResourceDesc list" where
  "std_sort srt rs = map (\<lambda>i. rs ! i) (srt (map (\<lambda>r. VarIdx (VarType r)) rs))"

text \<open>The second loop: \<open>for (i = 1; i < size; ++i) offs[i] += offs[i - 1]\<close>.\<close>

definition AccumulateResourceOffsets :: "16 word list \<Rightarrow> 16 word list" where
  "AccumulateResourceOffsets offs =
     fold (\<lambda>i t. t[i := t ! i + t ! (i - 1)]) [1..<length offs] offs"

text \<open>
  The part of the signature object that \<open>CopyDescription\<close> fills in: the owned copy of
  the description and the offset table.
\<close>

record 'sam SignatureBase =
  m_Desc :: "'sam PipelineResourceSignatureDesc"
  m_ResourceOffsets :: "16 word list"

definition CopyDescription ::
  "(nat list \<Rightarrow> nat list) \<Rightarrow> 'sam PipelineResourceSignatureDesc \<Rightarrow> 'sam SignatureBase" where
  "CopyDescription srt Desc =
     \<lparr> m_Desc = Desc
         \<lparr> Resources := std_sort srt (Resources Desc),
           CombinedSamplerSuffix :=
             (if UseCombinedTextureSamplers Desc then CombinedSamplerSuffix Desc else None) \<rparr>,
       m_ResourceOffsets =
         AccumulateResourceOffsets
           (CountResourceOffsets (Resources Desc)
              (replicate (SHADER_RESOURCE_VARIABLE_TYPE_NUM_TYPES + 1) 0)) \<rparr>"

definition GetResourceIndexRange ::
  "'sam SignatureBase \<Rightarrow> SHADER_RESOURCE_VARIABLE_TYPE \<Rightarrow> 16 word \<times> 16 word" where
  "GetResourceIndexRange sig vt =
     (m_ResourceOffsets sig ! VarIdx vt, m_ResourceOffsets sig ! (VarIdx vt + 1))"

subsection \<open>FindResource\<close>

text \<open>
  \<open>InvalidResourceIndex\<close> is \<open>~0u\<close>. The loop returns the first index whose resource
  overlaps the stage and has the name (\<open>strcmp\<close> is equality of the strings).
\<close>

definition InvalidResourceIndex :: nat where
  "InvalidResourceIndex = 4294967295"

fun FindResourceFrom :: "PipelineResourceDesc list \<Rightarrow> nat \<Rightarrow> SHADER_TYPE \<Rightarrow> string \<Rightarrow> nat" where
  "FindResourceFrom [] r ShaderStage ResourceName = InvalidResourceIndex"
| "FindResourceFrom (ResDesc # rest) r ShaderStage ResourceName =
     (if (ShaderStages ResDesc AND ShaderStage) \<noteq> 0 \<and> Name ResDesc = ResourceName
      then r
      else FindResourceFrom rest (Suc r) ShaderStage ResourceName)"

definition FindResource :: "'sam SignatureBase \<Rightarrow> SHADER_TYPE \<Rightarrow> string \<Rightarrow> nat" where
  "FindResource sig ShaderStage ResourceName =
     FindResourceFrom (Resources (m_Desc sig)) 0 ShaderStage ResourceName"

section \<open>Root parameters (PipelineResourceSignatureD3D12Impl.cpp)\<close>

text \<open>
  The D3D12 enumerations, in the order of their values (the first constructor is 0,
  which is what zeroed memory reads as).
\<close>

datatype D3D12_DESCRIPTOR_RANGE_TYPE =
  D3D12_DESCRIPTOR_RANGE_TYPE_SRV
| D3D12_DESCRIPTOR_RANGE_TYPE_UAV
| D3D12_DESCRIPTOR_RANGE_TYPE_CBV
| D3D12_DESCRIPTOR_RANGE_TYPE_SAMPLER

datatype D3D12_ROOT_PARAMETER_TYPE =
  D3D12_ROOT_PARAMETER_TYPE_DESCRIPTOR_TABLE
| D3D12_ROOT_PARAMETER_TYPE_32BIT_CONSTANTS
| D3D12_ROOT_PARAMETER_TYPE_CBV
| D3D12_ROOT_PARAMETER_TYPE_SRV
| D3D12_ROOT_PARAMETER_TYPE_UAV

datatype D3D12_SHADER_VISIBILITY =
  D3D12_SHADER_VISIBILITY_ALL
| D3D12_SHADER_VISIBILITY_VERTEX
| D3D12_SHADER_VISIBILITY_HULL
| D3D12_SHADER_VISIBILITY_DOMAIN
| D3D12_SHADER_VISIBILITY_GEOMETRY
| D3D12_SHADER_VISIBILITY_PIXEL
| D3D12_SHADER_VISIBILITY_AMPLIFICATION
| D3D12_SHADER_VISIBILITY_MESH

datatype D3D12_DESCRIPTOR_HEAP_TYPE =
  D3D12_DESCRIPTOR_HEAP_TYPE_CBV_SRV_UAV
| D3D12_DESCRIPTOR_HEAP_TYPE_SAMPLER

datatype ROOT_TYPE = ROOT_TYPE_STATIC | ROOT_TYPE_DYNAMIC

fun RootTypeIdx :: "ROOT_TYPE \<Rightarrow> nat" where
  "RootTypeIdx ROOT_TYPE_STATIC = 0"
| "RootTypeIdx ROOT_TYPE_DYNAMIC = 1"

definition ROOT_TYPE_COUNT :: nat where
  "ROOT_TYPE_COUNT = 2"

record D3D12_DESCRIPTOR_RANGE =
  RangeType :: D3D12_DESCRIPTOR_RANGE_TYPE
  NumDescriptors :: "32 word"
  BaseShaderRegister :: "32 word"
  RegisterSpace :: "32 word"
  OffsetInDescriptorsFromTableStart :: "32 word"

text \<open>
  A root parameter: the \<open>D3D12_ROOT_PARAMETER\<close> (its type, its visibility, and the
  members of its union: the descriptor table, as the number of ranges and the place of
  the first range in the range memory of the manager, or the root descriptor),
  followed by the three members of \<open>RootParameter\<close>.
\<close>

record RootParameter =
  ParameterType :: D3D12_ROOT_PARAMETER_TYPE
  ShaderVisibility :: D3D12_SHADER_VISIBILITY
  NumDescriptorRanges :: nat
  pDescriptorRanges :: nat
  Descriptor_ShaderRegister :: "32 word"
  Descriptor_RegisterSpace :: "32 word"
  m_DescriptorTableSize :: "32 word"
  m_RootType :: ROOT_TYPE
  m_RootIndex :: nat

text \<open>What \<open>memset(pNewMemory, 0, MemorySize)\<close> leaves in a range and in a root parameter.\<close>

definition ZeroRange :: D3D12_DESCRIPTOR_RANGE where
  "ZeroRange = \<lparr> RangeType = D3D12_DESCRIPTOR_RANGE_TYPE_SRV, NumDescriptors = 0,
     BaseShaderRegister = 0, RegisterSpace = 0, OffsetInDescriptorsFromTableStart = 0 \<rparr>"

definition ZeroRootParameter :: RootParameter where
  "ZeroRootParameter = \<lparr> ParameterType = D3D12_ROOT_PARAMETER_TYPE_DESCRIPTOR_TABLE,
     ShaderVisibility = D3D12_SHADER_VISIBILITY_ALL, NumDescriptorRanges = 0,
     pDescriptorRanges = 0, Descriptor_ShaderRegister = 0, Descriptor_RegisterSpace = 0,
     m_DescriptorTableSize = 0, m_RootType = ROOT_TYPE_STATIC, m_RootIndex = 0 \<rparr>"

text \<open>The constructor of a root view and the constructor of a descriptor table.\<close>

definition RootParameter_View ::
  "D3D12_ROOT_PARAMETER_TYPE \<Rightarrow> nat \<Rightarrow> 32 word \<Rightarrow> 32 word \<Rightarrow> D3D12_SHADER_VISIBILITY \<Rightarrow> ROOT_TYPE
   \<Rightarrow> RootParameter" where
  "RootParameter_View PType RootIdx Register RegSpace Visibility RootType =
     \<lparr> ParameterType = PType, ShaderVisibility = Visibility, NumDescriptorRanges = 0,
       pDescriptorRanges = 0, Descriptor_ShaderRegister = Register,
       Descriptor_RegisterSpace = RegSpace, m_DescriptorTableSize = 0,
       m_RootType = RootType, m_RootIndex = RootIdx \<rparr>"

definition RootParameter_Table ::
  "nat \<Rightarrow> nat \<Rightarrow> nat \<Rightarrow> D3D12_SHADER_VISIBILITY \<Rightarrow> ROOT_TYPE \<Rightarrow> RootParameter" where
  "RootParameter_Table RootIdx NumRanges pRanges Visibility RootType =
     \<lparr> ParameterType = D3D12_ROOT_PARAMETER_TYPE_DESCRIPTOR_TABLE, ShaderVisibility = Visibility,
       NumDescriptorRanges = NumRanges, pDescriptorRanges = pRanges,
       Descriptor_ShaderRegister = 0, Descriptor_RegisterSpace = 0,
       m_DescriptorTableSize = 0, m_RootType = RootType, m_RootIndex = RootIdx \<rparr>"

text \<open>
  \<open>RootParamsManager\<close>: one memory block holding the root tables, then the root views,
  then the descriptor ranges of all tables. \<open>m_NumRootTables\<close>, \<open>m_NumRootViews\<close> and
  \<open>m_TotalDescriptorRanges\<close> are the lengths of the three arrays.
\<close>

record RootParamsManager =
  m_pRootTables :: "RootParameter list"
  m_pRootViews :: "RootParameter list"
  m_pRanges :: "D3D12_DESCRIPTOR_RANGE list"

definition EmptyRootParams :: RootParamsManager where
  "EmptyRootParams = \<lparr> m_pRootTables = [], m_pRootViews = [], m_pRanges = [] \<rparr>"

text \<open>
  The copy constructor of a table, \<open>RootParameter(RP, NumRanges, pRanges)\<close>: the copy has
  \<open>NumRanges\<close> ranges at \<open>pRanges\<close> in the new memory \<open>Mem\<close>, and \<open>memcpy\<close> moves the ranges
  of the source there. A copy that would read or write outside the memory is \<open>None\<close>.
\<close>

definition CopyRootTable ::
  "D3D12_DESCRIPTOR_RANGE list \<Rightarrow> RootParameter \<Rightarrow> nat \<Rightarrow> nat \<Rightarrow> D3D12_DESCRIPTOR_RANGE list
   \<Rightarrow> (RootParameter \<times> D3D12_DESCRIPTOR_RANGE list) option" where
  "CopyRootTable SrcMem RP NumRanges pRanges Mem =
     (if pDescriptorRanges RP + NumDescriptorRanges RP \<le> length SrcMem
         \<and> pRanges + NumDescriptorRanges RP \<le> length Mem
      then Some (RP\<lparr> NumDescriptorRanges := NumRanges, pDescriptorRanges := pRanges \<rparr>,
                 take pRanges Mem
                 @ take (NumDescriptorRanges RP) (drop (pDescriptorRanges RP) SrcMem)
                 @ drop (pRanges + NumDescriptorRanges RP) Mem)
      else None)"

text \<open>
  The first loop of \<open>Extend\<close>, from table \<open>rt\<close> on: \<open>Tables\<close> are the source tables not yet
  copied, \<open>pCurr\<close> is \<open>pCurrDescriptorRangePtr\<close>. The result is the copied tables, the new
  memory and the final \<open>pCurrDescriptorRangePtr\<close>.
\<close>

fun CopyRootTables ::
  "D3D12_DESCRIPTOR_RANGE list \<Rightarrow> nat \<Rightarrow> nat option \<Rightarrow> nat \<Rightarrow> RootParameter list \<Rightarrow> nat
   \<Rightarrow> D3D12_DESCRIPTOR_RANGE list
   \<Rightarrow> (RootParameter list \<times> D3D12_DESCRIPTOR_RANGE list \<times> nat) option" where
  "CopyRootTables SrcMem NumExtraDescriptorRanges RootTableToAddRanges rt [] pCurr Mem =
     Some ([], Mem, pCurr)"
| "CopyRootTables SrcMem NumExtraDescriptorRanges RootTableToAddRanges rt (SrcTbl # Tables) pCurr Mem =
     (let NumRanges = NumDescriptorRanges SrcTbl
            + (if Some rt = RootTableToAddRanges then NumExtraDescriptorRanges else 0)
      in case CopyRootTable SrcMem SrcTbl NumRanges pCurr Mem of
           None \<Rightarrow> None
         | Some (NewTbl, Mem1) \<Rightarrow>
             (case CopyRootTables SrcMem NumExtraDescriptorRanges RootTableToAddRanges (Suc rt)
                     Tables (pCurr + NumRanges) Mem1 of
                None \<Rightarrow> None
              | Some (NewTables, Mem2, pEnd) \<Rightarrow> Some (NewTbl # NewTables, Mem2, pEnd)))"

text \<open>
  \<open>Extend\<close>: new zeroed memory for the enlarged arrays, the tables copied with their
  ranges, the views copied as they are. The root parameters added at the end of the two
  arrays are zeroed memory until the caller constructs them. \<open>RootTableToAddRanges\<close> is
  \<open>None\<close> for the default argument (declared in the header), which names no table.
\<close>

definition Extend ::
  "RootParamsManager \<Rightarrow> nat \<Rightarrow> nat \<Rightarrow> nat \<Rightarrow> nat option \<Rightarrow> (RootParamsManager \<times> nat) option" where
  "Extend M NumExtraRootTables NumExtraRootViews NumExtraDescriptorRanges RootTableToAddRanges =
     (case CopyRootTables (m_pRanges M) NumExtraDescriptorRanges RootTableToAddRanges 0
             (m_pRootTables M) 0
             (replicate (length (m_pRanges M) + NumExtraDescriptorRanges) ZeroRange) of
        None \<Rightarrow> None
      | Some (NewTables, Mem, pCurr) \<Rightarrow>
          Some (\<lparr> m_pRootTables = NewTables @ replicate NumExtraRootTables ZeroRootParameter,
                  m_pRootViews = m_pRootViews M @ replicate NumExtraRootViews ZeroRootParameter,
                  m_pRanges = Mem \<rparr>, pCurr))"

definition AddRootView ::
  "RootParamsManager \<Rightarrow> D3D12_ROOT_PARAMETER_TYPE \<Rightarrow> nat \<Rightarrow> 32 word \<Rightarrow> 32 word
   \<Rightarrow> D3D12_SHADER_VISIBILITY \<Rightarrow> ROOT_TYPE \<Rightarrow> RootParamsManager option" where
  "AddRootView M PType RootIdx Register RegSpace Visibility RootType =
     (case Extend M 0 1 0 None of
        None \<Rightarrow> None
      | Some (M1, pRangePtr) \<Rightarrow>
          Some (M1\<lparr> m_pRootViews := (m_pRootViews M1)
                  [length (m_pRootViews M1) - 1 :=
                     RootParameter_View PType RootIdx Register RegSpace Visibility RootType] \<rparr>))"

definition AddRootTable ::
  "RootParamsManager \<Rightarrow> nat \<Rightarrow> D3D12_SHADER_VISIBILITY \<Rightarrow> ROOT_TYPE \<Rightarrow> nat
   \<Rightarrow> RootParamsManager option" where
  "AddRootTable M RootIdx Visibility RootType NumRangesInNewTable =
     (case Extend M 1 0 NumRangesInNewTable None of
        None \<Rightarrow> None
      | Some (M1, pRangePtr) \<Rightarrow>
          Some (M1\<lparr> m_pRootTables := (m_pRootTables M1)
                  [length (m_pRootTables M1) - 1 :=
                     RootParameter_Table RootIdx NumRangesInNewTable pRangePtr Visibility RootType] \<rparr>))"

definition AddDescriptorRanges :: "RootParamsManager \<Rightarrow> nat \<Rightarrow> nat \<Rightarrow> RootParamsManager option" where
  "AddDescriptorRanges M RootTableInd NumExtraRanges =
     map_option fst (Extend M 0 0 NumExtraRanges (Some RootTableInd))"

text \<open>
  \<open>SetDescriptorRange\<close> of the table at index \<open>rt\<close> of the manager: the range is written
  through the table's pointer into the range memory, and the table size becomes the
  maximum of itself and \<open>OffsetFromTableStart + Count\<close>, in 32-bit arithmetic.
\<close>

definition SetDescriptorRange ::
  "RootParamsManager \<Rightarrow> nat \<Rightarrow> nat \<Rightarrow> D3D12_DESCRIPTOR_RANGE_TYPE \<Rightarrow> 32 word \<Rightarrow> 32 word
   \<Rightarrow> 32 word \<Rightarrow> 32 word \<Rightarrow> RootParamsManager option" where
  "SetDescriptorRange M rt RangeIndex RType Register RegSpace Count OffsetFromStart =
     (if rt < length (m_pRootTables M)
         \<and> RangeIndex < NumDescriptorRanges (m_pRootTables M ! rt)
         \<and> pDescriptorRanges (m_pRootTables M ! rt) + RangeIndex < length (m_pRanges M)
      then Some (M\<lparr>
        m_pRanges := (m_pRanges M)
          [pDescriptorRanges (m_pRootTables M ! rt) + RangeIndex :=
             \<lparr> RangeType = RType, NumDescriptors = Count, BaseShaderRegister = Register,
               RegisterSpace = RegSpace, OffsetInDescriptorsFromTableStart = OffsetFromStart \<rparr>],
        m_pRootTables := (m_pRootTables M)
          [rt := (m_pRootTables M ! rt)\<lparr> m_DescriptorTableSize :=
                   max (m_DescriptorTableSize (m_pRootTables M ! rt)) (OffsetFromStart + Count) \<rparr>] \<rparr>)
      else None)"

text \<open>The ranges of a table, read through its pointer.\<close>

definition TableRanges :: "RootParamsManager \<Rightarrow> RootParameter \<Rightarrow> D3D12_DESCRIPTOR_RANGE list" where
  "TableRanges M Tbl = map (\<lambda>r. m_pRanges M ! (pDescriptorRanges Tbl + r)) [0..<NumDescriptorRanges Tbl]"

section \<open>Resource attributes, bound objects and the resource cache\<close>

text \<open>
  \<open>ResourceAttribs\<close>, one per resource, as \<open>CreateLayout\<close> constructs it: the nine
  constructor arguments in the order of the call. The declaration is in the header of
  the D3D12 signature, which is not among the sources; the fields hold the
  constructor's arguments.
\<close>

record ResourceAttribs =
  BindPoint :: "32 word"
  Space :: "32 word"
  SamplerInd :: "32 word"
  SRBRootIndex :: "32 word"
  SRBOffsetFromTableStart :: "32 word"
  SigRootIndex :: "32 word"
  SigOffsetFromTableStart :: "32 word"
  ImtblSamplerAssigned :: bool
  RootView :: bool

text \<open>
  The constants of headers that are not among the sources are parameters of the model:
  the "invalid" values of the attribute fields, the base register space of the
  signature (\<open>GetBaseRegisterSpace()\<close>), the initial value of \<open>m_NumSpaces\<close>, the members
  of a default-constructed \<open>ImmutableSamplerAttribs\<close>, and the bits of the three
  \<open>PIPELINE_RESOURCE_FLAGS\<close> that the code tests.
\<close>

record HeaderConstants =
  InvalidSamplerInd :: "32 word"
  InvalidSRBRootIndex :: "32 word"
  InvalidSigRootIndex :: "32 word"
  InvalidOffset :: "32 word"
  BaseRegisterSpace :: "32 word"
  InitialNumSpaces :: "32 word"
  UnassignedSamplerArraySize :: "32 word"
  UnassignedSamplerRegister :: "32 word"
  UnassignedSamplerSpace :: "32 word"
  PIPELINE_RESOURCE_FLAG_NO_DYNAMIC_BUFFERS :: "8 word"
  PIPELINE_RESOURCE_FLAG_FORMATTED_BUFFER :: "8 word"
  PIPELINE_RESOURCE_FLAG_RUNTIME_ARRAY :: "8 word"

datatype CacheContentType = Signature | SRB

text \<open>
  Modelled from the spec: the accessors of \<open>ResourceAttribs\<close>, declared in the missing
  header. The attributes hold a "binding-slot-index for (a) the per-object runtime
  cache and (b) the signature's own static cache"; the accessors select by the content
  type of the cache.
\<close>

definition RootIndex :: "ResourceAttribs \<Rightarrow> CacheContentType \<Rightarrow> 32 word" where
  "RootIndex Attr ct = (if ct = SRB then SRBRootIndex Attr else SigRootIndex Attr)"

definition OffsetFromTableStart :: "ResourceAttribs \<Rightarrow> CacheContentType \<Rightarrow> 32 word" where
  "OffsetFromTableStart Attr ct =
     (if ct = SRB then SRBOffsetFromTableStart Attr else SigOffsetFromTableStart Attr)"

definition IsCombinedWithSampler :: "HeaderConstants \<Rightarrow> ResourceAttribs \<Rightarrow> bool" where
  "IsCombinedWithSampler hc Attr \<longleftrightarrow> SamplerInd Attr \<noteq> InvalidSamplerInd hc"

text \<open>
  Device objects. A value stands for the pointer to the object: two pointers are equal
  when the values are. Each constructor is one implementation class, with the
  properties the binding code reads: the usage, bind flags and CBV handle of a buffer;
  the view type, the viewed buffer or texture and the descriptor handle of a view; the
  sampler set in a texture view; the descriptor handle of a sampler or a top-level
  acceleration structure. \<open>OtherDeviceObject\<close> is an object of any other class.
\<close>

datatype USAGE = USAGE_IMMUTABLE | USAGE_DEFAULT | USAGE_DYNAMIC | USAGE_STAGING | USAGE_UNIFIED

datatype VIEW_TYPE = VIEW_SHADER_RESOURCE | VIEW_UNORDERED_ACCESS | VIEW_OTHER

datatype DeviceObject =
    BufferD3D12Impl nat USAGE bool "64 word"
  | BufferViewD3D12Impl nat VIEW_TYPE nat "64 word"
  | TextureViewD3D12Impl nat VIEW_TYPE nat "DeviceObject option" "64 word"
  | SamplerD3D12Impl nat "64 word"
  | TopLevelASD3D12Impl nat "64 word"
  | OtherDeviceObject nat

text \<open>
  \<open>RefCntAutoPtr<T>{pObj, IID}\<close> queries the interface: it is the object when the object
  implements it and null otherwise.
\<close>

fun IsBufferD3D12 :: "DeviceObject \<Rightarrow> bool" where
  "IsBufferD3D12 (BufferD3D12Impl i u b h) = True"
| "IsBufferD3D12 x = False"

fun IsBufferViewD3D12 :: "DeviceObject \<Rightarrow> bool" where
  "IsBufferViewD3D12 (BufferViewD3D12Impl i v b h) = True"
| "IsBufferViewD3D12 x = False"

fun IsTextureViewD3D12 :: "DeviceObject \<Rightarrow> bool" where
  "IsTextureViewD3D12 (TextureViewD3D12Impl i v t s h) = True"
| "IsTextureViewD3D12 x = False"

fun IsSamplerD3D12 :: "DeviceObject \<Rightarrow> bool" where
  "IsSamplerD3D12 (SamplerD3D12Impl i h) = True"
| "IsSamplerD3D12 x = False"

fun IsTopLevelASD3D12 :: "DeviceObject \<Rightarrow> bool" where
  "IsTopLevelASD3D12 (TopLevelASD3D12Impl i h) = True"
| "IsTopLevelASD3D12 x = False"

text \<open>
  \<open>IsDynamicBuffer\<close> is \<open>GetDesc().Usage == USAGE_DYNAMIC\<close> of a buffer; the flag of a
  buffer says whether it was created with \<open>BIND_UNIFORM_BUFFER\<close>.
\<close>

fun IsDynamicBuffer :: "DeviceObject \<Rightarrow> bool" where
  "IsDynamicBuffer (BufferD3D12Impl i u b h) = (u = USAGE_DYNAMIC)"
| "IsDynamicBuffer x = False"

fun HasBindUniformBuffer :: "DeviceObject \<Rightarrow> bool" where
  "HasBindUniformBuffer (BufferD3D12Impl i u b h) = b"
| "HasBindUniformBuffer x = False"

fun GetCPUDescriptorHandle :: "DeviceObject \<Rightarrow> 64 word" where
  "GetCPUDescriptorHandle (BufferD3D12Impl i u b h) = h"
| "GetCPUDescriptorHandle (BufferViewD3D12Impl i v b h) = h"
| "GetCPUDescriptorHandle (TextureViewD3D12Impl i v t s h) = h"
| "GetCPUDescriptorHandle (SamplerD3D12Impl i h) = h"
| "GetCPUDescriptorHandle (TopLevelASD3D12Impl i h) = h"
| "GetCPUDescriptorHandle (OtherDeviceObject i) = 0"

fun GetViewType :: "DeviceObject \<Rightarrow> VIEW_TYPE" where
  "GetViewType (BufferViewD3D12Impl i v b h) = v"
| "GetViewType (TextureViewD3D12Impl i v t s h) = v"
| "GetViewType x = VIEW_OTHER"

fun GetSampler :: "DeviceObject \<Rightarrow> DeviceObject option" where
  "GetSampler (TextureViewD3D12Impl i v t s h) = s"
| "GetSampler x = None"

text \<open>
  Modelled from the spec: \<open>ShaderResourceCacheD3D12\<close>, declared in a header that is not
  among the sources. The cache is "an array of root-table caches indexed by
  binding-slot-index; each table cache holds an array of {bound object reference,
  resource kind tag, native descriptor handle} entries", plus "a counter of
  currently-bound dynamically-updated constant buffers"; \<open>GetResource\<close> is an "index
  into the table's flat array". An index outside an array is a failed access: \<open>None\<close>.
\<close>

record CacheResource =
  pObject :: "DeviceObject option"
  Type :: SHADER_RESOURCE_TYPE
  CPUDescriptorHandle :: "64 word"

definition NullResource :: CacheResource where
  "NullResource = \<lparr> pObject = None, Type = SHADER_RESOURCE_TYPE_UNKNOWN, CPUDescriptorHandle = 0 \<rparr>"

record ShaderResourceCacheD3D12 =
  m_RootTables :: "CacheResource list list"
  m_ContentType :: CacheContentType
  m_NumDynamicCBsBound :: "32 word"

definition GetNumRootTables :: "ShaderResourceCacheD3D12 \<Rightarrow> nat" where
  "GetNumRootTables c = length (m_RootTables c)"

definition GetResource :: "ShaderResourceCacheD3D12 \<Rightarrow> 32 word \<Rightarrow> 32 word \<Rightarrow> CacheResource option" where
  "GetResource c RootInd Offset =
     (if unat RootInd < length (m_RootTables c) \<and> unat Offset < length (m_RootTables c ! unat RootInd)
      then Some (m_RootTables c ! unat RootInd ! unat Offset) else None)"

definition SetResource ::
  "ShaderResourceCacheD3D12 \<Rightarrow> 32 word \<Rightarrow> 32 word \<Rightarrow> CacheResource \<Rightarrow> ShaderResourceCacheD3D12" where
  "SetResource c RootInd Offset Res =
     c\<lparr> m_RootTables := (m_RootTables c)
          [unat RootInd := (m_RootTables c ! unat RootInd)[unat Offset := Res]] \<rparr>"

section \<open>The D3D12 signature object\<close>

text \<open>
  \<open>ImmutableSamplerAttribs\<close> is declared in the missing header; \<open>IsAssigned()\<close> is
  modelled by a flag that the assignment of the registers sets.
\<close>

record ImmutableSamplerAttribs =
  Sam_ArraySize :: "32 word"
  Sam_ShaderRegister :: "32 word"
  Sam_RegisterSpace :: "32 word"
  Sam_IsAssigned :: bool

text \<open>
  The members of \<open>PipelineResourceSignatureD3D12Impl\<close> that the functions below read or
  write, on top of the members of the base class. The two root-table maps are arrays
  indexed by the table key, \<open>None\<close> being \<open>InvalidRootTableIndex\<close>; the two slot totals
  are arrays indexed by the root type.
\<close>

record 'sam PipelineResourceSignatureD3D12Impl = "'sam SignatureBase" +
  m_pResourceAttribs :: "ResourceAttribs list"
  m_ImmutableSamplers :: "ImmutableSamplerAttribs list"
  m_RootParams :: RootParamsManager
  m_SrvCbvUavRootTablesMap :: "nat \<Rightarrow> nat option"
  m_SamplerRootTablesMap :: "nat \<Rightarrow> nat option"
  m_TotalSrvCbvUavSlots :: "ROOT_TYPE \<Rightarrow> 32 word"
  m_TotalSamplerSlots :: "ROOT_TYPE \<Rightarrow> 32 word"
  m_NumSpaces :: "32 word"
  m_pStaticResCache :: "ShaderResourceCacheD3D12 option"
  m_Hash :: "64 word"

definition IsUsingCombinedSamplers :: "('sam, 'x) SignatureBase_scheme \<Rightarrow> bool" where
  "IsUsingCombinedSamplers sig \<longleftrightarrow> CombinedSamplerSuffix (m_Desc sig) \<noteq> None"

definition IsUsingSeparateSamplers :: "('sam, 'x) SignatureBase_scheme \<Rightarrow> bool" where
  "IsUsingSeparateSamplers sig \<longleftrightarrow> \<not> IsUsingCombinedSamplers sig"

section \<open>Binding resources\<close>

text \<open>
  What a call leaves behind besides the cache: the messages it logs and the descriptor
  copies it asks the device for. \<open>DEV_CHECK_ERR\<close> logs an error when its condition
  fails, in development builds.
\<close>

datatype LogMessage =
    InvalidResourceType
  | BufferWithoutBindUniformBuffer
  | DynamicBufferNotAllowed
  | IncorrectViewType
  | ResourceAlreadyBound
  | SamplerAlreadyBound
  | IncorrectSamplerType
  | SamplerNotSetInTextureView
  | SamplersSetDirectly
  | VariableResetToNull
  | SamplerVariableResetToNull
  | NoResourceAssignedToStaticVariable
  | StaticResourceAlreadyInitialized
  | StaticResourcesAlreadyInitialized
  | SRBNotCompatible

datatype Event =
    LOG_ERROR_MESSAGE LogMessage
  | LOG_WARNING_MESSAGE LogMessage
  | CopyDescriptorsSimple "64 word" "64 word" D3D12_DESCRIPTOR_HEAP_TYPE


text \<open>
  \<open>BindResourceHelper\<close>. \<open>DstRes\<close> is a reference to an entry of the cache: the helper
  holds the root index and the offset of the entry. \<open>ReadDstRes\<close> and \<open>WriteDstRes\<close> go
  through the reference.
\<close>

record BindResourceHelper =
  DstRoot :: "32 word"
  DstOffset :: "32 word"
  ResDesc :: PipelineResourceDesc
  Attribs :: ResourceAttribs
  ArrayIndex :: "32 word"
  ShdrVisibleHeapCPUDescriptorHandle :: "64 word"

definition ReadDstRes :: "BindResourceHelper \<Rightarrow> ShaderResourceCacheD3D12 \<Rightarrow> CacheResource" where
  "ReadDstRes H c = m_RootTables c ! unat (DstRoot H) ! unat (DstOffset H)"

definition WriteDstRes ::
  "BindResourceHelper \<Rightarrow> ShaderResourceCacheD3D12 \<Rightarrow> CacheResource \<Rightarrow> ShaderResourceCacheD3D12" where
  "WriteDstRes H c Res = SetResource c (DstRoot H) (DstOffset H) Res"

text \<open>
  \<open>VerifyConstantBufferBinding\<close> and \<open>VerifyResourceViewBinding\<close>
  (ShaderResourceVariableBase.hpp), as lists of the errors they log. \<open>IsImpl\<close> says
  whether the object has the implementation class, that is whether the pointer
  \<open>pBufferImpl\<close> or \<open>pViewImpl\<close> is non-null. The expected resource dimension is
  \<open>RESOURCE_DIM_UNDEFINED\<close> at both call sites, which skips the dimension checks.
\<close>

definition VerifyConstantBufferBinding ::
  "HeaderConstants \<Rightarrow> PipelineResourceDesc \<Rightarrow> DeviceObject \<Rightarrow> DeviceObject option \<Rightarrow> Event list" where
  "VerifyConstantBufferBinding hc RD pBuffer pCachedBuffer =
     (if \<not> IsBufferD3D12 pBuffer then [LOG_ERROR_MESSAGE InvalidResourceType]
      else
        (if \<not> HasBindUniformBuffer pBuffer
         then [LOG_ERROR_MESSAGE BufferWithoutBindUniformBuffer] else [])
        @ (if IsDynamicBuffer pBuffer
              \<and> (Flags RD AND PIPELINE_RESOURCE_FLAG_NO_DYNAMIC_BUFFERS hc) \<noteq> 0
           then [LOG_ERROR_MESSAGE DynamicBufferNotAllowed] else [])
        @ (if VarType RD \<noteq> SHADER_RESOURCE_VARIABLE_TYPE_DYNAMIC \<and> pCachedBuffer \<noteq> None
              \<and> pCachedBuffer \<noteq> Some pBuffer
           then [LOG_ERROR_MESSAGE ResourceAlreadyBound] else []))"

definition VerifyResourceViewBinding ::
  "PipelineResourceDesc \<Rightarrow> DeviceObject \<Rightarrow> bool \<Rightarrow> VIEW_TYPE \<Rightarrow> DeviceObject option \<Rightarrow> Event list" where
  "VerifyResourceViewBinding RD pView IsImpl ExpectedViewType pCachedView =
     (if \<not> IsImpl then [LOG_ERROR_MESSAGE InvalidResourceType]
      else
        (if GetViewType pView \<noteq> ExpectedViewType
         then [LOG_ERROR_MESSAGE IncorrectViewType] else [])
        @ (if VarType RD \<noteq> SHADER_RESOURCE_VARIABLE_TYPE_DYNAMIC \<and> pCachedView \<noteq> None
              \<and> pCachedView \<noteq> Some pView
           then [LOG_ERROR_MESSAGE ResourceAlreadyBound] else []))"

text \<open>
  The four \<open>Cache...\<close> functions. \<open>dvp\<close> says whether \<open>DILIGENT_DEVELOPMENT\<close> is defined.
  Each takes and returns the cache and the events so far.
\<close>

definition CacheCB ::
  "HeaderConstants \<Rightarrow> bool \<Rightarrow> BindResourceHelper \<Rightarrow> DeviceObject
   \<Rightarrow> ShaderResourceCacheD3D12 \<times> Event list \<Rightarrow> ShaderResourceCacheD3D12 \<times> Event list" where
  "CacheCB hc dvp H pBuffer st =
     (case st of (c, ev) \<Rightarrow>
        let DstRes = ReadDstRes H c;
            ev1 = ev @ (if dvp then VerifyConstantBufferBinding hc (ResDesc H) pBuffer (pObject DstRes)
                        else [])
        in if IsBufferD3D12 pBuffer then
             if VarType (ResDesc H) \<noteq> SHADER_RESOURCE_VARIABLE_TYPE_DYNAMIC \<and> pObject DstRes \<noteq> None
             then (c, ev1)
             else
               let n0 = m_NumDynamicCBsBound c;
                   n1 = (if pObject DstRes \<noteq> None \<and> IsDynamicBuffer (the (pObject DstRes))
                         then n0 - 1 else n0);
                   n2 = (if IsDynamicBuffer pBuffer then n1 + 1 else n1)
               in ((WriteDstRes H c
                      \<lparr> pObject = Some pBuffer, Type = ResourceType (ResDesc H),
                        CPUDescriptorHandle = GetCPUDescriptorHandle pBuffer \<rparr>)
                     \<lparr> m_NumDynamicCBsBound := n2 \<rparr>,
                   ev1 @ (if ShdrVisibleHeapCPUDescriptorHandle H \<noteq> 0
                          then [CopyDescriptorsSimple (ShdrVisibleHeapCPUDescriptorHandle H)
                                  (GetCPUDescriptorHandle pBuffer) D3D12_DESCRIPTOR_HEAP_TYPE_CBV_SRV_UAV]
                          else []))
           else (c, ev1))"

definition CacheSampler ::
  "BindResourceHelper \<Rightarrow> DeviceObject
   \<Rightarrow> ShaderResourceCacheD3D12 \<times> Event list \<Rightarrow> ShaderResourceCacheD3D12 \<times> Event list" where
  "CacheSampler H pSampler st =
     (case st of (c, ev) \<Rightarrow>
        let DstRes = ReadDstRes H c
        in if IsSamplerD3D12 pSampler then
             if VarType (ResDesc H) \<noteq> SHADER_RESOURCE_VARIABLE_TYPE_DYNAMIC \<and> pObject DstRes \<noteq> None
             then (c, ev @ (if pObject DstRes \<noteq> Some pSampler
                            then [LOG_ERROR_MESSAGE SamplerAlreadyBound] else []))
             else
               (WriteDstRes H c
                  \<lparr> pObject = Some pSampler, Type = SHADER_RESOURCE_TYPE_SAMPLER,
                    CPUDescriptorHandle = GetCPUDescriptorHandle pSampler \<rparr>,
                ev @ (if ShdrVisibleHeapCPUDescriptorHandle H \<noteq> 0
                      then [CopyDescriptorsSimple (ShdrVisibleHeapCPUDescriptorHandle H)
                              (GetCPUDescriptorHandle pSampler) D3D12_DESCRIPTOR_HEAP_TYPE_SAMPLER]
                      else []))
           else (c, ev @ [LOG_ERROR_MESSAGE IncorrectSamplerType]))"

definition CacheAccelStruct ::
  "BindResourceHelper \<Rightarrow> DeviceObject
   \<Rightarrow> ShaderResourceCacheD3D12 \<times> Event list \<Rightarrow> ShaderResourceCacheD3D12 \<times> Event list" where
  "CacheAccelStruct H pTLAS st =
     (case st of (c, ev) \<Rightarrow>
        let DstRes = ReadDstRes H c
        in if IsTopLevelASD3D12 pTLAS then
             if VarType (ResDesc H) \<noteq> SHADER_RESOURCE_VARIABLE_TYPE_DYNAMIC \<and> pObject DstRes \<noteq> None
             then (c, ev)
             else
               (WriteDstRes H c
                  \<lparr> pObject = Some pTLAS, Type = SHADER_RESOURCE_TYPE_ACCEL_STRUCT,
                    CPUDescriptorHandle = GetCPUDescriptorHandle pTLAS \<rparr>,
                ev @ (if ShdrVisibleHeapCPUDescriptorHandle H \<noteq> 0
                      then [CopyDescriptorsSimple (ShdrVisibleHeapCPUDescriptorHandle H)
                              (GetCPUDescriptorHandle pTLAS) D3D12_DESCRIPTOR_HEAP_TYPE_CBV_SRV_UAV]
                      else []))
           else (c, ev))"

text \<open>
  \<open>CacheResourceView\<close>. The type and the handle are written first, then
  \<open>BindSamplerProc\<close> runs, then the object is written. \<open>BindSamplerProc\<close> is \<open>None\<close> when it
  reads outside an array.
\<close>

definition CacheResourceView ::
  "bool \<Rightarrow> BindResourceHelper \<Rightarrow> (DeviceObject \<Rightarrow> bool) \<Rightarrow> VIEW_TYPE
   \<Rightarrow> (DeviceObject \<Rightarrow> ShaderResourceCacheD3D12 \<times> Event list
        \<Rightarrow> (ShaderResourceCacheD3D12 \<times> Event list) option)
   \<Rightarrow> DeviceObject
   \<Rightarrow> ShaderResourceCacheD3D12 \<times> Event list \<Rightarrow> (ShaderResourceCacheD3D12 \<times> Event list) option" where
  "CacheResourceView dvp H IsImpl dbgExpectedViewType BindSamplerProc pView st =
     (case st of (c, ev) \<Rightarrow>
        let DstRes = ReadDstRes H c;
            ev1 = ev @ (if dvp then VerifyResourceViewBinding (ResDesc H) pView (IsImpl pView)
                                      dbgExpectedViewType (pObject DstRes)
                        else [])
        in if IsImpl pView then
             if VarType (ResDesc H) \<noteq> SHADER_RESOURCE_VARIABLE_TYPE_DYNAMIC \<and> pObject DstRes \<noteq> None
             then Some (c, ev1)
             else
               let c1 = WriteDstRes H c
                          (DstRes\<lparr> Type := ResourceType (ResDesc H),
                                  CPUDescriptorHandle := GetCPUDescriptorHandle pView \<rparr>);
                   ev2 = ev1 @ (if ShdrVisibleHeapCPUDescriptorHandle H \<noteq> 0
                                then [CopyDescriptorsSimple (ShdrVisibleHeapCPUDescriptorHandle H)
                                        (GetCPUDescriptorHandle pView)
                                        D3D12_DESCRIPTOR_HEAP_TYPE_CBV_SRV_UAV]
                                else [])
               in (case BindSamplerProc pView (c1, ev2) of
                     None \<Rightarrow> None
                   | Some (c2, ev3) \<Rightarrow>
                       Some (WriteDstRes H c2 ((ReadDstRes H c2)\<lparr> pObject := Some pView \<rparr>), ev3))
           else Some (c, ev1))"

text \<open>
  The procedure that \<open>BindResource\<close> passes to \<open>CacheResourceView\<close> for a texture SRV: when
  the texture is combined with a sampler that is not immutable, the sampler of the view
  is bound to the sampler's entry by a second helper. The second helper's
  \<open>BindResource\<close> is given a non-null sampler and a resource that \<open>VERIFY_EXPR\<close> states to
  be of sampler type, so of its \<open>switch\<close> the sampler case is the one modelled: any
  other resource type is \<open>None\<close>, as is an index outside the resource array or the cache.
  \<open>svh\<close> is \<open>GetShaderVisibleTableCPUDescriptorHandle\<close> of the cache, which depends on the
  descriptor heap space of the cache only.
\<close>

definition BindSamplerProc ::
  "HeaderConstants \<Rightarrow> bool \<Rightarrow> (D3D12_DESCRIPTOR_HEAP_TYPE \<Rightarrow> 32 word \<Rightarrow> 32 word \<Rightarrow> 64 word)
   \<Rightarrow> ('sam, 'x) PipelineResourceSignatureD3D12Impl_scheme \<Rightarrow> BindResourceHelper \<Rightarrow> DeviceObject
   \<Rightarrow> ShaderResourceCacheD3D12 \<times> Event list \<Rightarrow> (ShaderResourceCacheD3D12 \<times> Event list) option" where
  "BindSamplerProc hc dvp svh sig H pTexView st =
     (case st of (c, ev) \<Rightarrow>
        if IsCombinedWithSampler hc (Attribs H) then
          if unat (SamplerInd (Attribs H)) < length (Resources (m_Desc sig))
             \<and> unat (SamplerInd (Attribs H)) < length (m_pResourceAttribs sig) then
            let SamplerResDesc = Resources (m_Desc sig) ! unat (SamplerInd (Attribs H));
                SamplerAttribs = m_pResourceAttribs sig ! unat (SamplerInd (Attribs H))
            in if \<not> ImtblSamplerAssigned SamplerAttribs then
                 (case GetSampler pTexView of
                    Some pSampler \<Rightarrow>
                      let CacheType = m_ContentType c;
                          SamplerArrInd = (if ArraySize SamplerResDesc > 1 then ArrayIndex H else 0);
                          RootInd = RootIndex SamplerAttribs CacheType;
                          Offset = OffsetFromTableStart SamplerAttribs CacheType + SamplerArrInd
                      in if GetResource c RootInd Offset \<noteq> None
                            \<and> ResourceType SamplerResDesc = SHADER_RESOURCE_TYPE_SAMPLER then
                           Some (CacheSampler
                                   \<lparr> DstRoot = RootInd, DstOffset = Offset, ResDesc = SamplerResDesc,
                                     Attribs = SamplerAttribs, ArrayIndex = SamplerArrInd,
                                     ShdrVisibleHeapCPUDescriptorHandle =
                                       svh D3D12_DESCRIPTOR_HEAP_TYPE_SAMPLER RootInd Offset \<rparr>
                                   pSampler
                                   (c, ev @ (if dvp \<and> \<not> IsUsingSeparateSamplers sig
                                             then [LOG_ERROR_MESSAGE SamplersSetDirectly] else [])))
                         else None
                  | None \<Rightarrow> Some (c, ev @ [LOG_ERROR_MESSAGE SamplerNotSetInTextureView]))
               else Some (c, ev)
          else None
        else Some (c, ev))"

text \<open>
  \<open>BindResourceHelper::BindResource\<close>: the \<open>switch\<close> on the resource type for a non-null
  object, the reset of the entry (and of the entry of the combined sampler) for null.
\<close>

definition ResetToNull ::
  "HeaderConstants \<Rightarrow> ('sam, 'x) PipelineResourceSignatureD3D12Impl_scheme \<Rightarrow> BindResourceHelper
   \<Rightarrow> ShaderResourceCacheD3D12 \<times> Event list \<Rightarrow> (ShaderResourceCacheD3D12 \<times> Event list) option" where
  "ResetToNull hc sig H st =
     (case st of (c, ev) \<Rightarrow>
        let ev1 = ev @ (if pObject (ReadDstRes H c) \<noteq> None
                           \<and> VarType (ResDesc H) \<noteq> SHADER_RESOURCE_VARIABLE_TYPE_DYNAMIC
                        then [LOG_ERROR_MESSAGE VariableResetToNull] else []);
            c1 = WriteDstRes H c NullResource
        in if IsCombinedWithSampler hc (Attribs H) then
             if unat (SamplerInd (Attribs H)) < length (Resources (m_Desc sig))
                \<and> unat (SamplerInd (Attribs H)) < length (m_pResourceAttribs sig) then
               let SamplerResDesc = Resources (m_Desc sig) ! unat (SamplerInd (Attribs H));
                   SamplerAttribs = m_pResourceAttribs sig ! unat (SamplerInd (Attribs H));
                   CacheType = m_ContentType c1;
                   SamplerArrInd = (if ArraySize SamplerResDesc > 1 then ArrayIndex H else 0);
                   RootInd = RootIndex SamplerAttribs CacheType;
                   Offset = OffsetFromTableStart SamplerAttribs CacheType + SamplerArrInd
               in (case GetResource c1 RootInd Offset of
                     None \<Rightarrow> None
                   | Some DstSam \<Rightarrow>
                       Some (SetResource c1 RootInd Offset NullResource,
                             ev1 @ (if pObject DstSam \<noteq> None
                                       \<and> VarType SamplerResDesc \<noteq> SHADER_RESOURCE_VARIABLE_TYPE_DYNAMIC
                                    then [LOG_ERROR_MESSAGE SamplerVariableResetToNull] else [])))
             else None
           else Some (c1, ev1))"

definition Helper_BindResource ::
  "HeaderConstants \<Rightarrow> bool \<Rightarrow> (D3D12_DESCRIPTOR_HEAP_TYPE \<Rightarrow> 32 word \<Rightarrow> 32 word \<Rightarrow> 64 word)
   \<Rightarrow> ('sam, 'x) PipelineResourceSignatureD3D12Impl_scheme \<Rightarrow> BindResourceHelper
   \<Rightarrow> DeviceObject option
   \<Rightarrow> ShaderResourceCacheD3D12 \<times> Event list \<Rightarrow> (ShaderResourceCacheD3D12 \<times> Event list) option" where
  "Helper_BindResource hc dvp svh sig H pObj st =
     (case pObj of
        Some Obj \<Rightarrow>
          (case ResourceType (ResDesc H) of
             SHADER_RESOURCE_TYPE_CONSTANT_BUFFER \<Rightarrow> Some (CacheCB hc dvp H Obj st)
           | SHADER_RESOURCE_TYPE_TEXTURE_SRV \<Rightarrow>
               CacheResourceView dvp H IsTextureViewD3D12 VIEW_SHADER_RESOURCE
                 (BindSamplerProc hc dvp svh sig H) Obj st
           | SHADER_RESOURCE_TYPE_TEXTURE_UAV \<Rightarrow>
               CacheResourceView dvp H IsTextureViewD3D12 VIEW_UNORDERED_ACCESS
                 (\<lambda>pView s. Some s) Obj st
           | SHADER_RESOURCE_TYPE_BUFFER_SRV \<Rightarrow>
               CacheResourceView dvp H IsBufferViewD3D12 VIEW_SHADER_RESOURCE
                 (\<lambda>pView s. Some s) Obj st
           | SHADER_RESOURCE_TYPE_BUFFER_UAV \<Rightarrow>
               CacheResourceView dvp H IsBufferViewD3D12 VIEW_UNORDERED_ACCESS
                 (\<lambda>pView s. Some s) Obj st
           | SHADER_RESOURCE_TYPE_SAMPLER \<Rightarrow>
               Some (CacheSampler H Obj
                       (fst st, snd st @ (if dvp \<and> \<not> IsUsingSeparateSamplers sig
                                          then [LOG_ERROR_MESSAGE SamplersSetDirectly] else [])))
           | SHADER_RESOURCE_TYPE_ACCEL_STRUCT \<Rightarrow> Some (CacheAccelStruct H Obj st)
           | SHADER_RESOURCE_TYPE_UNKNOWN \<Rightarrow> Some st
           | SHADER_RESOURCE_TYPE_INPUT_ATTACHMENT \<Rightarrow> Some st)
      | None \<Rightarrow> ResetToNull hc sig H st)"

text \<open>
  \<open>PipelineResourceSignatureD3D12Impl::BindResource\<close>. The result is the cache after the
  call and the events of the call; \<open>None\<close> when the resource index or the entry is
  outside its array.
\<close>

definition BindResource ::
  "HeaderConstants \<Rightarrow> bool \<Rightarrow> (D3D12_DESCRIPTOR_HEAP_TYPE \<Rightarrow> 32 word \<Rightarrow> 32 word \<Rightarrow> 64 word)
   \<Rightarrow> ('sam, 'x) PipelineResourceSignatureD3D12Impl_scheme
   \<Rightarrow> DeviceObject option \<Rightarrow> 32 word \<Rightarrow> nat \<Rightarrow> ShaderResourceCacheD3D12
   \<Rightarrow> (ShaderResourceCacheD3D12 \<times> Event list) option" where
  "BindResource hc dvp svh sig pObj ArrayInd ResIndex ResourceCache =
     (if ResIndex < length (Resources (m_Desc sig)) \<and> ResIndex < length (m_pResourceAttribs sig) then
        let RD = Resources (m_Desc sig) ! ResIndex;
            Attr = m_pResourceAttribs sig ! ResIndex;
            IsSampler = (ResourceType RD = SHADER_RESOURCE_TYPE_SAMPLER);
            CacheType = m_ContentType ResourceCache;
            RootInd = RootIndex Attr CacheType;
            Offset = OffsetFromTableStart Attr CacheType + ArrayInd
        in if GetResource ResourceCache RootInd Offset \<noteq> None then
             Helper_BindResource hc dvp svh sig
               \<lparr> DstRoot = RootInd, DstOffset = Offset, ResDesc = RD, Attribs = Attr,
                 ArrayIndex = ArrayInd,
                 ShdrVisibleHeapCPUDescriptorHandle =
                   (if IsSampler then svh D3D12_DESCRIPTOR_HEAP_TYPE_SAMPLER RootInd Offset
                    else svh D3D12_DESCRIPTOR_HEAP_TYPE_CBV_SRV_UAV RootInd Offset) \<rparr>
               pObj (ResourceCache, [])
           else None
      else None)"

text \<open>
  \<open>PipelineResourceSignatureD3D12Impl::IsBound\<close>. \<open>OffsetFromTableStart\<close> already includes
  \<open>ArrayIndex\<close>; the size test and the read add \<open>ArrayIndex\<close> to it once more, as the
  source does.
\<close>

definition IsBound ::
  "('sam, 'x) PipelineResourceSignatureD3D12Impl_scheme \<Rightarrow> 32 word \<Rightarrow> nat \<Rightarrow> ShaderResourceCacheD3D12
   \<Rightarrow> bool option" where
  "IsBound sig ArrayInd ResIndex ResourceCache =
     (if ResIndex < length (Resources (m_Desc sig)) \<and> ResIndex < length (m_pResourceAttribs sig) then
        let Attr = m_pResourceAttribs sig ! ResIndex;
            CacheType = m_ContentType ResourceCache;
            RootInd = RootIndex Attr CacheType;
            Offset = OffsetFromTableStart Attr CacheType + ArrayInd
        in if unat RootInd < GetNumRootTables ResourceCache then
             let RootTable = m_RootTables ResourceCache ! unat RootInd
             in if unat (Offset + ArrayInd) < length RootTable then
                  (if pObject (RootTable ! unat (Offset + ArrayInd)) \<noteq> None then Some True
                   else Some False)
                else Some False
           else Some False
      else None)"

section \<open>Layout of the signature (CreateLayout)\<close>

text \<open>
  The shader stage bits, with the values of the public header of the engine (the
  header is not among the sources).
\<close>

definition SHADER_TYPE_VERTEX :: SHADER_TYPE where "SHADER_TYPE_VERTEX = 0x0001"

definition SHADER_TYPE_PIXEL :: SHADER_TYPE where "SHADER_TYPE_PIXEL = 0x0002"

definition SHADER_TYPE_GEOMETRY :: SHADER_TYPE where "SHADER_TYPE_GEOMETRY = 0x0004"

definition SHADER_TYPE_HULL :: SHADER_TYPE where "SHADER_TYPE_HULL = 0x0008"

definition SHADER_TYPE_DOMAIN :: SHADER_TYPE where "SHADER_TYPE_DOMAIN = 0x0010"

definition SHADER_TYPE_COMPUTE :: SHADER_TYPE where "SHADER_TYPE_COMPUTE = 0x0020"

definition SHADER_TYPE_AMPLIFICATION :: SHADER_TYPE where "SHADER_TYPE_AMPLIFICATION = 0x0040"

definition SHADER_TYPE_MESH :: SHADER_TYPE where "SHADER_TYPE_MESH = 0x0080"

definition SHADER_TYPE_RAY_GEN :: SHADER_TYPE where "SHADER_TYPE_RAY_GEN = 0x0100"

definition SHADER_TYPE_RAY_MISS :: SHADER_TYPE where "SHADER_TYPE_RAY_MISS = 0x0200"

definition SHADER_TYPE_RAY_CLOSEST_HIT :: SHADER_TYPE where "SHADER_TYPE_RAY_CLOSEST_HIT = 0x0400"

definition SHADER_TYPE_RAY_ANY_HIT :: SHADER_TYPE where "SHADER_TYPE_RAY_ANY_HIT = 0x0800"

definition SHADER_TYPE_RAY_INTERSECTION :: SHADER_TYPE where "SHADER_TYPE_RAY_INTERSECTION = 0x1000"

definition SHADER_TYPE_CALLABLE :: SHADER_TYPE where "SHADER_TYPE_CALLABLE = 0x2000"

text \<open>
  \<open>GetDescriptorRangeType\<close>; \<open>None\<close> is the \<open>default\<close> branch, whose result \<open>~0u\<close> is no
  range type. \<open>RangeTypeIdx\<close> is the value of a range type, used as an array index.
\<close>

fun GetDescriptorRangeType :: "SHADER_RESOURCE_TYPE \<Rightarrow> D3D12_DESCRIPTOR_RANGE_TYPE option" where
  "GetDescriptorRangeType SHADER_RESOURCE_TYPE_CONSTANT_BUFFER = Some D3D12_DESCRIPTOR_RANGE_TYPE_CBV"
| "GetDescriptorRangeType SHADER_RESOURCE_TYPE_TEXTURE_SRV = Some D3D12_DESCRIPTOR_RANGE_TYPE_SRV"
| "GetDescriptorRangeType SHADER_RESOURCE_TYPE_BUFFER_SRV = Some D3D12_DESCRIPTOR_RANGE_TYPE_SRV"
| "GetDescriptorRangeType SHADER_RESOURCE_TYPE_TEXTURE_UAV = Some D3D12_DESCRIPTOR_RANGE_TYPE_UAV"
| "GetDescriptorRangeType SHADER_RESOURCE_TYPE_BUFFER_UAV = Some D3D12_DESCRIPTOR_RANGE_TYPE_UAV"
| "GetDescriptorRangeType SHADER_RESOURCE_TYPE_SAMPLER = Some D3D12_DESCRIPTOR_RANGE_TYPE_SAMPLER"
| "GetDescriptorRangeType SHADER_RESOURCE_TYPE_ACCEL_STRUCT = Some D3D12_DESCRIPTOR_RANGE_TYPE_SRV"
| "GetDescriptorRangeType SHADER_RESOURCE_TYPE_INPUT_ATTACHMENT = None"
| "GetDescriptorRangeType SHADER_RESOURCE_TYPE_UNKNOWN = None"

fun RangeTypeIdx :: "D3D12_DESCRIPTOR_RANGE_TYPE \<Rightarrow> nat" where
  "RangeTypeIdx D3D12_DESCRIPTOR_RANGE_TYPE_SRV = 0"
| "RangeTypeIdx D3D12_DESCRIPTOR_RANGE_TYPE_UAV = 1"
| "RangeTypeIdx D3D12_DESCRIPTOR_RANGE_TYPE_CBV = 2"
| "RangeTypeIdx D3D12_DESCRIPTOR_RANGE_TYPE_SAMPLER = 3"

text \<open>
  \<open>GetRootTableIndex\<close>: the visibility and the table bucket of a stage mask. \<open>None\<close> is
  the \<open>default\<close> branch, which leaves both outputs unset. The two mesh pipeline cases are
  those compiled with \<open>D3D12_H_HAS_MESH_SHADER\<close>.
\<close>

definition GetRootTableIndex :: "SHADER_TYPE \<Rightarrow> (D3D12_SHADER_VISIBILITY \<times> nat) option" where
  "GetRootTableIndex ShaderType =
     (if (ShaderType AND (ShaderType - 1)) \<noteq> 0 then Some (D3D12_SHADER_VISIBILITY_ALL, 0)
      else if ShaderType = SHADER_TYPE_PIXEL then Some (D3D12_SHADER_VISIBILITY_PIXEL, 1)
      else if ShaderType = SHADER_TYPE_VERTEX then Some (D3D12_SHADER_VISIBILITY_VERTEX, 2)
      else if ShaderType = SHADER_TYPE_GEOMETRY then Some (D3D12_SHADER_VISIBILITY_GEOMETRY, 3)
      else if ShaderType = SHADER_TYPE_HULL then Some (D3D12_SHADER_VISIBILITY_HULL, 4)
      else if ShaderType = SHADER_TYPE_DOMAIN then Some (D3D12_SHADER_VISIBILITY_DOMAIN, 5)
      else if ShaderType = SHADER_TYPE_AMPLIFICATION then Some (D3D12_SHADER_VISIBILITY_AMPLIFICATION, 2)
      else if ShaderType = SHADER_TYPE_MESH then Some (D3D12_SHADER_VISIBILITY_MESH, 3)
      else if ShaderType = SHADER_TYPE_COMPUTE \<or> ShaderType = SHADER_TYPE_RAY_GEN
              \<or> ShaderType = SHADER_TYPE_RAY_MISS \<or> ShaderType = SHADER_TYPE_RAY_CLOSEST_HIT
              \<or> ShaderType = SHADER_TYPE_RAY_ANY_HIT \<or> ShaderType = SHADER_TYPE_RAY_INTERSECTION
              \<or> ShaderType = SHADER_TYPE_CALLABLE
           then Some (D3D12_SHADER_VISIBILITY_ALL, 0)
      else None)"

definition GetRootType :: "SHADER_RESOURCE_VARIABLE_TYPE \<Rightarrow> ROOT_TYPE" where
  "GetRootType VarTy =
     (if VarTy = SHADER_RESOURCE_VARIABLE_TYPE_DYNAMIC then ROOT_TYPE_DYNAMIC else ROOT_TYPE_STATIC)"

text \<open>
  \<open>AllocateResourceSlot\<close>. The result is the signature with the new root parameter or
  range, and the two output parameters \<open>RootIndex\<close> and \<open>OffsetFromTableStart\<close>. The number
  of root tables is stored in the map as it is: the cast to \<open>Uint8\<close> changes nothing,
  there being at most 24 keys in the two maps.
\<close>

definition AllocateResourceSlot ::
  "('sam, 'x) PipelineResourceSignatureD3D12Impl_scheme \<Rightarrow> SHADER_TYPE
   \<Rightarrow> SHADER_RESOURCE_VARIABLE_TYPE \<Rightarrow> D3D12_DESCRIPTOR_RANGE_TYPE \<Rightarrow> 32 word \<Rightarrow> bool
   \<Rightarrow> 32 word \<Rightarrow> 32 word
   \<Rightarrow> (('sam, 'x) PipelineResourceSignatureD3D12Impl_scheme \<times> nat \<times> 32 word) option" where
  "AllocateResourceSlot sig Stages VariableType RType ArrSize IsRootView BindPt RegSpace =
     (case GetRootTableIndex Stages of
        None \<Rightarrow> None
      | Some (Visibility, RootTableIndex) \<Rightarrow>
          let RootType = GetRootType VariableType;
              RootIdx = length (m_pRootTables (m_RootParams sig))
                        + length (m_pRootViews (m_RootParams sig))
          in if IsRootView then
               (case AddRootView (m_RootParams sig) D3D12_ROOT_PARAMETER_TYPE_CBV RootIdx BindPt
                       RegSpace Visibility RootType of
                  None \<Rightarrow> None
                | Some M \<Rightarrow> Some (sig\<lparr> m_RootParams := M \<rparr>, RootIdx, 0))
             else
               let IsSampler = (RType = D3D12_DESCRIPTOR_RANGE_TYPE_SAMPLER);
                   TableIndKey = RootTableIndex * ROOT_TYPE_COUNT + RootTypeIdx RootType;
                   TablesMap = (if IsSampler then m_SamplerRootTablesMap sig
                                else m_SrvCbvUavRootTablesMap sig)
               in (case (case TablesMap TableIndKey of
                           None \<Rightarrow>
                             map_option
                               (\<lambda>M. (length (m_pRootTables (m_RootParams sig)), True, M))
                               (AddRootTable (m_RootParams sig) RootIdx Visibility RootType 1)
                         | Some Ind \<Rightarrow>
                             map_option (\<lambda>M. (Ind, False, M))
                               (AddDescriptorRanges (m_RootParams sig) Ind 1)) of
                     None \<Rightarrow> None
                   | Some (RootTableArrayInd, IsNew, M) \<Rightarrow>
                       if RootTableArrayInd < length (m_pRootTables M) then
                         let CurrParam = m_pRootTables M ! RootTableArrayInd;
                             Offset = m_DescriptorTableSize CurrParam;
                             NewDescriptorRangeIndex = NumDescriptorRanges CurrParam - 1
                         in (case SetDescriptorRange M RootTableArrayInd NewDescriptorRangeIndex
                                    RType BindPt RegSpace ArrSize Offset of
                               None \<Rightarrow> None
                             | Some M1 \<Rightarrow>
                                 Some (sig\<lparr>
                                   m_RootParams := M1,
                                   m_SrvCbvUavRootTablesMap :=
                                     (if IsNew \<and> \<not> IsSampler
                                      then (m_SrvCbvUavRootTablesMap sig)(TableIndKey \<mapsto> RootTableArrayInd)
                                      else m_SrvCbvUavRootTablesMap sig),
                                   m_SamplerRootTablesMap :=
                                     (if IsNew \<and> IsSampler
                                      then (m_SamplerRootTablesMap sig)(TableIndKey \<mapsto> RootTableArrayInd)
                                      else m_SamplerRootTablesMap sig),
                                   m_TotalSrvCbvUavSlots :=
                                     (if IsSampler then m_TotalSrvCbvUavSlots sig
                                      else (m_TotalSrvCbvUavSlots sig)
                                             (RootType := m_TotalSrvCbvUavSlots sig RootType + ArrSize)),
                                   m_TotalSamplerSlots :=
                                     (if IsSampler
                                      then (m_TotalSamplerSlots sig)
                                             (RootType := m_TotalSamplerSlots sig RootType + ArrSize)
                                      else m_TotalSamplerSlots sig) \<rparr>,
                                   m_RootIndex CurrParam, Offset))
                       else None))"

text \<open>
  Modelled from the spec: \<open>StreqSuff\<close>, declared in a header that is not among the
  sources. A sampler is matched "by name + optional suffix": the first string equals
  the second followed by the suffix, a null suffix being empty.
\<close>

definition StreqSuff :: "string \<Rightarrow> string \<Rightarrow> string option \<Rightarrow> bool" where
  "StreqSuff RefStr Str Suff \<longleftrightarrow> RefStr = Str @ (case Suff of None \<Rightarrow> [] | Some s \<Rightarrow> s)"

text \<open>
  \<open>FindImmutableSampler\<close> of the D3D12 file: the index of the first immutable sampler
  that overlaps the stages of the resource and matches its name, \<open>None\<close> for \<open>-1\<close>.
\<close>

fun FindImmutableSamplerFrom ::
  "'sam ImmutableSamplerDesc list \<Rightarrow> nat \<Rightarrow> PipelineResourceDesc \<Rightarrow> string option \<Rightarrow> nat option" where
  "FindImmutableSamplerFrom [] s Res SamplerSuffix = None"
| "FindImmutableSamplerFrom (ImtblSam # rest) s Res SamplerSuffix =
     (if (SamShaderStages ImtblSam AND ShaderStages Res) \<noteq> 0
         \<and> StreqSuff (Name Res) (SamplerOrTextureName ImtblSam) SamplerSuffix
      then Some s
      else FindImmutableSamplerFrom rest (Suc s) Res SamplerSuffix)"

definition FindImmutableSampler ::
  "PipelineResourceDesc \<Rightarrow> 'sam PipelineResourceSignatureDesc \<Rightarrow> string option \<Rightarrow> nat option" where
  "FindImmutableSampler Res Desc SamplerSuffix =
     FindImmutableSamplerFrom (ImmutableSamplers Desc) 0 Res SamplerSuffix"

text \<open>
  \<open>FindAssignedSampler\<close>: the first sampler in the index range of the variable class of
  the texture that overlaps its stages and whose name is the name of the texture with
  the suffix; \<open>InvalidSamplerInd\<close> when there is none or combined samplers are not used.
  The loop is over the indices of the range; a range that reaches outside the resource
  array is \<open>None\<close>.
\<close>

fun FindAssignedSamplerIn ::
  "PipelineResourceDesc list \<Rightarrow> nat list \<Rightarrow> PipelineResourceDesc \<Rightarrow> string option \<Rightarrow> nat option" where
  "FindAssignedSamplerIn Rs [] SepImg Suffix = None"
| "FindAssignedSamplerIn Rs (i # rest) SepImg Suffix =
     (if ResourceType (Rs ! i) = SHADER_RESOURCE_TYPE_SAMPLER
         \<and> (ShaderStages SepImg AND ShaderStages (Rs ! i)) \<noteq> 0
         \<and> StreqSuff (Name (Rs ! i)) (Name SepImg) Suffix
      then Some i
      else FindAssignedSamplerIn Rs rest SepImg Suffix)"

definition FindAssignedSampler ::
  "HeaderConstants \<Rightarrow> ('sam, 'x) SignatureBase_scheme \<Rightarrow> PipelineResourceDesc \<Rightarrow> 32 word option" where
  "FindAssignedSampler hc sig SepImg =
     (if IsUsingCombinedSamplers sig then
        let first = unat (m_ResourceOffsets sig ! VarIdx (VarType SepImg));
            iEnd = unat (m_ResourceOffsets sig ! (VarIdx (VarType SepImg) + 1))
        in if iEnd \<le> length (Resources (m_Desc sig)) then
             (case FindAssignedSamplerIn (Resources (m_Desc sig)) [first..<iEnd] SepImg
                     (CombinedSamplerSuffix (m_Desc sig)) of
                None \<Rightarrow> Some (InvalidSamplerInd hc)
              | Some i \<Rightarrow> Some (of_nat i))
           else None
      else Some (InvalidSamplerInd hc))"

text \<open>
  The two local counter arrays of \<open>CreateLayout\<close>, indexed by the descriptor range type.
\<close>

record LayoutCounters =
  NumResources :: "D3D12_DESCRIPTOR_RANGE_TYPE \<Rightarrow> 32 word"
  StaticResCacheTblSizes :: "D3D12_DESCRIPTOR_RANGE_TYPE \<Rightarrow> 32 word"

definition ZeroCounters :: LayoutCounters where
  "ZeroCounters = \<lparr> NumResources = (\<lambda>t. 0), StaticResCacheTblSizes = (\<lambda>t. 0) \<rparr>"

text \<open>
  One iteration of the first loop of \<open>CreateLayout\<close>, for the resource \<open>RD\<close>: the
  signature and the counters after it. The attributes of the resource are constructed
  at the next place of \<open>m_pResourceAttribs\<close>. The iteration is \<open>None\<close> when the resource
  type has no range type, when the slot allocation fails, or when a read is outside an
  array.
\<close>

definition CreateLayoutStep ::
  "HeaderConstants \<Rightarrow> PipelineResourceDesc
   \<Rightarrow> ('sam, 'x) PipelineResourceSignatureD3D12Impl_scheme \<times> LayoutCounters
   \<Rightarrow> (('sam, 'x) PipelineResourceSignatureD3D12Impl_scheme \<times> LayoutCounters) option" where
  "CreateLayoutStep hc RD st =
     (case st of (sig, L) \<Rightarrow>
      case GetDescriptorRangeType (ResourceType RD) of
        None \<Rightarrow> None
      | Some DescriptorRangeType \<Rightarrow>
          let FirstSpace = BaseRegisterSpace hc;
              IsRuntimeSizedArray = ((Flags RD AND PIPELINE_RESOURCE_FLAG_RUNTIME_ARRAY hc) \<noteq> 0);
              BindPt = (if IsRuntimeSizedArray then 0 else NumResources L DescriptorRangeType);
              RegSpace = (if IsRuntimeSizedArray then m_NumSpaces sig else 0);
              sig1 = (if IsRuntimeSizedArray then sig\<lparr> m_NumSpaces := m_NumSpaces sig + 1 \<rparr> else sig);
              IsStatic = (VarType RD = SHADER_RESOURCE_VARIABLE_TYPE_STATIC);
              SigRootInd = (if IsStatic then of_nat (RangeTypeIdx DescriptorRangeType)
                            else InvalidSigRootIndex hc);
              SigOffset = (if IsStatic then StaticResCacheTblSizes L DescriptorRangeType
                           else InvalidOffset hc);
              L1 = (if IsStatic
                    then L\<lparr> StaticResCacheTblSizes := (StaticResCacheTblSizes L)
                             (DescriptorRangeType :=
                                StaticResCacheTblSizes L DescriptorRangeType + ArraySize RD) \<rparr>
                    else L);
              IsBuffer = (ResourceType RD = SHADER_RESOURCE_TYPE_CONSTANT_BUFFER
                          \<or> ResourceType RD = SHADER_RESOURCE_TYPE_BUFFER_SRV
                          \<or> ResourceType RD = SHADER_RESOURCE_TYPE_BUFFER_UAV);
              UseDynamicOffset = ((Flags RD AND PIPELINE_RESOURCE_FLAG_NO_DYNAMIC_BUFFERS hc) = 0);
              IsFormattedBuffer = ((Flags RD AND PIPELINE_RESOURCE_FLAG_FORMATTED_BUFFER hc) \<noteq> 0);
              IsRootView = (IsBuffer \<and> UseDynamicOffset \<and> \<not> IsFormattedBuffer);
              L2 = (if \<not> IsRuntimeSizedArray
                    then L1\<lparr> NumResources := (NumResources L1)
                              (DescriptorRangeType :=
                                 NumResources L1 DescriptorRangeType + ArraySize RD) \<rparr>
                    else L1);
              SrcImmutableSamplerInd =
                (if ResourceType RD = SHADER_RESOURCE_TYPE_SAMPLER
                 then FindImmutableSampler RD (m_Desc sig1) (CombinedSamplerSuffix (m_Desc sig1))
                 else None)
          in (case (if SrcImmutableSamplerInd = None
                       \<and> ResourceType RD = SHADER_RESOURCE_TYPE_TEXTURE_SRV
                    then FindAssignedSampler hc sig1 RD else Some (InvalidSamplerInd hc)) of
                None \<Rightarrow> None
              | Some AssignedSamplerInd \<Rightarrow>
                  (case SrcImmutableSamplerInd of
                     Some s \<Rightarrow>
                       if s < length (m_ImmutableSamplers sig1) then
                         let ImmutableSampler = m_ImmutableSamplers sig1 ! s;
                             Attr = \<lparr> BindPoint = BindPt, Space = RegSpace,
                                      SamplerInd = AssignedSamplerInd,
                                      SRBRootIndex = InvalidSRBRootIndex hc,
                                      SRBOffsetFromTableStart = InvalidOffset hc,
                                      SigRootIndex = SigRootInd,
                                      SigOffsetFromTableStart = SigOffset,
                                      ImtblSamplerAssigned = True, RootView = IsRootView \<rparr>
                         in if \<not> Sam_IsAssigned ImmutableSampler then
                              Some (sig1\<lparr>
                                      m_ImmutableSamplers := (m_ImmutableSamplers sig1)
                                        [s := \<lparr> Sam_ArraySize = ArraySize RD,
                                                Sam_ShaderRegister = BindPt,
                                                Sam_RegisterSpace = RegSpace,
                                                Sam_IsAssigned = True \<rparr>],
                                      m_pResourceAttribs := m_pResourceAttribs sig1 @ [Attr] \<rparr>,
                                    L2)
                            else
                              Some (sig1\<lparr> m_pResourceAttribs := m_pResourceAttribs sig1 @ [Attr] \<rparr>,
                                    (if \<not> IsRuntimeSizedArray
                                     then L2\<lparr> NumResources := (NumResources L2)
                                               (DescriptorRangeType :=
                                                  NumResources L2 DescriptorRangeType - ArraySize RD) \<rparr>
                                     else L2))
                       else None
                   | None \<Rightarrow>
                       (case AllocateResourceSlot sig1 (ShaderStages RD) (VarType RD)
                               DescriptorRangeType (ArraySize RD) IsRootView BindPt
                               (FirstSpace + RegSpace) of
                          None \<Rightarrow> None
                        | Some (sig2, SRBRootInd, SRBOffset) \<Rightarrow>
                            Some (sig2\<lparr> m_pResourceAttribs := m_pResourceAttribs sig2 @
                                    [\<lparr> BindPoint = BindPt, Space = RegSpace,
                                       SamplerInd = AssignedSamplerInd,
                                       SRBRootIndex = of_nat SRBRootInd,
                                       SRBOffsetFromTableStart = SRBOffset,
                                       SigRootIndex = SigRootInd,
                                       SigOffsetFromTableStart = SigOffset,
                                       ImtblSamplerAssigned = False, RootView = IsRootView \<rparr>] \<rparr>,
                                  L2)))))"

fun CreateLayoutLoop ::
  "HeaderConstants \<Rightarrow> PipelineResourceDesc list
   \<Rightarrow> ('sam, 'x) PipelineResourceSignatureD3D12Impl_scheme \<times> LayoutCounters
   \<Rightarrow> (('sam, 'x) PipelineResourceSignatureD3D12Impl_scheme \<times> LayoutCounters) option" where
  "CreateLayoutLoop hc [] st = Some st"
| "CreateLayoutLoop hc (RD # rest) st =
     (case CreateLayoutStep hc RD st of
        None \<Rightarrow> None
      | Some st1 \<Rightarrow> CreateLayoutLoop hc rest st1)"

text \<open>
  The second loop: every immutable sampler that no resource took gets the next sampler
  register in the base space.
\<close>

fun AssignImmutableSamplers ::
  "HeaderConstants \<Rightarrow> ImmutableSamplerAttribs list \<Rightarrow> 32 word \<Rightarrow> ImmutableSamplerAttribs list" where
  "AssignImmutableSamplers hc [] n = []"
| "AssignImmutableSamplers hc (ImmutableSampler # rest) n =
     (if Sam_IsAssigned ImmutableSampler
      then ImmutableSampler # AssignImmutableSamplers hc rest n
      else ImmutableSampler\<lparr> Sam_RegisterSpace := BaseRegisterSpace hc, Sam_ShaderRegister := n,
                               Sam_IsAssigned := True \<rparr>
           # AssignImmutableSamplers hc rest (n + 1))"

text \<open>
  \<open>CreateLayout\<close>: the two loops. What follows them in the source sets up the memory
  allocator of the binding contexts and changes nothing that is modelled here.
\<close>

definition CreateLayout ::
  "HeaderConstants \<Rightarrow> ('sam, 'x) PipelineResourceSignatureD3D12Impl_scheme
   \<Rightarrow> ('sam, 'x) PipelineResourceSignatureD3D12Impl_scheme option" where
  "CreateLayout hc sig =
     (case CreateLayoutLoop hc (Resources (m_Desc sig)) (sig, ZeroCounters) of
        None \<Rightarrow> None
      | Some (sig1, L) \<Rightarrow>
          Some (sig1\<lparr> m_ImmutableSamplers :=
                  AssignImmutableSamplers hc (m_ImmutableSamplers sig1)
                    (NumResources L D3D12_DESCRIPTOR_RANGE_TYPE_SAMPLER) \<rparr>))"

section \<open>Hash and compatibility\<close>

text \<open>
  \<open>ComputeHash\<close> and \<open>HashCombine\<close> are templates of a header that is not among the
  sources: they are parameters of the model. Their arguments are values of several
  types, hashed by type.
\<close>

datatype 'sam HashArg = HashU32 "32 word" | HashU8 "8 word" | HashBool bool | HashSamplerDesc 'sam

record 'sam HashFunctions =
  ComputeHash :: "'sam HashArg list \<Rightarrow> 64 word"
  HashCombine :: "64 word \<Rightarrow> 'sam HashArg list \<Rightarrow> 64 word"

definition ResourceHashArgs :: "PipelineResourceDesc \<Rightarrow> ResourceAttribs \<Rightarrow> 'sam HashArg list" where
  "ResourceHashArgs Res Attr =
     [HashU32 (ArraySize Res), HashU32 (ShaderStages Res), HashU32 (of_nat (VarIdx (VarType Res))),
      HashU32 (ucast (Flags Res)), HashU32 (BindPoint Attr), HashU32 (Space Attr),
      HashU32 (SRBRootIndex Attr), HashU32 (SRBOffsetFromTableStart Attr),
      HashBool (ImtblSamplerAssigned Attr)]"

definition CalculateHash ::
  "'sam HashFunctions \<Rightarrow> ('sam, 'x) PipelineResourceSignatureD3D12Impl_scheme \<Rightarrow> 64 word" where
  "CalculateHash hf sig =
     (if length (Resources (m_Desc sig)) = 0 \<and> length (ImmutableSamplers (m_Desc sig)) = 0 then 0
      else
        fold (\<lambda>Sam Hash. HashCombine hf Hash
                [HashU32 (SamShaderStages Sam), HashSamplerDesc (SamDesc Sam)])
          (ImmutableSamplers (m_Desc sig))
          (fold (\<lambda>(Res, Attr) Hash. HashCombine hf Hash (ResourceHashArgs Res Attr))
             (zip (Resources (m_Desc sig)) (m_pResourceAttribs sig))
             (ComputeHash hf
                [HashU32 (of_nat (length (Resources (m_Desc sig)))),
                 HashU32 (of_nat (length (ImmutableSamplers (m_Desc sig)))),
                 HashU8 (BindingIndex (m_Desc sig))])))"

definition GetHash :: "('sam, 'x) PipelineResourceSignatureD3D12Impl_scheme \<Rightarrow> 64 word" where
  "GetHash sig = m_Hash sig"

definition ResourcesCompatibleAttribs :: "ResourceAttribs \<Rightarrow> ResourceAttribs \<Rightarrow> bool" where
  "ResourcesCompatibleAttribs lhs rhs \<longleftrightarrow>
     BindPoint lhs = BindPoint rhs \<and> Space lhs = Space rhs
     \<and> SRBRootIndex lhs = SRBRootIndex rhs
     \<and> SRBOffsetFromTableStart lhs = SRBOffsetFromTableStart rhs
     \<and> ImtblSamplerAssigned lhs = ImtblSamplerAssigned rhs"

definition ResourcesCompatibleDesc :: "PipelineResourceDesc \<Rightarrow> PipelineResourceDesc \<Rightarrow> bool" where
  "ResourcesCompatibleDesc lhs rhs \<longleftrightarrow>
     ShaderStages lhs = ShaderStages rhs \<and> ArraySize lhs = ArraySize rhs
     \<and> ResourceType lhs = ResourceType rhs \<and> VarType lhs = VarType rhs \<and> Flags lhs = Flags rhs"

definition IsCompatibleWith ::
  "('sam, 'x) PipelineResourceSignatureD3D12Impl_scheme
   \<Rightarrow> ('sam, 'y) PipelineResourceSignatureD3D12Impl_scheme \<Rightarrow> bool" where
  "IsCompatibleWith sig Other =
     (if GetHash sig \<noteq> GetHash Other then False
      else if BindingIndex (m_Desc sig) \<noteq> BindingIndex (m_Desc Other) then False
      else if length (Resources (m_Desc sig)) \<noteq> length (Resources (m_Desc Other)) then False
      else if \<not> list_all
                (\<lambda>r. ResourcesCompatibleAttribs (m_pResourceAttribs sig ! r) (m_pResourceAttribs Other ! r)
                     \<and> ResourcesCompatibleDesc (Resources (m_Desc sig) ! r) (Resources (m_Desc Other) ! r))
                [0..<length (Resources (m_Desc sig))] then False
      else if length (ImmutableSamplers (m_Desc sig)) \<noteq> length (ImmutableSamplers (m_Desc Other))
           then False
      else list_all
             (\<lambda>s. SamShaderStages (ImmutableSamplers (m_Desc sig) ! s)
                      = SamShaderStages (ImmutableSamplers (m_Desc Other) ! s)
                  \<and> SamDesc (ImmutableSamplers (m_Desc sig) ! s)
                      = SamDesc (ImmutableSamplers (m_Desc Other) ! s))
             [0..<length (ImmutableSamplers (m_Desc sig))])"

section \<open>Construction of the signature\<close>

text \<open>
  The first loop of the constructor, over the resources of the description: the sizes
  of the four tables of the static cache and the stages that have static resources.
  A static resource whose type has no range type indexes outside the size array:
  \<open>None\<close>.
\<close>

fun StaticCacheSizes ::
  "PipelineResourceDesc list \<Rightarrow> (D3D12_DESCRIPTOR_RANGE_TYPE \<Rightarrow> 32 word) \<times> SHADER_TYPE
   \<Rightarrow> ((D3D12_DESCRIPTOR_RANGE_TYPE \<Rightarrow> 32 word) \<times> SHADER_TYPE) option" where
  "StaticCacheSizes [] acc = Some acc"
| "StaticCacheSizes (RD # rest) acc =
     (if VarType RD = SHADER_RESOURCE_VARIABLE_TYPE_STATIC then
        (case GetDescriptorRangeType (ResourceType RD) of
           None \<Rightarrow> None
         | Some RootInd \<Rightarrow>
             StaticCacheSizes rest
               ((fst acc)(RootInd := fst acc RootInd + ArraySize RD), snd acc OR ShaderStages RD))
      else StaticCacheSizes rest acc)"

text \<open>
  Modelled from the spec: \<open>ShaderResourceCacheD3D12::Initialize\<close>, which is not among
  the sources. "\<open>Initialize(tableSizeList)\<close> allocates one arena sized to hold all table
  caches contiguously, sets each table's declared size": every table gets as many
  unbound entries as its size.
\<close>

definition InitializeCache :: "CacheContentType \<Rightarrow> 32 word list \<Rightarrow> ShaderResourceCacheD3D12" where
  "InitializeCache ct TableSizes =
     \<lparr> m_RootTables = map (\<lambda>n. replicate (unat n) NullResource) TableSizes,
       m_ContentType = ct, m_NumDynamicCBsBound = 0 \<rparr>"

text \<open>
  The constructor of \<open>PipelineResourceSignatureD3D12Impl\<close>, for a description that
  \<open>ValidatePipelineResourceSignatureDesc\<close> (not among the sources) has let through:
  the description is copied and sorted, the static cache is created when a stage has
  static resources, the layout is created, and the hash is computed. The static
  variable managers and the deduction of the pipeline type are left out.
\<close>

definition ConstructSignature ::
  "(nat list \<Rightarrow> nat list) \<Rightarrow> HeaderConstants \<Rightarrow> 'sam HashFunctions
   \<Rightarrow> 'sam PipelineResourceSignatureDesc \<Rightarrow> 'sam PipelineResourceSignatureD3D12Impl option" where
  "ConstructSignature srt hc hf Desc =
     (case StaticCacheSizes (Resources Desc) ((\<lambda>t. 0), 0) of
        None \<Rightarrow> None
      | Some (Sizes, StaticResStages) \<Rightarrow>
          (case CreateLayout hc
                  (SignatureBase.extend (CopyDescription srt Desc)
                     \<lparr> m_pResourceAttribs = [],
                       m_ImmutableSamplers =
                         replicate (length (ImmutableSamplers Desc))
                           \<lparr> Sam_ArraySize = UnassignedSamplerArraySize hc,
                             Sam_ShaderRegister = UnassignedSamplerRegister hc,
                             Sam_RegisterSpace = UnassignedSamplerSpace hc,
                             Sam_IsAssigned = False \<rparr>,
                       m_RootParams = EmptyRootParams,
                       m_SrvCbvUavRootTablesMap = (\<lambda>k. None),
                       m_SamplerRootTablesMap = (\<lambda>k. None),
                       m_TotalSrvCbvUavSlots = (\<lambda>t. 0),
                       m_TotalSamplerSlots = (\<lambda>t. 0),
                       m_NumSpaces = InitialNumSpaces hc,
                       m_pStaticResCache =
                         (if StaticResStages \<noteq> 0
                          then Some (InitializeCache Signature
                                  [Sizes D3D12_DESCRIPTOR_RANGE_TYPE_SRV,
                                   Sizes D3D12_DESCRIPTOR_RANGE_TYPE_UAV,
                                   Sizes D3D12_DESCRIPTOR_RANGE_TYPE_CBV,
                                   Sizes D3D12_DESCRIPTOR_RANGE_TYPE_SAMPLER])
                          else None),
                       m_Hash = 0 \<rparr>) of
             None \<Rightarrow> None
           | Some sig \<Rightarrow> Some (sig\<lparr> m_Hash := CalculateHash hf sig \<rparr>)))"

text \<open>
  \<open>GetCacheTableSizes\<close>: one size for every root index, the table size of a root table
  and 1 for a root view; \<open>None\<close> when a root index is outside the vector.
\<close>

fun SetCacheTableSizes :: "(nat \<times> 32 word) list \<Rightarrow> 32 word list \<Rightarrow> 32 word list option" where
  "SetCacheTableSizes [] Sizes = Some Sizes"
| "SetCacheTableSizes ((RootInd, n) # rest) Sizes =
     (if RootInd < length Sizes then SetCacheTableSizes rest (Sizes[RootInd := n]) else None)"

definition GetCacheTableSizes :: "RootParamsManager \<Rightarrow> 32 word list option" where
  "GetCacheTableSizes M =
     SetCacheTableSizes
       (map (\<lambda>P. (m_RootIndex P, m_DescriptorTableSize P)) (m_pRootTables M)
        @ map (\<lambda>P. (m_RootIndex P, 1)) (m_pRootViews M))
       (replicate (length (m_pRootTables M) + length (m_pRootViews M)) 0)"

text \<open>
  \<open>InitSRBResourceCache\<close>: the cache of a binding context. The descriptor heap space it
  also reserves is behind the parameter \<open>svh\<close> of the binding functions.
\<close>

definition InitSRBResourceCache ::
  "('sam, 'x) PipelineResourceSignatureD3D12Impl_scheme \<Rightarrow> ShaderResourceCacheD3D12 option" where
  "InitSRBResourceCache sig = map_option (InitializeCache SRB) (GetCacheTableSizes (m_RootParams sig))"

section \<open>Static resources of a binding context\<close>

text \<open>
  The body of the inner loop of \<open>InitializeStaticSRBResources\<close>, for the array element
  \<open>ArrInd\<close> of the resource \<open>RD\<close> with attributes \<open>Attr\<close>: the destination cache and the
  events after it. \<open>None\<close> is a read outside a table of either cache.
\<close>

definition CopyStaticResource ::
  "bool \<Rightarrow> (D3D12_DESCRIPTOR_HEAP_TYPE \<Rightarrow> 32 word \<Rightarrow> 32 word \<Rightarrow> 64 word)
   \<Rightarrow> ShaderResourceCacheD3D12 \<Rightarrow> PipelineResourceDesc \<Rightarrow> ResourceAttribs \<Rightarrow> 32 word
   \<Rightarrow> ShaderResourceCacheD3D12 \<times> Event list \<Rightarrow> (ShaderResourceCacheD3D12 \<times> Event list) option" where
  "CopyStaticResource dvp svh Src RD Attr ArrInd st =
     (case st of (Dst, ev) \<Rightarrow>
        let DstRootIndex = RootIndex Attr (m_ContentType Dst);
            SrcCacheOffset = OffsetFromTableStart Attr (m_ContentType Src) + ArrInd;
            DstCacheOffset = OffsetFromTableStart Attr (m_ContentType Dst) + ArrInd;
            IsSampler = (ResourceType RD = SHADER_RESOURCE_TYPE_SAMPLER)
        in (case GetResource Src (RootIndex Attr (m_ContentType Src)) SrcCacheOffset of
              None \<Rightarrow> None
            | Some SrcRes \<Rightarrow>
                (case GetResource Dst DstRootIndex DstCacheOffset of
                   None \<Rightarrow> None
                 | Some DstRes \<Rightarrow>
                     let ev1 = ev @ (if pObject SrcRes = None
                                     then [LOG_ERROR_MESSAGE NoResourceAssignedToStaticVariable]
                                     else [])
                     in if pObject DstRes \<noteq> pObject SrcRes then
                          let ev2 = ev1 @ (if dvp \<and> pObject DstRes \<noteq> None
                                           then [LOG_ERROR_MESSAGE StaticResourceAlreadyInitialized]
                                           else []);
                              n0 = m_NumDynamicCBsBound Dst;
                              n1 = (if Type SrcRes = SHADER_RESOURCE_TYPE_CONSTANT_BUFFER
                                       \<and> pObject DstRes \<noteq> None
                                       \<and> IsDynamicBuffer (the (pObject DstRes))
                                    then n0 - 1 else n0);
                              n2 = (if Type SrcRes = SHADER_RESOURCE_TYPE_CONSTANT_BUFFER
                                       \<and> pObject SrcRes \<noteq> None
                                       \<and> IsDynamicBuffer (the (pObject SrcRes))
                                    then n1 + 1 else n1);
                              Handle = svh (if IsSampler then D3D12_DESCRIPTOR_HEAP_TYPE_SAMPLER
                                            else D3D12_DESCRIPTOR_HEAP_TYPE_CBV_SRV_UAV)
                                         DstRootIndex DstCacheOffset
                          in Some ((SetResource Dst DstRootIndex DstCacheOffset
                                      \<lparr> pObject = pObject SrcRes, Type = Type SrcRes,
                                        CPUDescriptorHandle = CPUDescriptorHandle SrcRes \<rparr>)
                                     \<lparr> m_NumDynamicCBsBound := n2 \<rparr>,
                                   ev2 @ (if Handle \<noteq> 0
                                             \<and> (IsSampler \<or> CPUDescriptorHandle SrcRes \<noteq> 0)
                                          then [CopyDescriptorsSimple Handle (CPUDescriptorHandle SrcRes)
                                                  (if IsSampler then D3D12_DESCRIPTOR_HEAP_TYPE_SAMPLER
                                                   else D3D12_DESCRIPTOR_HEAP_TYPE_CBV_SRV_UAV)]
                                          else []))
                        else Some (Dst, ev1))))"

text \<open>The inner loop, over the array elements in the list, and the outer loop, over the resources.\<close>

fun CopyStaticElements ::
  "bool \<Rightarrow> (D3D12_DESCRIPTOR_HEAP_TYPE \<Rightarrow> 32 word \<Rightarrow> 32 word \<Rightarrow> 64 word)
   \<Rightarrow> ShaderResourceCacheD3D12 \<Rightarrow> PipelineResourceDesc \<Rightarrow> ResourceAttribs \<Rightarrow> 32 word list
   \<Rightarrow> ShaderResourceCacheD3D12 \<times> Event list \<Rightarrow> (ShaderResourceCacheD3D12 \<times> Event list) option" where
  "CopyStaticElements dvp svh Src RD Attr [] st = Some st"
| "CopyStaticElements dvp svh Src RD Attr (ArrInd # rest) st =
     (case CopyStaticResource dvp svh Src RD Attr ArrInd st of
        None \<Rightarrow> None
      | Some st1 \<Rightarrow> CopyStaticElements dvp svh Src RD Attr rest st1)"

text \<open>
  The values \<open>0, 1, ..., n - 1\<close> that a loop \<open>for (Uint32 i = 0; i < n; ++i)\<close> runs through.
\<close>

definition UpTo32 :: "32 word \<Rightarrow> 32 word list" where
  "UpTo32 n = map of_nat [0..<unat n]"

fun CopyStaticResources ::
  "bool \<Rightarrow> (D3D12_DESCRIPTOR_HEAP_TYPE \<Rightarrow> 32 word \<Rightarrow> 32 word \<Rightarrow> 64 word)
   \<Rightarrow> ('sam, 'x) PipelineResourceSignatureD3D12Impl_scheme \<Rightarrow> ShaderResourceCacheD3D12 \<Rightarrow> nat list
   \<Rightarrow> ShaderResourceCacheD3D12 \<times> Event list \<Rightarrow> (ShaderResourceCacheD3D12 \<times> Event list) option" where
  "CopyStaticResources dvp svh sig Src [] st = Some st"
| "CopyStaticResources dvp svh sig Src (r # rest) st =
     (if r < length (Resources (m_Desc sig)) \<and> r < length (m_pResourceAttribs sig)
         \<and> unat (RootIndex (m_pResourceAttribs sig ! r) (m_ContentType Src)) < length (m_RootTables Src)
         \<and> unat (RootIndex (m_pResourceAttribs sig ! r) (m_ContentType (fst st)))
             < length (m_RootTables (fst st))
      then
        (case CopyStaticElements dvp svh Src (Resources (m_Desc sig) ! r) (m_pResourceAttribs sig ! r)
                (UpTo32 (ArraySize (Resources (m_Desc sig) ! r))) st of
           None \<Rightarrow> None
         | Some st1 \<Rightarrow> CopyStaticResources dvp svh sig Src rest st1)
      else None)"

text \<open>
  \<open>InitializeStaticSRBResources\<close>: nothing without a static cache; otherwise the
  resources of the Static index range are copied from the static cache.
\<close>

definition InitializeStaticSRBResources ::
  "bool \<Rightarrow> (D3D12_DESCRIPTOR_HEAP_TYPE \<Rightarrow> 32 word \<Rightarrow> 32 word \<Rightarrow> 64 word)
   \<Rightarrow> ('sam, 'x) PipelineResourceSignatureD3D12Impl_scheme \<Rightarrow> ShaderResourceCacheD3D12
   \<Rightarrow> (ShaderResourceCacheD3D12 \<times> Event list) option" where
  "InitializeStaticSRBResources dvp svh sig DstResourceCache =
     (case m_pStaticResCache sig of
        None \<Rightarrow> Some (DstResourceCache, [])
      | Some SrcResourceCache \<Rightarrow>
          CopyStaticResources dvp svh sig SrcResourceCache
            [unat (m_ResourceOffsets sig ! VarIdx SHADER_RESOURCE_VARIABLE_TYPE_STATIC)
             ..< unat (m_ResourceOffsets sig ! (VarIdx SHADER_RESOURCE_VARIABLE_TYPE_STATIC + 1))]
            (DstResourceCache, []))"

text \<open>
  Modelled from the spec: the binding-context object, whose class is not among the
  sources: its resource cache and the "per-object 'already initialized' flag".
\<close>

record ShaderResourceBinding =
  m_ShaderResourceCache :: ShaderResourceCacheD3D12
  m_bStaticResourcesInitialized :: bool

text \<open>
  \<open>InitializeStaticSRBResourcesImpl\<close> of the base class. \<open>Compatible\<close> is the result of
  \<open>pSRBSignature->IsCompatibleWith(this)\<close>, which development builds check;
  \<open>Handler\<close> does the copying.
\<close>

definition InitializeStaticSRBResourcesImpl ::
  "bool \<Rightarrow> bool \<Rightarrow> (ShaderResourceCacheD3D12 \<Rightarrow> (ShaderResourceCacheD3D12 \<times> Event list) option)
   \<Rightarrow> ShaderResourceBinding \<Rightarrow> (ShaderResourceBinding \<times> Event list) option" where
  "InitializeStaticSRBResourcesImpl dvp Compatible Handler pSRB =
     (if m_bStaticResourcesInitialized pSRB
      then Some (pSRB, [LOG_WARNING_MESSAGE StaticResourcesAlreadyInitialized])
      else
        (case Handler (m_ShaderResourceCache pSRB) of
           None \<Rightarrow> None
         | Some (c, ev) \<Rightarrow>
             Some (\<lparr> m_ShaderResourceCache = c, m_bStaticResourcesInitialized = True \<rparr>,
                   (if dvp \<and> \<not> Compatible then [LOG_ERROR_MESSAGE SRBNotCompatible] else []) @ ev)))"

section \<open>Resource state transitions\<close>

text \<open>
  The resource states that the code names. The state of a resource lives in objects
  and in a command context that are not among the sources: the state tests of the
  objects and \<open>CommandContext::TransitionResource\<close> are parameters of the model, over a
  type \<open>'w\<close> of the state of the world. A resource is named by the identifier of the
  buffer, texture or acceleration structure.
\<close>

datatype RESOURCE_STATE =
  RESOURCE_STATE_CONSTANT_BUFFER
| RESOURCE_STATE_SHADER_RESOURCE
| RESOURCE_STATE_UNORDERED_ACCESS
| RESOURCE_STATE_INPUT_ATTACHMENT
| RESOURCE_STATE_RAY_TRACING

record 'w ResourceStateOps =
  IsInKnownState :: "'w \<Rightarrow> nat \<Rightarrow> bool"
  CheckState :: "'w \<Rightarrow> nat \<Rightarrow> RESOURCE_STATE \<Rightarrow> bool"
  CheckAnyState :: "'w \<Rightarrow> nat \<Rightarrow> RESOURCE_STATE list \<Rightarrow> bool"
  CtxTransitionResource :: "'w \<Rightarrow> nat \<Rightarrow> RESOURCE_STATE \<Rightarrow> 'w"

text \<open>
  The resource behind a bound object: the buffer itself, the buffer of a buffer view,
  the texture of a texture view, the acceleration structure itself.
\<close>

fun GetResourceId :: "DeviceObject \<Rightarrow> nat" where
  "GetResourceId (BufferD3D12Impl i u b h) = i"
| "GetResourceId (BufferViewD3D12Impl i v b h) = b"
| "GetResourceId (TextureViewD3D12Impl i v t s h) = t"
| "GetResourceId (SamplerD3D12Impl i h) = i"
| "GetResourceId (TopLevelASD3D12Impl i h) = i"
| "GetResourceId (OtherDeviceObject i) = i"

text \<open>
  What a walk over the cache leaves behind: the calls of
  \<open>CommandContext::TransitionResource\<close> and, in validation, the errors logged.
\<close>

datatype TransitionEvent =
    TransitionResourceCall nat RESOURCE_STATE
  | StateError nat RESOURCE_STATE

text \<open>
  The call \<open>Ctx.TransitionResource(pResource, State)\<close>: the world changes as the context
  decides, and the call is recorded.
\<close>

definition DoTransition ::
  "'w ResourceStateOps \<Rightarrow> nat \<Rightarrow> RESOURCE_STATE \<Rightarrow> 'w \<times> TransitionEvent list
   \<Rightarrow> 'w \<times> TransitionEvent list" where
  "DoTransition ops ResId State st =
     (CtxTransitionResource ops (fst st) ResId State, snd st @ [TransitionResourceCall ResId State])"

text \<open>
  \<open>TransitionResource\<close> of one cache entry. \<open>RawPtr<T>()\<close> is an unchecked cast: an entry
  whose type names a class that the bound object does not have, or that has no object,
  is \<open>None\<close>.
\<close>

definition TransitionResource ::
  "'w ResourceStateOps \<Rightarrow> CacheResource \<Rightarrow> 'w \<times> TransitionEvent list
   \<Rightarrow> ('w \<times> TransitionEvent list) option" where
  "TransitionResource ops Res st =
     (case Type Res of
        SHADER_RESOURCE_TYPE_CONSTANT_BUFFER \<Rightarrow>
          (case pObject Res of
             None \<Rightarrow> None
           | Some Obj \<Rightarrow>
               if IsBufferD3D12 Obj then
                 Some (if IsInKnownState ops (fst st) (GetResourceId Obj)
                          \<and> \<not> CheckState ops (fst st) (GetResourceId Obj) RESOURCE_STATE_CONSTANT_BUFFER
                       then DoTransition ops (GetResourceId Obj) RESOURCE_STATE_CONSTANT_BUFFER st
                       else st)
               else None)
      | SHADER_RESOURCE_TYPE_BUFFER_SRV \<Rightarrow>
          (case pObject Res of
             None \<Rightarrow> None
           | Some Obj \<Rightarrow>
               if IsBufferViewD3D12 Obj then
                 Some (if IsInKnownState ops (fst st) (GetResourceId Obj)
                          \<and> \<not> CheckState ops (fst st) (GetResourceId Obj) RESOURCE_STATE_SHADER_RESOURCE
                       then DoTransition ops (GetResourceId Obj) RESOURCE_STATE_SHADER_RESOURCE st
                       else st)
               else None)
      | SHADER_RESOURCE_TYPE_BUFFER_UAV \<Rightarrow>
          (case pObject Res of
             None \<Rightarrow> None
           | Some Obj \<Rightarrow>
               if IsBufferViewD3D12 Obj then
                 Some (if IsInKnownState ops (fst st) (GetResourceId Obj)
                       then DoTransition ops (GetResourceId Obj) RESOURCE_STATE_UNORDERED_ACCESS st
                       else st)
               else None)
      | SHADER_RESOURCE_TYPE_TEXTURE_SRV \<Rightarrow>
          (case pObject Res of
             None \<Rightarrow> None
           | Some Obj \<Rightarrow>
               if IsTextureViewD3D12 Obj then
                 Some (if IsInKnownState ops (fst st) (GetResourceId Obj)
                          \<and> \<not> CheckAnyState ops (fst st) (GetResourceId Obj)
                                [RESOURCE_STATE_SHADER_RESOURCE, RESOURCE_STATE_INPUT_ATTACHMENT]
                       then DoTransition ops (GetResourceId Obj) RESOURCE_STATE_SHADER_RESOURCE st
                       else st)
               else None)
      | SHADER_RESOURCE_TYPE_TEXTURE_UAV \<Rightarrow>
          (case pObject Res of
             None \<Rightarrow> None
           | Some Obj \<Rightarrow>
               if IsTextureViewD3D12 Obj then
                 Some (if IsInKnownState ops (fst st) (GetResourceId Obj)
                       then DoTransition ops (GetResourceId Obj) RESOURCE_STATE_UNORDERED_ACCESS st
                       else st)
               else None)
      | SHADER_RESOURCE_TYPE_SAMPLER \<Rightarrow> Some st
      | SHADER_RESOURCE_TYPE_ACCEL_STRUCT \<Rightarrow>
          (case pObject Res of
             None \<Rightarrow> None
           | Some Obj \<Rightarrow>
               if IsTopLevelASD3D12 Obj then
                 Some (if IsInKnownState ops (fst st) (GetResourceId Obj)
                       then DoTransition ops (GetResourceId Obj) RESOURCE_STATE_RAY_TRACING st
                       else st)
               else None)
      | SHADER_RESOURCE_TYPE_UNKNOWN \<Rightarrow> Some st
      | SHADER_RESOURCE_TYPE_INPUT_ATTACHMENT \<Rightarrow> Some st)"

text \<open>
  \<open>DvpVerifyResourceState\<close> of one cache entry: an error when the resource is in a known
  state that is not the required one.
\<close>

definition VerifyState ::
  "'w ResourceStateOps \<Rightarrow> (DeviceObject \<Rightarrow> bool) \<Rightarrow> RESOURCE_STATE list \<Rightarrow> CacheResource
   \<Rightarrow> 'w \<times> TransitionEvent list \<Rightarrow> ('w \<times> TransitionEvent list) option" where
  "VerifyState ops IsImpl States Res st =
     (case pObject Res of
        None \<Rightarrow> None
      | Some Obj \<Rightarrow>
          if IsImpl Obj then
            Some (if IsInKnownState ops (fst st) (GetResourceId Obj)
                     \<and> \<not> (if length States = 1 then CheckState ops (fst st) (GetResourceId Obj) (hd States)
                           else CheckAnyState ops (fst st) (GetResourceId Obj) States)
                  then (fst st, snd st @ [StateError (GetResourceId Obj) (hd States)])
                  else st)
          else None)"

definition DvpVerifyResourceState ::
  "'w ResourceStateOps \<Rightarrow> CacheResource \<Rightarrow> 'w \<times> TransitionEvent list
   \<Rightarrow> ('w \<times> TransitionEvent list) option" where
  "DvpVerifyResourceState ops Res st =
     (case Type Res of
        SHADER_RESOURCE_TYPE_CONSTANT_BUFFER \<Rightarrow>
          VerifyState ops IsBufferD3D12 [RESOURCE_STATE_CONSTANT_BUFFER] Res st
      | SHADER_RESOURCE_TYPE_BUFFER_SRV \<Rightarrow>
          VerifyState ops IsBufferViewD3D12 [RESOURCE_STATE_SHADER_RESOURCE] Res st
      | SHADER_RESOURCE_TYPE_BUFFER_UAV \<Rightarrow>
          VerifyState ops IsBufferViewD3D12 [RESOURCE_STATE_UNORDERED_ACCESS] Res st
      | SHADER_RESOURCE_TYPE_TEXTURE_SRV \<Rightarrow>
          VerifyState ops IsTextureViewD3D12
            [RESOURCE_STATE_SHADER_RESOURCE, RESOURCE_STATE_INPUT_ATTACHMENT] Res st
      | SHADER_RESOURCE_TYPE_TEXTURE_UAV \<Rightarrow>
          VerifyState ops IsTextureViewD3D12 [RESOURCE_STATE_UNORDERED_ACCESS] Res st
      | SHADER_RESOURCE_TYPE_SAMPLER \<Rightarrow> Some st
      | SHADER_RESOURCE_TYPE_ACCEL_STRUCT \<Rightarrow>
          VerifyState ops IsTopLevelASD3D12 [RESOURCE_STATE_RAY_TRACING] Res st
      | SHADER_RESOURCE_TYPE_UNKNOWN \<Rightarrow> Some st
      | SHADER_RESOURCE_TYPE_INPUT_ATTACHMENT \<Rightarrow> Some st)"

text \<open>
  The cache entries that \<open>ProcessRootTables\<close> with \<open>ProcessCachedTableResources\<close> visits,
  in order, as pairs of root index and offset: for every root table, for every range
  of it, for every descriptor of the range. Root views are not visited.
\<close>

definition VisitedSlots :: "RootParamsManager \<Rightarrow> (32 word \<times> 32 word) list" where
  "VisitedSlots M =
     concat (map (\<lambda>RootTable.
        concat (map (\<lambda>range.
           map (\<lambda>d. (of_nat (m_RootIndex RootTable), OffsetInDescriptorsFromTableStart range + d))
             (UpTo32 (NumDescriptors range)))
          (TableRanges M RootTable)))
       (m_pRootTables M))"

text \<open>
  The operation of \<open>TransitionResources\<close> on the entries in the list; \<open>None\<close> when an entry
  is outside the cache.
\<close>

fun TransitionSlots ::
  "'w ResourceStateOps \<Rightarrow> bool \<Rightarrow> bool \<Rightarrow> bool \<Rightarrow> ShaderResourceCacheD3D12
   \<Rightarrow> (32 word \<times> 32 word) list \<Rightarrow> 'w \<times> TransitionEvent list
   \<Rightarrow> ('w \<times> TransitionEvent list) option" where
  "TransitionSlots ops dvp PerformResourceTransitions ValidateStates ResourceCache [] st = Some st"
| "TransitionSlots ops dvp PerformResourceTransitions ValidateStates ResourceCache (slot # rest) st =
     (case GetResource ResourceCache (fst slot) (snd slot) of
        None \<Rightarrow> None
      | Some Res \<Rightarrow>
          (case (if PerformResourceTransitions then TransitionResource ops Res st
                 else if dvp \<and> ValidateStates then DvpVerifyResourceState ops Res st
                 else Some st) of
             None \<Rightarrow> None
           | Some st1 \<Rightarrow>
               TransitionSlots ops dvp PerformResourceTransitions ValidateStates ResourceCache rest st1))"

definition TransitionResources ::
  "'w ResourceStateOps \<Rightarrow> bool \<Rightarrow> ('sam, 'x) PipelineResourceSignatureD3D12Impl_scheme
   \<Rightarrow> ShaderResourceCacheD3D12 \<Rightarrow> 'w \<Rightarrow> bool \<Rightarrow> bool \<Rightarrow> ('w \<times> TransitionEvent list) option" where
  "TransitionResources ops dvp sig ResourceCache Ctx PerformResourceTransitions ValidateStates =
     TransitionSlots ops dvp PerformResourceTransitions ValidateStates ResourceCache
       (VisitedSlots (m_RootParams sig)) (Ctx, [])"

section \<open>The implementation of std::sort in the GNU C++ library\<close>

text \<open>
  \<open>std::sort\<close> is not code of the repository. What a build of \<open>CopyDescription\<close> does with
  resources of equal class is what the C++ library it is compiled against does; for
  the GNU C++ library (\<open>bits/stl_algo.h\<close>, \<open>bits/stl_heap.h\<close>) that is the introsort
  below. The array holds source positions; \<open>ks\<close> is the sequence of keys, and the
  comparator of \<open>CopyDescription\<close> compares the keys. A read or write outside the array
  is \<open>None\<close>.
\<close>

definition lt :: "nat list \<Rightarrow> nat \<Rightarrow> nat \<Rightarrow> bool" where
  "lt ks x y \<longleftrightarrow> ks ! x < ks ! y"

definition iter_swap :: "nat list \<Rightarrow> nat \<Rightarrow> nat \<Rightarrow> nat list" where
  "iter_swap a i j = a[i := a ! j, j := a ! i]"

text \<open>
  \<open>__unguarded_linear_insert\<close>: the value moves down from \<open>last\<close> while it is less than
  the element before it; nothing stops the loop at the start of the array.
\<close>

fun unguarded_linear_insert :: "nat list \<Rightarrow> nat list \<Rightarrow> nat \<Rightarrow> nat \<Rightarrow> nat list option" where
  "unguarded_linear_insert ks a val 0 = None"
| "unguarded_linear_insert ks a val (Suc next) =
     (if lt ks val (a ! next)
      then unguarded_linear_insert ks (a[Suc next := a ! next]) val next
      else Some (a[Suc next := val]))"

text \<open>
  One iteration of the loop of \<open>__insertion_sort\<close>, for the position \<open>i\<close>: an element less
  than the first one is moved to the front by \<open>move_backward\<close>, any other is inserted
  unguarded.
\<close>

definition insertion_step :: "nat list \<Rightarrow> nat \<Rightarrow> nat list \<Rightarrow> nat \<Rightarrow> nat list option" where
  "insertion_step ks first a i =
     (if lt ks (a ! i) (a ! first)
      then Some (take first a @ [a ! i] @ take (i - first) (drop first a) @ drop (Suc i) a)
      else unguarded_linear_insert ks a (a ! i) i)"

fun for_each :: "(nat list \<Rightarrow> nat \<Rightarrow> nat list option) \<Rightarrow> nat list \<Rightarrow> nat list \<Rightarrow> nat list option" where
  "for_each body [] a = Some a"
| "for_each body (i # rest) a =
     (case body a i of None \<Rightarrow> None | Some a1 \<Rightarrow> for_each body rest a1)"

definition insertion_sort :: "nat list \<Rightarrow> nat list \<Rightarrow> nat \<Rightarrow> nat \<Rightarrow> nat list option" where
  "insertion_sort ks a first lst =
     (if first = lst then Some a
      else for_each (insertion_step ks first) [Suc first..<lst] a)"

definition unguarded_insertion_sort :: "nat list \<Rightarrow> nat list \<Rightarrow> nat \<Rightarrow> nat \<Rightarrow> nat list option" where
  "unguarded_insertion_sort ks a first lst =
     for_each (\<lambda>a i. unguarded_linear_insert ks a (a ! i) i) [first..<lst] a"

definition S_threshold :: nat where
  "S_threshold = 16"

definition final_insertion_sort :: "nat list \<Rightarrow> nat list \<Rightarrow> nat \<Rightarrow> nat \<Rightarrow> nat list option" where
  "final_insertion_sort ks a first lst =
     (if lst - first > S_threshold then
        (case insertion_sort ks a first (first + S_threshold) of
           None \<Rightarrow> None
         | Some a1 \<Rightarrow> unguarded_insertion_sort ks a1 (first + S_threshold) lst)
      else insertion_sort ks a first lst)"

definition move_median_to_first :: "nat list \<Rightarrow> nat list \<Rightarrow> nat \<Rightarrow> nat \<Rightarrow> nat \<Rightarrow> nat \<Rightarrow> nat list" where
  "move_median_to_first ks a result x y z =
     (if lt ks (a ! x) (a ! y) then
        (if lt ks (a ! y) (a ! z) then iter_swap a result y
         else if lt ks (a ! x) (a ! z) then iter_swap a result z
         else iter_swap a result x)
      else if lt ks (a ! x) (a ! z) then iter_swap a result x
      else if lt ks (a ! y) (a ! z) then iter_swap a result z
      else iter_swap a result y)"

text \<open>
  The two inner loops of \<open>__unguarded_partition\<close>, each as the number of steps it makes:
  \<open>while (comp(first, pivot)) ++first\<close> and, after \<open>--last\<close>,
  \<open>while (comp(pivot, last)) --last\<close>.
\<close>

function scan_up :: "nat list \<Rightarrow> nat list \<Rightarrow> nat \<Rightarrow> nat \<Rightarrow> nat option" where
  "scan_up ks a pivot first =
     (if first < length a then
        (if lt ks (a ! first) (a ! pivot) then map_option Suc (scan_up ks a pivot (Suc first))
         else Some 0)
      else None)"
  by pat_completeness auto
termination
  by (relation "measure (\<lambda>(ks, a, pivot, first). length a - first)") auto

fun scan_down :: "nat list \<Rightarrow> nat list \<Rightarrow> nat \<Rightarrow> nat \<Rightarrow> nat option" where
  "scan_down ks a pivot 0 = (if lt ks (a ! pivot) (a ! 0) then None else Some 0)"
| "scan_down ks a pivot (Suc lst) =
     (if lt ks (a ! pivot) (a ! Suc lst) then map_option Suc (scan_down ks a pivot lst)
      else Some 0)"

function unguarded_partition ::
  "nat list \<Rightarrow> nat list \<Rightarrow> nat \<Rightarrow> nat \<Rightarrow> nat \<Rightarrow> (nat list \<times> nat) option" where
  "unguarded_partition ks a first lst pivot =
     (case scan_up ks a pivot first of
        None \<Rightarrow> None
      | Some i \<Rightarrow>
          if lst = 0 then None
          else (case scan_down ks a pivot (lst - 1) of
                  None \<Rightarrow> None
                | Some j \<Rightarrow>
                    if \<not> first + i < lst - 1 - j then Some (a, first + i)
                    else unguarded_partition ks (iter_swap a (first + i) (lst - 1 - j))
                           (Suc (first + i)) (lst - 1 - j) pivot))"
  by pat_completeness auto
termination
  by (relation "measure (\<lambda>(ks, a, first, lst, pivot). lst - first)") auto

definition unguarded_partition_pivot ::
  "nat list \<Rightarrow> nat list \<Rightarrow> nat \<Rightarrow> nat \<Rightarrow> (nat list \<times> nat) option" where
  "unguarded_partition_pivot ks a first lst =
     (let mid = first + (lst - first) div 2
      in unguarded_partition ks
           (move_median_to_first ks a first (first + 1) mid (lst - 1)) (first + 1) lst first)"

text \<open>The heap functions of \<open>bits/stl_heap.h\<close>, which \<open>__partial_sort\<close> uses.\<close>

function push_heap :: "nat list \<Rightarrow> nat list \<Rightarrow> nat \<Rightarrow> nat \<Rightarrow> nat \<Rightarrow> nat \<Rightarrow> nat list" where
  "push_heap ks a first holeIndex topIndex val =
     (if holeIndex > topIndex \<and> lt ks (a ! (first + (holeIndex - 1) div 2)) val
      then push_heap ks (a[first + holeIndex := a ! (first + (holeIndex - 1) div 2)])
             first ((holeIndex - 1) div 2) topIndex val
      else a[first + holeIndex := val])"
  by pat_completeness auto
termination
  by (relation "measure (\<lambda>(ks, a, first, holeIndex, topIndex, val). holeIndex)") auto

function adjust_loop :: "nat list \<Rightarrow> nat list \<Rightarrow> nat \<Rightarrow> nat \<Rightarrow> nat \<Rightarrow> nat list \<times> nat" where
  "adjust_loop ks a first secondChild len =
     (if secondChild < (len - 1) div 2 then
        (let s = (if lt ks (a ! (first + 2 * (secondChild + 1)))
                          (a ! (first + (2 * (secondChild + 1) - 1)))
                  then 2 * (secondChild + 1) - 1 else 2 * (secondChild + 1))
         in adjust_loop ks (a[first + secondChild := a ! (first + s)]) first s len)
      else (a, secondChild))"
  by pat_completeness auto
termination
  by (relation "measure (\<lambda>(ks, a, first, secondChild, len). len - secondChild)") auto

definition adjust_heap :: "nat list \<Rightarrow> nat list \<Rightarrow> nat \<Rightarrow> nat \<Rightarrow> nat \<Rightarrow> nat \<Rightarrow> nat list" where
  "adjust_heap ks a first holeIndex len val =
     (case adjust_loop ks a first holeIndex len of
        (a1, secondChild) \<Rightarrow>
          if even len \<and> 2 \<le> len \<and> secondChild = (len - 2) div 2
          then push_heap ks (a1[first + secondChild := a1 ! (first + (2 * (secondChild + 1) - 1))])
                 first (2 * (secondChild + 1) - 1) holeIndex val
          else push_heap ks a1 first secondChild holeIndex val)"

fun make_heap_loop :: "nat list \<Rightarrow> nat list \<Rightarrow> nat \<Rightarrow> nat \<Rightarrow> nat \<Rightarrow> nat list" where
  "make_heap_loop ks a first len 0 = adjust_heap ks a first 0 len (a ! first)"
| "make_heap_loop ks a first len (Suc parent) =
     make_heap_loop ks (adjust_heap ks a first (Suc parent) len (a ! (first + Suc parent)))
       first len parent"

definition make_heap :: "nat list \<Rightarrow> nat list \<Rightarrow> nat \<Rightarrow> nat \<Rightarrow> nat list" where
  "make_heap ks a first lst =
     (if lst - first < 2 then a
      else make_heap_loop ks a first (lst - first) ((lst - first - 2) div 2))"

text \<open>
  \<open>__sort_heap\<close>, by the number of elements left in the heap: \<open>--last\<close>, then \<open>__pop_heap\<close>
  with the result at \<open>lst\<close>.
\<close>

fun sort_heap :: "nat list \<Rightarrow> nat list \<Rightarrow> nat \<Rightarrow> nat \<Rightarrow> nat list" where
  "sort_heap ks a first 0 = a"
| "sort_heap ks a first (Suc n) =
     (if n = 0 then a
      else sort_heap ks
             (adjust_heap ks (a[first + n := a ! first]) first 0 n (a ! (first + n))) first n)"

text \<open>
  \<open>__partial_sort(first, last, last)\<close>: the loop of \<open>__heap_select\<close> over the elements from
  \<open>middle\<close> on is empty.
\<close>

definition partial_sort :: "nat list \<Rightarrow> nat list \<Rightarrow> nat \<Rightarrow> nat \<Rightarrow> nat list" where
  "partial_sort ks a first lst = sort_heap ks (make_heap ks a first lst) first (lst - first)"

text \<open>
  \<open>__introsort_loop\<close>. Every iteration of the \<open>while\<close> loop decrements the depth limit,
  sorts the upper part by a recursive call and goes on with the lower part.
\<close>

fun introsort_loop :: "nat list \<Rightarrow> nat list \<Rightarrow> nat \<Rightarrow> nat \<Rightarrow> nat \<Rightarrow> nat list option" where
  "introsort_loop ks a first lst 0 =
     (if lst - first > S_threshold then Some (partial_sort ks a first lst) else Some a)"
| "introsort_loop ks a first lst (Suc depth_limit) =
     (if lst - first > S_threshold then
        (case unguarded_partition_pivot ks a first lst of
           None \<Rightarrow> None
         | Some (a1, cut_pos) \<Rightarrow>
             (case introsort_loop ks a1 cut_pos lst depth_limit of
                None \<Rightarrow> None
              | Some a2 \<Rightarrow> introsort_loop ks a2 first cut_pos depth_limit))
      else Some a)"

text \<open>\<open>std::__lg\<close>: the position of the highest bit that is set.\<close>

fun lg :: "nat \<Rightarrow> nat" where
  "lg n = (if n < 2 then 0 else Suc (lg (n div 2)))"

definition gnu_sort :: "nat list \<Rightarrow> nat list option" where
  "gnu_sort ks =
     (if length ks = 0 then Some []
      else (case introsort_loop ks [0..<length ks] 0 (length ks) (lg (length ks) * 2) of
              None \<Rightarrow> None
            | Some a \<Rightarrow> final_insertion_sort ks a 0 (length ks)))"

text \<open>
  The rearrangement for \<open>CopyDescription\<close>. The comparator is a strict weak order, with
  which the library reads and writes inside the array only.
\<close>

definition libstdcxx_sort :: "nat list \<Rightarrow> nat list" where
  "libstdcxx_sort ks = (case gnu_sort ks of None \<Rightarrow> [] | Some a \<Rightarrow> a)"


section \<open>Predicates and concrete inputs of the theorems\<close>


text \<open>
  \<open>stable_sort\<close> is a rearrangement that meets \<open>std_sort_spec\<close>; it keeps elements with
  equal keys in their input order.
\<close>

definition stable_sort :: "nat list \<Rightarrow> nat list" where
  "stable_sort ks = sort_key (\<lambda>i. ks ! i) [0..<length ks]"

definition MkRes ::
  "string \<Rightarrow> SHADER_TYPE \<Rightarrow> 32 word \<Rightarrow> SHADER_RESOURCE_TYPE \<Rightarrow> SHADER_RESOURCE_VARIABLE_TYPE \<Rightarrow> 8 word
   \<Rightarrow> PipelineResourceDesc" where
  "MkRes n s a t v f =
     \<lparr> Name = n, ShaderStages = s, ArraySize = a, ResourceType = t, VarType = v, Flags = f \<rparr>"

definition MkDesc :: "PipelineResourceDesc list \<Rightarrow> unit PipelineResourceSignatureDesc" where
  "MkDesc rs = \<lparr> Resources = rs, ImmutableSamplers = [], BindingIndex = 0,
      UseCombinedTextureSamplers = False, CombinedSamplerSuffix = None,
      SRBAllocationGranularity = 1 \<rparr>"

definition example_desc :: "unit PipelineResourceSignatureDesc" where
  "example_desc = MkDesc
     [MkRes ''g_Dyn'' 1 1 SHADER_RESOURCE_TYPE_TEXTURE_SRV SHADER_RESOURCE_VARIABLE_TYPE_DYNAMIC 0,
      MkRes ''g_A'' 1 1 SHADER_RESOURCE_TYPE_TEXTURE_SRV SHADER_RESOURCE_VARIABLE_TYPE_STATIC 0,
      MkRes ''g_Mut'' 2 1 SHADER_RESOURCE_TYPE_TEXTURE_SRV SHADER_RESOURCE_VARIABLE_TYPE_MUTABLE 0,
      MkRes ''g_B'' 1 1 SHADER_RESOURCE_TYPE_TEXTURE_SRV SHADER_RESOURCE_VARIABLE_TYPE_STATIC 0]"

definition seventeen_static_desc :: "unit PipelineResourceSignatureDesc" where
  "seventeen_static_desc = MkDesc
     (map (\<lambda>n. MkRes n 1 1 SHADER_RESOURCE_TYPE_TEXTURE_SRV SHADER_RESOURCE_VARIABLE_TYPE_STATIC 0)
        [''g_00'', ''g_01'', ''g_02'', ''g_03'', ''g_04'', ''g_05'', ''g_06'', ''g_07'', ''g_08'',
         ''g_09'', ''g_10'', ''g_11'', ''g_12'', ''g_13'', ''g_14'', ''g_15'', ''g_16''])"

definition same_name_desc :: "unit PipelineResourceSignatureDesc" where
  "same_name_desc = MkDesc
     [MkRes ''g_Tex'' 1 1 SHADER_RESOURCE_TYPE_TEXTURE_SRV SHADER_RESOURCE_VARIABLE_TYPE_STATIC 0,
      MkRes ''g_Tex'' 1 1 SHADER_RESOURCE_TYPE_TEXTURE_SRV SHADER_RESOURCE_VARIABLE_TYPE_MUTABLE 0]"

text \<open>
  Constants for the concrete inputs: all-ones patterns for the invalid values and the
  flag bits of the public header.
\<close>

definition test_hc :: HeaderConstants where
  "test_hc = \<lparr> InvalidSamplerInd = 1023, InvalidSRBRootIndex = 65535, InvalidSigRootIndex = 7,
     InvalidOffset = 4294967295, BaseRegisterSpace = 0, InitialNumSpaces = 1,
     UnassignedSamplerArraySize = 1, UnassignedSamplerRegister = 16777215,
     UnassignedSamplerSpace = 255,
     PIPELINE_RESOURCE_FLAG_NO_DYNAMIC_BUFFERS = 1, PIPELINE_RESOURCE_FLAG_FORMATTED_BUFFER = 4,
     PIPELINE_RESOURCE_FLAG_RUNTIME_ARRAY = 8 \<rparr>"

text \<open>A cache without shader-visible descriptor space.\<close>

definition no_svh :: "D3D12_DESCRIPTOR_HEAP_TYPE \<Rightarrow> 32 word \<Rightarrow> 32 word \<Rightarrow> 64 word" where
  "no_svh h r ofs = 0"







text \<open>
  Hash functions for the concrete inputs: they only have to be functions, the values
  are of no concern.
\<close>

definition test_hf :: "unit HashFunctions" where
  "test_hf = \<lparr> ComputeHash = (\<lambda>args. of_nat (length args) + 1),
                HashCombine = (\<lambda>h args. h * 31 + of_nat (length args)) \<rparr>"

text \<open>
  A description with one Mutable array of three textures for the pixel stage, and a
  texture view to bind.
\<close>

definition array_desc :: "unit PipelineResourceSignatureDesc" where
  "array_desc = MkDesc
     [MkRes ''g_Tex'' SHADER_TYPE_PIXEL 3 SHADER_RESOURCE_TYPE_TEXTURE_SRV
        SHADER_RESOURCE_VARIABLE_TYPE_MUTABLE 0]"

definition tex_view :: DeviceObject where
  "tex_view = TextureViewD3D12Impl 1 VIEW_SHADER_RESOURCE 10 None 64"

text \<open>
  The signature of a description is constructed, a cache of a binding context is
  created for it, the object is bound to the element \<open>ArrayInd\<close> of the resource 0, and
  \<open>IsBound\<close> is asked for each element in \<open>Asked\<close>: the objects in the root table 0 of the
  cache, and the answers.
\<close>

definition IsBoundAfterBind ::
  "unit PipelineResourceSignatureDesc \<Rightarrow> DeviceObject \<Rightarrow> 32 word \<Rightarrow> 32 word list
   \<Rightarrow> (DeviceObject option list \<times> bool option list) option" where
  "IsBoundAfterBind Desc Obj ArrayInd Asked =
     (case ConstructSignature stable_sort test_hc test_hf Desc of
        None \<Rightarrow> None
      | Some sig \<Rightarrow>
          (case InitSRBResourceCache sig of
             None \<Rightarrow> None
           | Some c0 \<Rightarrow>
               (case BindResource test_hc True no_svh sig (Some Obj) ArrayInd 0 c0 of
                  None \<Rightarrow> None
                | Some (c, ev) \<Rightarrow>
                    Some (map pObject (m_RootTables c ! 0), map (\<lambda>i. IsBound sig i 0 c) Asked))))"

text \<open>
  The implementation class that \<open>TransitionResource\<close> casts the object of an entry to,
  by the type of the entry: the class of the objects that the \<open>Cache...\<close> functions
  store with that type.
\<close>

fun ExpectedClass :: "SHADER_RESOURCE_TYPE \<Rightarrow> DeviceObject \<Rightarrow> bool" where
  "ExpectedClass SHADER_RESOURCE_TYPE_CONSTANT_BUFFER Obj = IsBufferD3D12 Obj"
| "ExpectedClass SHADER_RESOURCE_TYPE_BUFFER_SRV Obj = IsBufferViewD3D12 Obj"
| "ExpectedClass SHADER_RESOURCE_TYPE_BUFFER_UAV Obj = IsBufferViewD3D12 Obj"
| "ExpectedClass SHADER_RESOURCE_TYPE_TEXTURE_SRV Obj = IsTextureViewD3D12 Obj"
| "ExpectedClass SHADER_RESOURCE_TYPE_TEXTURE_UAV Obj = IsTextureViewD3D12 Obj"
| "ExpectedClass SHADER_RESOURCE_TYPE_ACCEL_STRUCT Obj = IsTopLevelASD3D12 Obj"
| "ExpectedClass SHADER_RESOURCE_TYPE_SAMPLER Obj = IsSamplerD3D12 Obj"
| "ExpectedClass T Obj = False"

text \<open>
  A world for the concrete inputs: the list of the state changes so far, the latest
  first; a resource that is not in the list is in an unknown state.
\<close>

definition test_ops :: "(nat \<times> RESOURCE_STATE) list ResourceStateOps" where
  "test_ops = \<lparr>
     IsInKnownState = (\<lambda>w i. map_of w i \<noteq> None),
     CheckState = (\<lambda>w i s. map_of w i = Some s),
     CheckAnyState = (\<lambda>w i ss. case map_of w i of None \<Rightarrow> False | Some s \<Rightarrow> s \<in> set ss),
     CtxTransitionResource = (\<lambda>w i s. (i, s) # w) \<rparr>"

text \<open>
  A description with a writable texture, a texture and an acceleration structure,
  Mutable and for the pixel stage: the layout puts them into the entries 0, 1 and 2 of
  one root table. The views are of the textures 10 and 11, the acceleration structure
  is the object 12.
\<close>

definition transition_desc :: "unit PipelineResourceSignatureDesc" where
  "transition_desc = MkDesc
     [MkRes ''g_RWTex'' SHADER_TYPE_PIXEL 1 SHADER_RESOURCE_TYPE_TEXTURE_UAV
        SHADER_RESOURCE_VARIABLE_TYPE_MUTABLE 0,
      MkRes ''g_Tex'' SHADER_TYPE_PIXEL 1 SHADER_RESOURCE_TYPE_TEXTURE_SRV
        SHADER_RESOURCE_VARIABLE_TYPE_MUTABLE 0,
      MkRes ''g_TLAS'' SHADER_TYPE_PIXEL 1 SHADER_RESOURCE_TYPE_ACCEL_STRUCT
        SHADER_RESOURCE_VARIABLE_TYPE_MUTABLE 0]"

definition uav_view :: DeviceObject where
  "uav_view = TextureViewD3D12Impl 2 VIEW_UNORDERED_ACCESS 10 None 128"

definition srv_view :: DeviceObject where
  "srv_view = TextureViewD3D12Impl 3 VIEW_SHADER_RESOURCE 11 None 192"

definition tlas :: DeviceObject where
  "tlas = TopLevelASD3D12Impl 12 256"

text \<open>
  A description with one writable buffer, Mutable and with no flags: the layout makes
  it a root view. The view to bind is of the buffer 20.
\<close>

definition root_view_desc :: "unit PipelineResourceSignatureDesc" where
  "root_view_desc = MkDesc
     [MkRes ''g_RWBuf'' SHADER_TYPE_PIXEL 1 SHADER_RESOURCE_TYPE_BUFFER_UAV
        SHADER_RESOURCE_VARIABLE_TYPE_MUTABLE 0]"

definition rw_buffer_view :: DeviceObject where
  "rw_buffer_view = BufferViewD3D12Impl 4 VIEW_UNORDERED_ACCESS 20 320"

text \<open>Binding the objects of a list to the resources 0, 1, ... of a signature, element 0.\<close>

fun BindAll ::
  "('sam, 'x) PipelineResourceSignatureD3D12Impl_scheme \<Rightarrow> DeviceObject list \<Rightarrow> nat
   \<Rightarrow> ShaderResourceCacheD3D12 \<Rightarrow> ShaderResourceCacheD3D12 option" where
  "BindAll sig [] r c = Some c"
| "BindAll sig (Obj # rest) r c =
     (case BindResource test_hc True no_svh sig (Some Obj) 0 r c of
        None \<Rightarrow> None
      | Some (c1, ev) \<Rightarrow> BindAll sig rest (Suc r) c1)"

text \<open>
  The signature of a description is constructed, a cache of a binding context is
  created for it and the objects are bound.
\<close>

definition SignatureAndCache ::
  "unit PipelineResourceSignatureDesc \<Rightarrow> DeviceObject list
   \<Rightarrow> (unit PipelineResourceSignatureD3D12Impl \<times> ShaderResourceCacheD3D12) option" where
  "SignatureAndCache Desc Objs =
     (case ConstructSignature stable_sort test_hc test_hf Desc of
        None \<Rightarrow> None
      | Some sig \<Rightarrow>
          (case InitSRBResourceCache sig of
             None \<Rightarrow> None
           | Some c0 \<Rightarrow> map_option (\<lambda>c. (sig, c)) (BindAll sig Objs 0 c0)))"

text \<open>
  The calls and errors of \<open>TransitionResources\<close> on that signature and cache, from a
  world.
\<close>

definition TransitionEvents ::
  "unit PipelineResourceSignatureDesc \<Rightarrow> DeviceObject list \<Rightarrow> (nat \<times> RESOURCE_STATE) list
   \<Rightarrow> bool \<Rightarrow> bool \<Rightarrow> TransitionEvent list option" where
  "TransitionEvents Desc Objs w PerformResourceTransitions ValidateStates =
     (case SignatureAndCache Desc Objs of
        None \<Rightarrow> None
      | Some (sig, c) \<Rightarrow>
          map_option snd
            (TransitionResources test_ops True sig c w PerformResourceTransitions ValidateStates))"

text \<open>
  Root parameters with two tables of the pixel stage, of two ranges and of one range,
  and one root view.
\<close>

definition example_ranges :: "D3D12_DESCRIPTOR_RANGE list" where
  "example_ranges =
     [\<lparr> RangeType = D3D12_DESCRIPTOR_RANGE_TYPE_SRV, NumDescriptors = 2, BaseShaderRegister = 0,
        RegisterSpace = 0, OffsetInDescriptorsFromTableStart = 0 \<rparr>,
      \<lparr> RangeType = D3D12_DESCRIPTOR_RANGE_TYPE_UAV, NumDescriptors = 1, BaseShaderRegister = 0,
        RegisterSpace = 0, OffsetInDescriptorsFromTableStart = 2 \<rparr>,
      \<lparr> RangeType = D3D12_DESCRIPTOR_RANGE_TYPE_SAMPLER, NumDescriptors = 4, BaseShaderRegister = 0,
        RegisterSpace = 0, OffsetInDescriptorsFromTableStart = 0 \<rparr>]"

definition example_root_params :: RootParamsManager where
  "example_root_params =
     \<lparr> m_pRootTables =
         [(RootParameter_Table 0 2 0 D3D12_SHADER_VISIBILITY_PIXEL ROOT_TYPE_STATIC)
            \<lparr> m_DescriptorTableSize := 3 \<rparr>,
          (RootParameter_Table 2 1 2 D3D12_SHADER_VISIBILITY_PIXEL ROOT_TYPE_DYNAMIC)
            \<lparr> m_DescriptorTableSize := 4 \<rparr>],
       m_pRootViews =
         [RootParameter_View D3D12_ROOT_PARAMETER_TYPE_CBV 1 0 0 D3D12_SHADER_VISIBILITY_VERTEX
            ROOT_TYPE_STATIC],
       m_pRanges = example_ranges \<rparr>"


text \<open>
  Two caches of one shape: the same content type and the same entries, whatever the
  entries hold.
\<close>

definition SameShape :: "ShaderResourceCacheD3D12 \<Rightarrow> ShaderResourceCacheD3D12 \<Rightarrow> bool" where
  "SameShape c c' \<longleftrightarrow>
     m_ContentType c' = m_ContentType c
     \<and> map length (m_RootTables c') = map length (m_RootTables c)"












section \<open>Properties of the description copy\<close>

lemma std_sort_spec_stable_sort: "std_sort_spec stable_sort"
  by (simp add: std_sort_spec_def stable_sort_def)

lemma std_sort_mset:
  assumes "mset p = mset [0..<length rs]"
  shows "mset (map (\<lambda>i. rs ! i) p) = mset rs"
proof -
  have "mset (map (\<lambda>i. rs ! i) p) = image_mset (\<lambda>i. rs ! i) (mset p)" by simp
  also have "\<dots> = mset (map (\<lambda>i. rs ! i) [0..<length rs])" using assms by simp
  also have "\<dots> = mset rs" by (simp add: map_nth)
  finally show ?thesis .
qed

lemma std_sort_keys:
  assumes "mset p = mset [0..<length rs]"
  shows "map f (map (\<lambda>i. rs ! i) p) = map (\<lambda>i. map f rs ! i) p"
proof -
  have "set p = {0..<length rs}" using assms by (metis mset_eq_setD set_upt)
  then show ?thesis by simp
qed

lemma length_CountResourceOffsets [simp]:
  "length (CountResourceOffsets rs offs) = length offs"
  by (induction rs arbitrary: offs) simp_all

lemma CountResourceOffsets_nth:
  "length offs = 4 \<Longrightarrow> k < 4 \<Longrightarrow>
   CountResourceOffsets rs offs ! k =
     offs ! k + of_nat (length (filter (\<lambda>r. VarIdx (VarType r) + 1 = k) rs))"
proof (induction rs arbitrary: offs)
  case Nil
  then show ?case by simp
next
  case (Cons r rs)
  have "VarIdx (VarType r) + 1 < 4" by (cases "VarType r") simp_all
  with Cons show ?case by (simp add: nth_list_update)
qed

lemma AccumulateResourceOffsets_4:
  "length offs = 4 \<Longrightarrow>
   AccumulateResourceOffsets offs =
     [offs ! 0, offs ! 0 + offs ! 1, offs ! 0 + offs ! 1 + offs ! 2,
      offs ! 0 + offs ! 1 + offs ! 2 + offs ! 3]"
  apply (cases offs; simp)
  subgoal for a as apply (cases as; simp)
    subgoal for b bs apply (cases bs; simp)
      subgoal for c cs apply (cases cs; simp)
        apply (simp add: AccumulateResourceOffsets_def upt_rec add.commute add.left_commute)
        done done done done

lemma FindResourceFrom_least:
  assumes "\<exists>i<length rs. (ShaderStages (rs ! i) AND s) \<noteq> 0 \<and> Name (rs ! i) = nm"
  shows "\<exists>f<length rs. FindResourceFrom rs b s nm = b + f
           \<and> (ShaderStages (rs ! f) AND s) \<noteq> 0 \<and> Name (rs ! f) = nm
           \<and> (\<forall>i<f. \<not> ((ShaderStages (rs ! i) AND s) \<noteq> 0 \<and> Name (rs ! i) = nm))"
  using assms
proof (induction rs arbitrary: b)
  case Nil
  then show ?case by simp
next
  case (Cons x xs)
  show ?case
  proof (cases "(ShaderStages x AND s) \<noteq> 0 \<and> Name x = nm")
    case True
    then show ?thesis by (intro exI[of _ 0]) simp
  next
    case False
    from Cons.prems obtain i where
      i: "i < length (x # xs)" "(ShaderStages ((x # xs) ! i) AND s) \<noteq> 0 \<and> Name ((x # xs) ! i) = nm"
      by blast
    with False obtain j where j: "i = Suc j" by (cases i) auto
    with i have "\<exists>i<length xs. (ShaderStages (xs ! i) AND s) \<noteq> 0 \<and> Name (xs ! i) = nm"
      by (intro exI[of _ j]) simp
    from Cons.IH[OF this, of "Suc b"] obtain f where
      f: "f < length xs" "FindResourceFrom xs (Suc b) s nm = Suc b + f"
         "(ShaderStages (xs ! f) AND s) \<noteq> 0 \<and> Name (xs ! f) = nm"
         "\<forall>i<f. \<not> ((ShaderStages (xs ! i) AND s) \<noteq> 0 \<and> Name (xs ! i) = nm)"
      by blast
    have "\<forall>i<Suc f. \<not> ((ShaderStages ((x # xs) ! i) AND s) \<noteq> 0 \<and> Name ((x # xs) ! i) = nm)"
      using False f(4) by (simp add: All_less_Suc2)
    then show ?thesis
      using False f(1,2,3) by (intro exI[of _ "Suc f"]) simp
  qed
qed

lemma sorted_prefix_less:
  "sorted (map f xs) \<Longrightarrow> i < length xs \<Longrightarrow>
   (f (xs ! i) < (k::nat)) = (i < length (filter (\<lambda>x. f x < k) xs))"
proof (induction xs arbitrary: i)
  case Nil then show ?case by simp
next
  case (Cons x xs)
  have emp: "filter (\<lambda>x. f x < k) xs = []" if "\<not> f x < k"
    using that Cons.prems(1) by (auto simp: filter_empty_conv)
  show ?case
  proof (cases i)
    case 0 
    then show ?thesis using emp by auto
  next
    case (Suc j)
    have le: "f x \<le> f (xs ! j)" using Cons.prems Suc by simp
    have IH: "(f (xs ! j) < k) = (j < length (filter (\<lambda>x. f x < k) xs))"
      using Cons.IH[of j] Cons.prems Suc by simp
    show ?thesis
    proof (cases "f x < k")
      case True then show ?thesis using IH Suc by simp
    next
      case False
      then have "\<not> f (xs ! j) < k" using le by simp
      then show ?thesis using False Suc emp by simp
    qed
  qed
qed

lemma VarIdx_inj: "(VarIdx a = VarIdx b) = (a = b)"
  by (cases a; cases b) simp_all

lemma VarIdx_less: "VarIdx a < 3"
  by (cases a) simp_all

lemma length_filter_less_Suc:
  "length (filter (\<lambda>r. f r < Suc k) xs) =
   length (filter (\<lambda>r. f r < k) xs) + length (filter (\<lambda>r. f r = k) xs)"
  by (induction xs) auto

lemma offsets_nth:
  assumes "k < 4"
  shows "AccumulateResourceOffsets (CountResourceOffsets rs (replicate 4 0)) ! k =
         of_nat (length (filter (\<lambda>r. VarIdx (VarType r) < k) rs))"
proof -
  let ?c = "CountResourceOffsets rs (replicate 4 0)"
  have c: "?c ! j = of_nat (length (filter (\<lambda>r. VarIdx (VarType r) + 1 = j) rs))" if "j < 4" for j
    using CountResourceOffsets_nth[of "replicate 4 0" j rs] that by simp
  have acc: "AccumulateResourceOffsets ?c =
     [?c ! 0, ?c ! 0 + ?c ! 1, ?c ! 0 + ?c ! 1 + ?c ! 2, ?c ! 0 + ?c ! 1 + ?c ! 2 + ?c ! 3]"
    by (rule AccumulateResourceOffsets_4) simp
  have k: "k = 0 \<or> k = 1 \<or> k = 2 \<or> k = 3" using assms by arith
  have s1: "length (filter (\<lambda>r. VarIdx (VarType r) < 1) rs)
          = length (filter (\<lambda>r. VarIdx (VarType r) = 0) rs)" by simp
  have s2: "length (filter (\<lambda>r. VarIdx (VarType r) < 2) rs)
          = length (filter (\<lambda>r. VarIdx (VarType r) = 0) rs) + length (filter (\<lambda>r. VarIdx (VarType r) = 1) rs)"
    using length_filter_less_Suc[of "\<lambda>r. VarIdx (VarType r)" 1 rs] by (simp add: numeral_2_eq_2)
  have s3: "length (filter (\<lambda>r. VarIdx (VarType r) < 3) rs)
          = length (filter (\<lambda>r. VarIdx (VarType r) = 0) rs) + length (filter (\<lambda>r. VarIdx (VarType r) = 1) rs)
            + length (filter (\<lambda>r. VarIdx (VarType r) = 2) rs)"
    using length_filter_less_Suc[of "\<lambda>r. VarIdx (VarType r)" 2 rs] s2 by (simp add: numeral_3_eq_3 numeral_2_eq_2)
  from k show ?thesis
    by (auto simp: acc c s1 s2 s3)
qed

lemma length_filter_mset_eq:
  "mset xs = mset ys \<Longrightarrow> length (filter P xs) = length (filter P ys)"
  by (metis mset_filter size_mset)

text \<open>
  Claim C2, as the code has it. After \<open>CopyDescription\<close>, for any \<open>std::sort\<close> that
  meets the standard's contract and any description with fewer than 65536 resources
  (the offset table is 16-bit): the owned resource array is ordered by variable class
  (Static before Mutable before Dynamic) and is a permutation of the resources of the
  description; for every class \<open>c\<close> the index range \<open>[offset[c], offset[c+1])\<close> has
  exactly as many positions as the description has resources of class \<open>c\<close>; and every
  position in that range holds a resource of class \<open>c\<close>. The relative order inside one
  class is left open: \<open>std::sort\<close> is not a stable sort.
\<close>

theorem CopyDescription_sorted_by_class:
  assumes "std_sort_spec srt" and "length (Resources Desc) < 65536"
  shows "sorted (map (\<lambda>r. VarIdx (VarType r)) (Resources (m_Desc (CopyDescription srt Desc))))
       \<and> mset (Resources (m_Desc (CopyDescription srt Desc))) = mset (Resources Desc)
       \<and> (\<forall>c. unat (snd (GetResourceIndexRange (CopyDescription srt Desc) c))
              = unat (fst (GetResourceIndexRange (CopyDescription srt Desc) c))
                + length (filter (\<lambda>r. VarType r = c) (Resources Desc)))
       \<and> (\<forall>c i. unat (fst (GetResourceIndexRange (CopyDescription srt Desc) c)) \<le> i
              \<and> i < unat (snd (GetResourceIndexRange (CopyDescription srt Desc) c))
              \<longrightarrow> i < length (Resources Desc)
                \<and> VarType (Resources (m_Desc (CopyDescription srt Desc)) ! i) = c)"
proof -
  let ?rs = "Resources Desc"
  let ?ks = "map (\<lambda>r. VarIdx (VarType r)) ?rs"
  let ?out = "Resources (m_Desc (CopyDescription srt Desc))"
  let ?N = "\<lambda>k. length (filter (\<lambda>r. VarIdx (VarType r) < k) ?rs)"
  have out: "?out = map (\<lambda>i. ?rs ! i) (srt ?ks)"
    by (simp add: CopyDescription_def std_sort_def)
  have p: "mset (srt ?ks) = mset [0..<length ?rs]" and s: "sorted (map (\<lambda>i. ?ks ! i) (srt ?ks))"
    using assms(1) by (simp_all add: std_sort_spec_def)
  have m: "mset ?out = mset ?rs"
    unfolding out using p by (rule std_sort_mset)
  have srt: "sorted (map (\<lambda>r. VarIdx (VarType r)) ?out)"
    unfolding out std_sort_keys[OF p] using s .
  have len: "length ?out = length ?rs"
    using m by (metis size_mset)
  have N_le: "?N k \<le> length ?rs" for k by simp
  have off: "unat (m_ResourceOffsets (CopyDescription srt Desc) ! k) = ?N k" if "k < 4" for k
  proof -
    have "m_ResourceOffsets (CopyDescription srt Desc) ! k = of_nat (?N k)"
      using offsets_nth[OF that, of ?rs]
      by (simp add: CopyDescription_def SHADER_RESOURCE_VARIABLE_TYPE_NUM_TYPES_def)
    moreover have "?N k < 2 ^ 16"
      using le_less_trans[OF length_filter_le assms(2), of "\<lambda>r. VarIdx (VarType r) < k"] by simp
    ultimately show ?thesis by (simp add: unat_of_nat)
  qed
  have rng: "unat (fst (GetResourceIndexRange (CopyDescription srt Desc) c)) = ?N (VarIdx c)"
            "unat (snd (GetResourceIndexRange (CopyDescription srt Desc) c)) = ?N (Suc (VarIdx c))" for c
    using VarIdx_less[of c] by (simp_all add: GetResourceIndexRange_def off)
  have cnt: "?N (Suc (VarIdx c)) = ?N (VarIdx c) + length (filter (\<lambda>r. VarType r = c) ?rs)" for c
    using length_filter_less_Suc[of "\<lambda>r. VarIdx (VarType r)" "VarIdx c" ?rs]
    by (simp add: VarIdx_inj)
  have inrange: "i < length ?rs \<and> VarType (?out ! i) = c"
    if "?N (VarIdx c) \<le> i" "i < ?N (Suc (VarIdx c))" for c i
  proof -
    have i: "i < length ?out"
      using less_le_trans[OF that(2) length_filter_le] len by simp
    have Nout: "length (filter (\<lambda>r. VarIdx (VarType r) < k) ?out) = ?N k" for k
      using m by (rule length_filter_mset_eq)
    have "VarIdx (VarType (?out ! i)) < Suc (VarIdx c)"
      using sorted_prefix_less[OF srt i, of "Suc (VarIdx c)"] that(2) Nout by simp
    moreover have "\<not> VarIdx (VarType (?out ! i)) < VarIdx c"
      using sorted_prefix_less[OF srt i, of "VarIdx c"] that(1) Nout by simp
    ultimately have "VarIdx (VarType (?out ! i)) = VarIdx c" by simp
    then show ?thesis using i len by (simp add: VarIdx_inj)
  qed
  have c3: "\<forall>c. unat (snd (GetResourceIndexRange (CopyDescription srt Desc) c))
              = unat (fst (GetResourceIndexRange (CopyDescription srt Desc) c))
                + length (filter (\<lambda>r. VarType r = c) (Resources Desc))"
    unfolding rng using cnt by blast
  have c4: "\<forall>c i. unat (fst (GetResourceIndexRange (CopyDescription srt Desc) c)) \<le> i
              \<and> i < unat (snd (GetResourceIndexRange (CopyDescription srt Desc) c))
              \<longrightarrow> i < length (Resources Desc)
                \<and> VarType (Resources (m_Desc (CopyDescription srt Desc)) ! i) = c"
    unfolding rng using inrange by blast
  from srt m c3 c4 show ?thesis by blast
qed

theorem CopyDescription_sorted_by_class_witness:
  "std_sort_spec stable_sort \<and> length (Resources example_desc) < 65536
   \<and> map Name (Resources (m_Desc (CopyDescription stable_sort example_desc)))
       = [''g_A'', ''g_B'', ''g_Mut'', ''g_Dyn'']
   \<and> sorted (map (\<lambda>r. VarIdx (VarType r)) (Resources (m_Desc (CopyDescription stable_sort example_desc))))
   \<and> GetResourceIndexRange (CopyDescription stable_sort example_desc) SHADER_RESOURCE_VARIABLE_TYPE_STATIC = (0, 2)
   \<and> GetResourceIndexRange (CopyDescription stable_sort example_desc) SHADER_RESOURCE_VARIABLE_TYPE_MUTABLE = (2, 3)
   \<and> GetResourceIndexRange (CopyDescription stable_sort example_desc) SHADER_RESOURCE_VARIABLE_TYPE_DYNAMIC = (3, 4)"
proof -
  have h1: "std_sort_spec stable_sort" by (rule std_sort_spec_stable_sort)
  have h2: "length (Resources example_desc) < 65536" by (simp add: example_desc_def MkDesc_def)
  have e: "map Name (Resources (m_Desc (CopyDescription stable_sort example_desc)))
       = [''g_A'', ''g_B'', ''g_Mut'', ''g_Dyn'']"
    by code_simp
  have r: "GetResourceIndexRange (CopyDescription stable_sort example_desc) SHADER_RESOURCE_VARIABLE_TYPE_STATIC = (0, 2)"
    "GetResourceIndexRange (CopyDescription stable_sort example_desc) SHADER_RESOURCE_VARIABLE_TYPE_MUTABLE = (2, 3)"
    "GetResourceIndexRange (CopyDescription stable_sort example_desc) SHADER_RESOURCE_VARIABLE_TYPE_DYNAMIC = (3, 4)"
    by code_simp+
  show ?thesis
    using CopyDescription_sorted_by_class [OF h1 h2] h1 h2 e r by simp
qed

text \<open>
  Claim C2 as stated also asks that resources of one class keep their relative order.
  The GNU C++ library inserts arrays of at most 16 elements in order, and partitions
  longer ones around a median. With it, the seventeen Static resources of
  \<open>seventeen_static_desc\<close>, all of one class and fewer than 65536, come out in another
  order than the description has them.
\<close>

theorem CopyDescription_order_not_retained:
  "map Name (Resources seventeen_static_desc)
     = [''g_00'', ''g_01'', ''g_02'', ''g_03'', ''g_04'', ''g_05'', ''g_06'', ''g_07'', ''g_08'',
        ''g_09'', ''g_10'', ''g_11'', ''g_12'', ''g_13'', ''g_14'', ''g_15'', ''g_16'']
   \<and> map VarType (Resources seventeen_static_desc) = replicate 17 SHADER_RESOURCE_VARIABLE_TYPE_STATIC
   \<and> gnu_sort (map (\<lambda>r. VarIdx (VarType r)) (Resources seventeen_static_desc))
       = Some [8, 16, 15, 14, 13, 12, 11, 10, 9, 0, 7, 6, 5, 4, 3, 2, 1]
   \<and> map Name (Resources (m_Desc (CopyDescription libstdcxx_sort seventeen_static_desc)))
     = [''g_08'', ''g_16'', ''g_15'', ''g_14'', ''g_13'', ''g_12'', ''g_11'', ''g_10'', ''g_09'',
        ''g_00'', ''g_07'', ''g_06'', ''g_05'', ''g_04'', ''g_03'', ''g_02'', ''g_01'']
   \<and> filter (\<lambda>r. VarType r = SHADER_RESOURCE_VARIABLE_TYPE_STATIC)
        (Resources (m_Desc (CopyDescription libstdcxx_sort seventeen_static_desc)))
     \<noteq> filter (\<lambda>r. VarType r = SHADER_RESOURCE_VARIABLE_TYPE_STATIC) (Resources seventeen_static_desc)"
  by code_simp

text \<open>
  Claim C3, as the code has it. For the resource at index \<open>r\<close>, looked up by its own name
  and a non-empty stage set \<open>s\<close> contained in its stage mask, \<open>FindResource\<close> returns the
  first index whose resource has that name and a stage mask overlapping \<open>s\<close>: the
  result is at most \<open>r\<close>, the resource at the result has the name and overlaps \<open>s\<close>,
  and no resource at a smaller index has both. The result is \<open>r\<close> exactly when no
  resource at an index smaller than \<open>r\<close> has the same name and a stage mask that
  overlaps \<open>s\<close>.
\<close>

theorem FindResource_own_name:
  assumes "r < length (Resources (m_Desc sig))"
    and "s \<noteq> 0"
    and "ShaderStages (Resources (m_Desc sig) ! r) AND s = s"
  shows "FindResource sig s (Name (Resources (m_Desc sig) ! r)) \<le> r
       \<and> (ShaderStages (Resources (m_Desc sig)
             ! FindResource sig s (Name (Resources (m_Desc sig) ! r))) AND s) \<noteq> 0
       \<and> Name (Resources (m_Desc sig) ! FindResource sig s (Name (Resources (m_Desc sig) ! r)))
           = Name (Resources (m_Desc sig) ! r)
       \<and> (\<forall>i<FindResource sig s (Name (Resources (m_Desc sig) ! r)).
             \<not> ((ShaderStages (Resources (m_Desc sig) ! i) AND s) \<noteq> 0
                \<and> Name (Resources (m_Desc sig) ! i) = Name (Resources (m_Desc sig) ! r)))
       \<and> ((FindResource sig s (Name (Resources (m_Desc sig) ! r)) = r) =
          (\<forall>i<r. \<not> ((ShaderStages (Resources (m_Desc sig) ! i) AND s) \<noteq> 0
                   \<and> Name (Resources (m_Desc sig) ! i) = Name (Resources (m_Desc sig) ! r))))"
proof -
  let ?rs = "Resources (m_Desc sig)"
  let ?nm = "Name (?rs ! r)"
  let ?M = "\<lambda>i. (ShaderStages (?rs ! i) AND s) \<noteq> 0 \<and> Name (?rs ! i) = ?nm"
  have Mr: "?M r" using assms(2,3) by simp
  then have "\<exists>i<length ?rs. ?M i" using assms(1) by blast
  from FindResourceFrom_least[OF this, of 0] obtain f where
    f: "f < length ?rs" "FindResource sig s ?nm = f" "?M f" "\<forall>i<f. \<not> ?M i"
    by (auto simp: FindResource_def)
  have le: "f \<le> r"
  proof (rule ccontr)
    assume "\<not> f \<le> r"
    then have "r < f" by simp
    with f(4) Mr show False by blast
  qed
  have "(f = r) = (\<forall>i<r. \<not> ?M i)"
  proof
    assume "f = r"
    with f(4) show "\<forall>i<r. \<not> ?M i" by simp
  next
    assume a: "\<forall>i<r. \<not> ?M i"
    show "f = r"
    proof (rule ccontr)
      assume "f \<noteq> r"
      with le have "f < r" by simp
      with a f(3) show False by blast
    qed
  qed
  with le f(3,4) show ?thesis unfolding f(2) by blast
qed

theorem FindResource_own_name_witness:
  "2 < length (Resources (m_Desc (CopyDescription stable_sort example_desc)))
   \<and> (2 :: 32 word) \<noteq> 0
   \<and> ShaderStages (Resources (m_Desc (CopyDescription stable_sort example_desc)) ! 2) AND 2 = 2
   \<and> FindResource (CopyDescription stable_sort example_desc) 2
        (Name (Resources (m_Desc (CopyDescription stable_sort example_desc)) ! 2)) = 2"
proof -
  let ?sig = "CopyDescription stable_sort example_desc"
  have rs: "Resources (m_Desc ?sig) = 
     [MkRes ''g_A'' 1 1 SHADER_RESOURCE_TYPE_TEXTURE_SRV SHADER_RESOURCE_VARIABLE_TYPE_STATIC 0,
      MkRes ''g_B'' 1 1 SHADER_RESOURCE_TYPE_TEXTURE_SRV SHADER_RESOURCE_VARIABLE_TYPE_STATIC 0,
      MkRes ''g_Mut'' 2 1 SHADER_RESOURCE_TYPE_TEXTURE_SRV SHADER_RESOURCE_VARIABLE_TYPE_MUTABLE 0,
      MkRes ''g_Dyn'' 1 1 SHADER_RESOURCE_TYPE_TEXTURE_SRV SHADER_RESOURCE_VARIABLE_TYPE_DYNAMIC 0]"
    by code_simp
  have h1: "2 < length (Resources (m_Desc ?sig))" by (simp add: rs)
  have h2: "(2 :: 32 word) \<noteq> 0" by simp
  have h3: "ShaderStages (Resources (m_Desc ?sig) ! 2) AND 2 = 2" by (simp add: rs MkRes_def)
  have "\<forall>i<2. \<not> ((ShaderStages (Resources (m_Desc ?sig) ! i) AND 2) \<noteq> 0
                   \<and> Name (Resources (m_Desc ?sig) ! i) = Name (Resources (m_Desc ?sig) ! 2))"
    by (simp add: rs MkRes_def All_less_Suc numeral_2_eq_2)
  then show ?thesis using FindResource_own_name [OF h1 h2 h3] h1 h2 h3 by simp
qed

text \<open>
  Claim C3 as stated fails when two resources share a name and a stage: nothing in
  \<open>CopyDescription\<close> or \<open>FindResource\<close> excludes it, and the lookup of the second
  resource of \<open>same_name_desc\<close> by its own name and stage returns index 0, not 1.
\<close>

theorem FindResource_duplicate_name:
  "1 < length (Resources (m_Desc (CopyDescription stable_sort same_name_desc)))
   \<and> ShaderStages (Resources (m_Desc (CopyDescription stable_sort same_name_desc)) ! 1) AND 1 = 1
   \<and> FindResource (CopyDescription stable_sort same_name_desc) 1
        (Name (Resources (m_Desc (CopyDescription stable_sort same_name_desc)) ! 1)) \<noteq> 1"
  by code_simp

section \<open>The query of a binding\<close>

text \<open>
  Claim C9. \<open>IsBound\<close> does not answer for the cache entry that the array index addresses.
  In a signature with one array of three textures, whose layout gives the array the
  entries 0, 1 and 2 of root table 0, only element 2 is bound. \<open>IsBound\<close> then answers
  true for element 1, whose entry holds no object, because it reads entry
  \<open>0 + 1 + 1\<close>; and it answers false for element 2, whose entry holds the object,
  because \<open>0 + 2 + 2\<close> is not below the table size 3.
\<close>

theorem IsBound_adds_ArrayIndex_twice:
  "IsBoundAfterBind array_desc tex_view 2 [0, 1, 2]
     = Some ([None, None, Some tex_view], [Some False, Some True, Some False])"
  by code_simp

section \<open>Properties of the layout and of the hash\<close>

lemma AllocateResourceSlot_frame:
  assumes "AllocateResourceSlot sig Stages VT RT n rv bp sp = Some (sig', r, ofs)"
  shows "m_Desc sig' = m_Desc sig" and "m_ResourceOffsets sig' = m_ResourceOffsets sig"
    and "m_pResourceAttribs sig' = m_pResourceAttribs sig"
    and "m_ImmutableSamplers sig' = m_ImmutableSamplers sig"
    and "m_NumSpaces sig' = m_NumSpaces sig"
    and "m_pStaticResCache sig' = m_pStaticResCache sig"
  using assms
  by (auto simp: AllocateResourceSlot_def Let_def split: option.splits if_splits prod.splits)

lemma CreateLayoutStep_frame:
  assumes "CreateLayoutStep hc RD (sig, L) = Some (sig', L')"
  shows "m_Desc sig' = m_Desc sig" and "m_ResourceOffsets sig' = m_ResourceOffsets sig"
    and "length (m_pResourceAttribs sig') = Suc (length (m_pResourceAttribs sig))"
    and "length (m_ImmutableSamplers sig') = length (m_ImmutableSamplers sig)"
    and "m_pStaticResCache sig' = m_pStaticResCache sig"
  using assms
  by (auto simp: CreateLayoutStep_def Let_def dest: AllocateResourceSlot_frame
           split: option.splits if_splits prod.splits)

lemma CreateLayoutLoop_frame:
  assumes "CreateLayoutLoop hc rs (sig, L) = Some (sig', L')"
  shows "m_Desc sig' = m_Desc sig \<and> m_ResourceOffsets sig' = m_ResourceOffsets sig
    \<and> length (m_pResourceAttribs sig') = length (m_pResourceAttribs sig) + length rs
    \<and> length (m_ImmutableSamplers sig') = length (m_ImmutableSamplers sig)
    \<and> m_pStaticResCache sig' = m_pStaticResCache sig"
  using assms
proof (induction rs arbitrary: sig L)
  case Nil
  then show ?case by simp
next
  case (Cons RD rest)
  from Cons.prems obtain sig1 L1 where
    s: "CreateLayoutStep hc RD (sig, L) = Some (sig1, L1)" and
    l: "CreateLayoutLoop hc rest (sig1, L1) = Some (sig', L')"
    by (auto split: option.splits)
  show ?case
    using Cons.IH[OF l] CreateLayoutStep_frame[OF s] by simp
qed

lemma length_AssignImmutableSamplers [simp]:
  "length (AssignImmutableSamplers hc xs n) = length xs"
  by (induction xs arbitrary: n) auto

lemma CreateLayout_frame:
  assumes "CreateLayout hc sig = Some sig'"
  shows "m_Desc sig' = m_Desc sig" and "m_ResourceOffsets sig' = m_ResourceOffsets sig"
    and "length (m_pResourceAttribs sig')
           = length (m_pResourceAttribs sig) + length (Resources (m_Desc sig))"
    and "length (m_ImmutableSamplers sig') = length (m_ImmutableSamplers sig)"
    and "m_pStaticResCache sig' = m_pStaticResCache sig"
proof -
  from assms obtain s1 L where
    l: "CreateLayoutLoop hc (Resources (m_Desc sig)) (sig, ZeroCounters) = Some (s1, L)" and
    e: "sig' = s1\<lparr> m_ImmutableSamplers :=
                  AssignImmutableSamplers hc (m_ImmutableSamplers s1)
                    (NumResources L D3D12_DESCRIPTOR_RANGE_TYPE_SAMPLER) \<rparr>"
    by (auto simp: CreateLayout_def split: option.splits prod.splits)
  note f = CreateLayoutLoop_frame[OF l]
  show "m_Desc sig' = m_Desc sig" using f e by simp
  show "m_ResourceOffsets sig' = m_ResourceOffsets sig" using f e by simp
  show "length (m_pResourceAttribs sig')
           = length (m_pResourceAttribs sig) + length (Resources (m_Desc sig))"
    using f e by simp
  show "length (m_ImmutableSamplers sig') = length (m_ImmutableSamplers sig)" using f e by simp
  show "m_pStaticResCache sig' = m_pStaticResCache sig" using f e by simp
qed

lemma length_std_sort:
  assumes "std_sort_spec srt"
  shows "length (std_sort srt rs) = length rs"
proof -
  have "mset (srt (map (\<lambda>r. VarIdx (VarType r)) rs)) = mset [0..<length rs]"
    using assms unfolding std_sort_spec_def by (metis length_map)
  then have "length (srt (map (\<lambda>r. VarIdx (VarType r)) rs)) = length rs"
    by (metis length_upt mset_eq_length minus_nat.diff_0)
  then show ?thesis by (simp add: std_sort_def)
qed

lemma ConstructSignature_frame:
  assumes "ConstructSignature srt hc hf Desc = Some sig"
  shows "m_Desc sig = m_Desc (CopyDescription srt Desc)"
    and "m_ResourceOffsets sig = m_ResourceOffsets (CopyDescription srt Desc)"
    and "length (m_pResourceAttribs sig) = length (Resources (m_Desc sig))"
    and "length (m_ImmutableSamplers sig) = length (ImmutableSamplers Desc)"
    and "m_Hash sig = CalculateHash hf sig"
proof -
  from assms obtain s0 s1 where
    c: "CreateLayout hc s0 = Some s1" and
    s0: "m_Desc s0 = m_Desc (CopyDescription srt Desc)"
        "m_ResourceOffsets s0 = m_ResourceOffsets (CopyDescription srt Desc)"
        "m_pResourceAttribs s0 = []"
        "length (m_ImmutableSamplers s0) = length (ImmutableSamplers Desc)" and
    sig: "sig = s1\<lparr> m_Hash := CalculateHash hf s1 \<rparr>"
    by (auto simp: ConstructSignature_def SignatureBase.extend_def
             split: option.splits prod.splits)
  note f = CreateLayout_frame[OF c]
  show "m_Desc sig = m_Desc (CopyDescription srt Desc)" using f(1) s0(1) sig by simp
  show "m_ResourceOffsets sig = m_ResourceOffsets (CopyDescription srt Desc)"
    using f(2) s0(2) sig by simp
  show "length (m_pResourceAttribs sig) = length (Resources (m_Desc sig))"
    using f(1,3) s0(3) sig by simp
  show "length (m_ImmutableSamplers sig) = length (ImmutableSamplers Desc)"
    using f(4) s0(4) sig by simp
  show "m_Hash sig = CalculateHash hf sig"
    using sig by (simp add: CalculateHash_def)
qed

lemma CalculateHash_fold:
  "CalculateHash hf sig =
     (if Resources (m_Desc sig) = [] \<and> ImmutableSamplers (m_Desc sig) = [] then 0
      else fold (\<lambda>args Hash. HashCombine hf Hash args)
             (map (\<lambda>(Res, Attr). ResourceHashArgs Res Attr)
                  (zip (Resources (m_Desc sig)) (m_pResourceAttribs sig))
              @ map (\<lambda>Sam. [HashU32 (SamShaderStages Sam), HashSamplerDesc (SamDesc Sam)])
                  (ImmutableSamplers (m_Desc sig)))
             (ComputeHash hf
                [HashU32 (of_nat (length (Resources (m_Desc sig)))),
                 HashU32 (of_nat (length (ImmutableSamplers (m_Desc sig)))),
                 HashU8 (BindingIndex (m_Desc sig))]))"
  by (simp add: CalculateHash_def fold_map comp_def case_prod_unfold)

lemma ConstructSignature_empty:
  assumes "std_sort_spec srt" "Resources Desc = []"
  shows "\<exists>sig. ConstructSignature srt hc hf Desc = Some sig"
proof -
  have "length (std_sort srt (Resources Desc)) = 0"
    using length_std_sort[OF assms(1), of "Resources Desc"] assms(2) by simp
  then have e: "std_sort srt (Resources Desc) = []" by simp
  show ?thesis
    using assms(2) e
    by (simp add: ConstructSignature_def CreateLayout_def CopyDescription_def
          SignatureBase.extend_def)
qed

text \<open>
  Claim C10. For a description with no resource and no immutable sampler the
  constructor succeeds, and the hash it computes with \<open>CalculateHash\<close> and stores for
  \<open>GetHash\<close> is 0, whatever the hash functions are. For every constructed signature
  \<open>GetHash\<close> returns the value of \<open>CalculateHash\<close>; when the description has a resource or
  an immutable sampler, that value is \<open>ComputeHash\<close> of the number of resources, the
  number of immutable samplers and the binding index, combined by \<open>HashCombine\<close> with
  the attributes of every resource in the sorted order and then of every immutable
  sampler.
\<close>

theorem CalculateHash_zero_or_seeded:
  assumes "std_sort_spec srt"
  shows "(Resources Desc = [] \<and> ImmutableSamplers Desc = [] \<longrightarrow>
            (\<exists>sig. ConstructSignature srt hc hf Desc = Some sig
                   \<and> CalculateHash hf sig = 0 \<and> GetHash sig = 0))
       \<and> (\<forall>sig. ConstructSignature srt hc hf Desc = Some sig \<longrightarrow>
            GetHash sig = CalculateHash hf sig
            \<and> (Resources Desc \<noteq> [] \<or> ImmutableSamplers Desc \<noteq> [] \<longrightarrow>
                 GetHash sig =
                   fold (\<lambda>args Hash. HashCombine hf Hash args)
                     (map (\<lambda>(Res, Attr). ResourceHashArgs Res Attr)
                          (zip (Resources (m_Desc sig)) (m_pResourceAttribs sig))
                      @ map (\<lambda>Sam. [HashU32 (SamShaderStages Sam), HashSamplerDesc (SamDesc Sam)])
                          (ImmutableSamplers Desc))
                     (ComputeHash hf
                        [HashU32 (of_nat (length (Resources Desc))),
                         HashU32 (of_nat (length (ImmutableSamplers Desc))),
                         HashU8 (BindingIndex Desc)])))"
proof -
  have d: "length (Resources (m_Desc sig)) = length (Resources Desc)"
          "ImmutableSamplers (m_Desc sig) = ImmutableSamplers Desc"
          "BindingIndex (m_Desc sig) = BindingIndex Desc"
          "GetHash sig = CalculateHash hf sig"
    if c: "ConstructSignature srt hc hf Desc = Some sig" for sig
    using ConstructSignature_frame(1,5)[OF c] length_std_sort[OF assms, of "Resources Desc"]
    by (simp_all add: CopyDescription_def GetHash_def)
  have one: "\<exists>sig. ConstructSignature srt hc hf Desc = Some sig
                  \<and> CalculateHash hf sig = 0 \<and> GetHash sig = 0"
    if e: "Resources Desc = []" "ImmutableSamplers Desc = []"
  proof -
    from ConstructSignature_empty[OF assms e(1)] obtain sig where
      c: "ConstructSignature srt hc hf Desc = Some sig" by blast
    have "Resources (m_Desc sig) = []" using d(1)[OF c] e(1) by simp
    then have "CalculateHash hf sig = 0" using d(2)[OF c] e(2) by (simp add: CalculateHash_fold)
    then show ?thesis using c d(4)[OF c] by simp
  qed
  have two: "GetHash sig =
                   fold (\<lambda>args Hash. HashCombine hf Hash args)
                     (map (\<lambda>(Res, Attr). ResourceHashArgs Res Attr)
                          (zip (Resources (m_Desc sig)) (m_pResourceAttribs sig))
                      @ map (\<lambda>Sam. [HashU32 (SamShaderStages Sam), HashSamplerDesc (SamDesc Sam)])
                          (ImmutableSamplers Desc))
                     (ComputeHash hf
                        [HashU32 (of_nat (length (Resources Desc))),
                         HashU32 (of_nat (length (ImmutableSamplers Desc))),
                         HashU8 (BindingIndex Desc)])"
    if c: "ConstructSignature srt hc hf Desc = Some sig"
      and ne: "Resources Desc \<noteq> [] \<or> ImmutableSamplers Desc \<noteq> []" for sig
  proof -
    have "\<not> (Resources (m_Desc sig) = [] \<and> ImmutableSamplers (m_Desc sig) = [])"
      using d(1,2)[OF c] ne by (metis length_0_conv)
    then show ?thesis
      by (auto simp add: CalculateHash_fold d[OF c])
  qed
  show ?thesis using one two d(4) by blast
qed

theorem CalculateHash_zero_or_seeded_witness:
  "std_sort_spec stable_sort
   \<and> Resources (MkDesc []) = [] \<and> ImmutableSamplers (MkDesc []) = []
   \<and> map_option GetHash (ConstructSignature stable_sort test_hc test_hf (MkDesc [])) = Some 0
   \<and> Resources array_desc \<noteq> []
   \<and> (\<exists>sig. ConstructSignature stable_sort test_hc test_hf array_desc = Some sig
        \<and> GetHash sig
            = HashCombine test_hf
                (ComputeHash test_hf [HashU32 1, HashU32 0, HashU8 0])
                (ResourceHashArgs (Resources (m_Desc sig) ! 0) (m_pResourceAttribs sig ! 0)))"
proof -
  have h: "std_sort_spec stable_sort" by (rule std_sort_spec_stable_sort)
  have e: "Resources (MkDesc []) = []" "ImmutableSamplers (MkDesc []) = []"
    "BindingIndex array_desc = 0" "ImmutableSamplers array_desc = []"
    "length (Resources array_desc) = 1" "Resources array_desc \<noteq> []"
    by (simp_all add: MkDesc_def array_desc_def)
  obtain sig where c: "ConstructSignature stable_sort test_hc test_hf array_desc = Some sig"
    and l: "length (Resources (m_Desc sig)) = 1" "length (m_pResourceAttribs sig) = 1"
  proof -
    have "case ConstructSignature stable_sort test_hc test_hf array_desc of
            None \<Rightarrow> False
          | Some sig \<Rightarrow> length (Resources (m_Desc sig)) = 1 \<and> length (m_pResourceAttribs sig) = 1"
      by code_simp
    then show ?thesis using that by (auto split: option.splits)
  qed
  from l obtain r where r: "Resources (m_Desc sig) = [r]"
    by (cases "Resources (m_Desc sig)") auto
  from l obtain a where a: "m_pResourceAttribs sig = [a]"
    by (cases "m_pResourceAttribs sig") auto
  note t1 = CalculateHash_zero_or_seeded [OF h, of "MkDesc []" test_hc test_hf]
  note t2 = CalculateHash_zero_or_seeded [OF h, of array_desc test_hc test_hf]
  have z: "map_option GetHash (ConstructSignature stable_sort test_hc test_hf (MkDesc [])) = Some 0"
    using t1 e(1,2) by auto
  have g: "GetHash sig
            = HashCombine test_hf
                (ComputeHash test_hf [HashU32 1, HashU32 0, HashU8 0])
                (ResourceHashArgs (Resources (m_Desc sig) ! 0) (m_pResourceAttribs sig ! 0))"
    using t2 c e(3-6) r a by auto
  show ?thesis using h e z c g by blast
qed

section \<open>Properties of the resource state transitions\<close>

lemma TransitionSlots_append:
  "TransitionSlots ops dvp P V c (pre @ post) st =
     (case TransitionSlots ops dvp P V c pre st of
        None \<Rightarrow> None
      | Some st1 \<Rightarrow> TransitionSlots ops dvp P V c post st1)"
  by (induction pre arbitrary: st) (auto split: option.splits)

lemma TransitionResource_events:
  assumes "TransitionResource ops Res st = Some st1"
  shows "\<exists>more. snd st1 = snd st @ more"
  using assms
  by (auto simp: TransitionResource_def DoTransition_def
           split: SHADER_RESOURCE_TYPE.splits option.splits if_splits)

lemma TransitionSlots_events:
  assumes "TransitionSlots ops dvp True V c slots st = Some st1"
  shows "\<exists>more. snd st1 = snd st @ more"
  using assms
proof (induction slots arbitrary: st)
  case Nil
  then show ?case by simp
next
  case (Cons slot rest)
  from Cons.prems obtain Res st2 where
    t: "TransitionResource ops Res st = Some st2" and
    r: "TransitionSlots ops dvp True V c rest st2 = Some st1"
    by (auto split: option.splits)
  from TransitionResource_events[OF t] Cons.IH[OF r] show ?case by auto
qed

lemma TransitionResource_calls:
  assumes "pObject Res = Some Obj" and "ExpectedClass (Type Res) Obj"
  shows "\<exists>w1 calls. TransitionResource ops Res (w, ev) = Some (w1, ev @ calls)
       \<and> (Type Res = SHADER_RESOURCE_TYPE_BUFFER_UAV \<or> Type Res = SHADER_RESOURCE_TYPE_TEXTURE_UAV \<longrightarrow>
            calls = (if IsInKnownState ops w (GetResourceId Obj)
                     then [TransitionResourceCall (GetResourceId Obj) RESOURCE_STATE_UNORDERED_ACCESS]
                     else []))
       \<and> (Type Res = SHADER_RESOURCE_TYPE_ACCEL_STRUCT \<longrightarrow>
            calls = (if IsInKnownState ops w (GetResourceId Obj)
                     then [TransitionResourceCall (GetResourceId Obj) RESOURCE_STATE_RAY_TRACING]
                     else []))
       \<and> (Type Res = SHADER_RESOURCE_TYPE_CONSTANT_BUFFER \<longrightarrow>
            calls = (if IsInKnownState ops w (GetResourceId Obj)
                        \<and> \<not> CheckState ops w (GetResourceId Obj) RESOURCE_STATE_CONSTANT_BUFFER
                     then [TransitionResourceCall (GetResourceId Obj) RESOURCE_STATE_CONSTANT_BUFFER]
                     else []))
       \<and> (Type Res = SHADER_RESOURCE_TYPE_BUFFER_SRV \<longrightarrow>
            calls = (if IsInKnownState ops w (GetResourceId Obj)
                        \<and> \<not> CheckState ops w (GetResourceId Obj) RESOURCE_STATE_SHADER_RESOURCE
                     then [TransitionResourceCall (GetResourceId Obj) RESOURCE_STATE_SHADER_RESOURCE]
                     else []))
       \<and> (Type Res = SHADER_RESOURCE_TYPE_TEXTURE_SRV \<longrightarrow>
            calls = (if IsInKnownState ops w (GetResourceId Obj)
                        \<and> \<not> CheckAnyState ops w (GetResourceId Obj)
                              [RESOURCE_STATE_SHADER_RESOURCE, RESOURCE_STATE_INPUT_ATTACHMENT]
                     then [TransitionResourceCall (GetResourceId Obj) RESOURCE_STATE_SHADER_RESOURCE]
                     else []))
       \<and> (Type Res = SHADER_RESOURCE_TYPE_SAMPLER \<longrightarrow> calls = [])"
  using assms
  by (cases "Type Res") (simp_all add: TransitionResource_def DoTransition_def)

text \<open>
  Claim C8, for the entries that \<open>TransitionResources\<close> visits: the entries that the
  descriptor ranges of the root tables address (root views are not visited). Let the
  walk in transition mode have reached such an entry with the world \<open>w\<close> and the calls
  \<open>ev\<close>, and let the entry hold an object of the class of its type. Then the walk
  continues after the entry with the calls \<open>ev @ calls\<close>, which stay at the front of the
  calls of the whole walk, where \<open>calls\<close> is: for a buffer or texture UAV, and also for
  an acceleration structure, one call (to the unordered-access state, to the
  ray-tracing state) whenever the resource is in a known state, whether or not it is in
  that state already; for a constant buffer, a buffer SRV and a texture SRV, one call
  only when the resource is in a known state that is not the required one (for a
  texture SRV: neither shader-resource nor input-attachment); for a sampler, none.
\<close>

theorem TransitionResources_entry_calls:
  assumes "VisitedSlots (m_RootParams sig) = pre @ slot # post"
    and "TransitionSlots ops dvp True ValidateStates ResourceCache pre (Ctx, []) = Some (w, ev)"
    and "GetResource ResourceCache (fst slot) (snd slot) = Some Res"
    and "pObject Res = Some Obj" and "ExpectedClass (Type Res) Obj"
  shows "\<exists>w1 calls.
         TransitionResources ops dvp sig ResourceCache Ctx True ValidateStates
           = TransitionSlots ops dvp True ValidateStates ResourceCache post (w1, ev @ calls)
       \<and> (\<forall>w_end ev_end.
            TransitionResources ops dvp sig ResourceCache Ctx True ValidateStates = Some (w_end, ev_end)
            \<longrightarrow> (\<exists>more. ev_end = ev @ calls @ more))
       \<and> (Type Res = SHADER_RESOURCE_TYPE_BUFFER_UAV \<or> Type Res = SHADER_RESOURCE_TYPE_TEXTURE_UAV \<longrightarrow>
            calls = (if IsInKnownState ops w (GetResourceId Obj)
                     then [TransitionResourceCall (GetResourceId Obj) RESOURCE_STATE_UNORDERED_ACCESS]
                     else []))
       \<and> (Type Res = SHADER_RESOURCE_TYPE_ACCEL_STRUCT \<longrightarrow>
            calls = (if IsInKnownState ops w (GetResourceId Obj)
                     then [TransitionResourceCall (GetResourceId Obj) RESOURCE_STATE_RAY_TRACING]
                     else []))
       \<and> (Type Res = SHADER_RESOURCE_TYPE_CONSTANT_BUFFER \<longrightarrow>
            calls = (if IsInKnownState ops w (GetResourceId Obj)
                        \<and> \<not> CheckState ops w (GetResourceId Obj) RESOURCE_STATE_CONSTANT_BUFFER
                     then [TransitionResourceCall (GetResourceId Obj) RESOURCE_STATE_CONSTANT_BUFFER]
                     else []))
       \<and> (Type Res = SHADER_RESOURCE_TYPE_BUFFER_SRV \<longrightarrow>
            calls = (if IsInKnownState ops w (GetResourceId Obj)
                        \<and> \<not> CheckState ops w (GetResourceId Obj) RESOURCE_STATE_SHADER_RESOURCE
                     then [TransitionResourceCall (GetResourceId Obj) RESOURCE_STATE_SHADER_RESOURCE]
                     else []))
       \<and> (Type Res = SHADER_RESOURCE_TYPE_TEXTURE_SRV \<longrightarrow>
            calls = (if IsInKnownState ops w (GetResourceId Obj)
                        \<and> \<not> CheckAnyState ops w (GetResourceId Obj)
                              [RESOURCE_STATE_SHADER_RESOURCE, RESOURCE_STATE_INPUT_ATTACHMENT]
                     then [TransitionResourceCall (GetResourceId Obj) RESOURCE_STATE_SHADER_RESOURCE]
                     else []))
       \<and> (Type Res = SHADER_RESOURCE_TYPE_SAMPLER \<longrightarrow> calls = [])"
proof -
  from TransitionResource_calls[OF assms(4,5), of ops w ev] obtain w1 calls where
    t: "TransitionResource ops Res (w, ev) = Some (w1, ev @ calls)" and
    r: "(Type Res = SHADER_RESOURCE_TYPE_BUFFER_UAV \<or> Type Res = SHADER_RESOURCE_TYPE_TEXTURE_UAV \<longrightarrow>
            calls = (if IsInKnownState ops w (GetResourceId Obj)
                     then [TransitionResourceCall (GetResourceId Obj) RESOURCE_STATE_UNORDERED_ACCESS]
                     else []))
       \<and> (Type Res = SHADER_RESOURCE_TYPE_ACCEL_STRUCT \<longrightarrow>
            calls = (if IsInKnownState ops w (GetResourceId Obj)
                     then [TransitionResourceCall (GetResourceId Obj) RESOURCE_STATE_RAY_TRACING]
                     else []))
       \<and> (Type Res = SHADER_RESOURCE_TYPE_CONSTANT_BUFFER \<longrightarrow>
            calls = (if IsInKnownState ops w (GetResourceId Obj)
                        \<and> \<not> CheckState ops w (GetResourceId Obj) RESOURCE_STATE_CONSTANT_BUFFER
                     then [TransitionResourceCall (GetResourceId Obj) RESOURCE_STATE_CONSTANT_BUFFER]
                     else []))
       \<and> (Type Res = SHADER_RESOURCE_TYPE_BUFFER_SRV \<longrightarrow>
            calls = (if IsInKnownState ops w (GetResourceId Obj)
                        \<and> \<not> CheckState ops w (GetResourceId Obj) RESOURCE_STATE_SHADER_RESOURCE
                     then [TransitionResourceCall (GetResourceId Obj) RESOURCE_STATE_SHADER_RESOURCE]
                     else []))
       \<and> (Type Res = SHADER_RESOURCE_TYPE_TEXTURE_SRV \<longrightarrow>
            calls = (if IsInKnownState ops w (GetResourceId Obj)
                        \<and> \<not> CheckAnyState ops w (GetResourceId Obj)
                              [RESOURCE_STATE_SHADER_RESOURCE, RESOURCE_STATE_INPUT_ATTACHMENT]
                     then [TransitionResourceCall (GetResourceId Obj) RESOURCE_STATE_SHADER_RESOURCE]
                     else []))
       \<and> (Type Res = SHADER_RESOURCE_TYPE_SAMPLER \<longrightarrow> calls = [])"
    by blast
  have e: "TransitionResources ops dvp sig ResourceCache Ctx True ValidateStates
           = TransitionSlots ops dvp True ValidateStates ResourceCache post (w1, ev @ calls)"
    using assms(2,3) t
    by (simp add: TransitionResources_def assms(1) TransitionSlots_append)
  have m: "\<exists>more. ev_end = ev @ calls @ more"
    if "TransitionResources ops dvp sig ResourceCache Ctx True ValidateStates = Some (w_end, ev_end)"
    for w_end ev_end
    using TransitionSlots_events[of ops dvp ValidateStates ResourceCache post "(w1, ev @ calls)" "(w_end, ev_end)"]
      that e by simp
  from e m r show ?thesis by blast
qed

theorem TransitionResources_entry_calls_witness:
  "case SignatureAndCache transition_desc [uav_view, srv_view, tlas] of
     None \<Rightarrow> False
   | Some (sig, c) \<Rightarrow>
       VisitedSlots (m_RootParams sig) = [(0, 0), (0, 1)] @ (0, 2) # []
       \<and> TransitionSlots test_ops True True False c [(0, 0), (0, 1)]
            ([(10, RESOURCE_STATE_SHADER_RESOURCE), (12, RESOURCE_STATE_RAY_TRACING)], [])
           = Some ([(10, RESOURCE_STATE_UNORDERED_ACCESS), (10, RESOURCE_STATE_SHADER_RESOURCE),
                    (12, RESOURCE_STATE_RAY_TRACING)],
                   [TransitionResourceCall 10 RESOURCE_STATE_UNORDERED_ACCESS])
       \<and> map_option pObject (GetResource c 0 2) = Some (Some tlas)
       \<and> map_option Type (GetResource c 0 2) = Some SHADER_RESOURCE_TYPE_ACCEL_STRUCT
       \<and> ExpectedClass SHADER_RESOURCE_TYPE_ACCEL_STRUCT tlas
       \<and> (\<exists>w_end. TransitionResources test_ops True sig c
              [(10, RESOURCE_STATE_SHADER_RESOURCE), (12, RESOURCE_STATE_RAY_TRACING)] True False
            = Some (w_end, [TransitionResourceCall 10 RESOURCE_STATE_UNORDERED_ACCESS,
                            TransitionResourceCall 12 RESOURCE_STATE_RAY_TRACING]))"
proof -
  have "case SignatureAndCache transition_desc [uav_view, srv_view, tlas] of
     None \<Rightarrow> False
   | Some (sig, c) \<Rightarrow>
       VisitedSlots (m_RootParams sig) = [(0, 0), (0, 1)] @ (0, 2) # []
       \<and> TransitionSlots test_ops True True False c [(0, 0), (0, 1)] ([(10::nat, RESOURCE_STATE_SHADER_RESOURCE), (12, RESOURCE_STATE_RAY_TRACING)], [])
           = Some ([(10::nat, RESOURCE_STATE_UNORDERED_ACCESS), (10, RESOURCE_STATE_SHADER_RESOURCE), (12, RESOURCE_STATE_RAY_TRACING)], [TransitionResourceCall 10 RESOURCE_STATE_UNORDERED_ACCESS])
       \<and> map_option pObject (GetResource c 0 2) = Some (Some tlas)
       \<and> map_option Type (GetResource c 0 2) = Some SHADER_RESOURCE_TYPE_ACCEL_STRUCT
       \<and> ExpectedClass SHADER_RESOURCE_TYPE_ACCEL_STRUCT tlas"
    by code_simp
  note F = this
  obtain sig c where
    sc: "SignatureAndCache transition_desc [uav_view, srv_view, tlas] = Some (sig, c)"
    using F by (cases "SignatureAndCache transition_desc [uav_view, srv_view, tlas]") auto
  from F have b:
    "VisitedSlots (m_RootParams sig) = [(0, 0), (0, 1)] @ (0, 2) # []
       \<and> TransitionSlots test_ops True True False c [(0, 0), (0, 1)] ([(10::nat, RESOURCE_STATE_SHADER_RESOURCE), (12, RESOURCE_STATE_RAY_TRACING)], [])
           = Some ([(10::nat, RESOURCE_STATE_UNORDERED_ACCESS), (10, RESOURCE_STATE_SHADER_RESOURCE), (12, RESOURCE_STATE_RAY_TRACING)], [TransitionResourceCall 10 RESOURCE_STATE_UNORDERED_ACCESS])
       \<and> map_option pObject (GetResource c 0 2) = Some (Some tlas)
       \<and> map_option Type (GetResource c 0 2) = Some SHADER_RESOURCE_TYPE_ACCEL_STRUCT
       \<and> ExpectedClass SHADER_RESOURCE_TYPE_ACCEL_STRUCT tlas"
    by (simp only: sc option.case prod.case)
  from b have
    h1: "VisitedSlots (m_RootParams sig) = [(0, 0), (0, 1)] @ (0, 2) # []" and
    h2: "TransitionSlots test_ops True True False c [(0, 0), (0, 1)] ([(10::nat, RESOURCE_STATE_SHADER_RESOURCE), (12, RESOURCE_STATE_RAY_TRACING)], [])
           = Some ([(10::nat, RESOURCE_STATE_UNORDERED_ACCESS), (10, RESOURCE_STATE_SHADER_RESOURCE), (12, RESOURCE_STATE_RAY_TRACING)], [TransitionResourceCall 10 RESOURCE_STATE_UNORDERED_ACCESS])" and
    o: "map_option pObject (GetResource c 0 2) = Some (Some tlas)" and
    t: "map_option Type (GetResource c 0 2) = Some SHADER_RESOURCE_TYPE_ACCEL_STRUCT" and
    x: "ExpectedClass SHADER_RESOURCE_TYPE_ACCEL_STRUCT tlas"
    by blast+
  from o t obtain Res where
    h3: "GetResource c (fst (0::32 word, 2::32 word)) (snd (0::32 word, 2::32 word)) = Some Res" and
    h4: "pObject Res = Some tlas" and
    ty: "Type Res = SHADER_RESOURCE_TYPE_ACCEL_STRUCT"
    by auto
  have h5: "ExpectedClass (Type Res) tlas" using x ty by simp
  have k: "IsInKnownState test_ops [(10::nat, RESOURCE_STATE_UNORDERED_ACCESS), (10, RESOURCE_STATE_SHADER_RESOURCE), (12, RESOURCE_STATE_RAY_TRACING)] (GetResourceId tlas)"
    by (simp add: test_ops_def tlas_def)
  from TransitionResources_entry_calls [OF h1 h2 h3 h4 h5] ty k
  have "\<exists>w1. TransitionResources test_ops True sig c [(10::nat, RESOURCE_STATE_SHADER_RESOURCE), (12, RESOURCE_STATE_RAY_TRACING)] True False
           = Some (w1, [TransitionResourceCall 10 RESOURCE_STATE_UNORDERED_ACCESS,
                        TransitionResourceCall 12 RESOURCE_STATE_RAY_TRACING])"
    by (auto simp: tlas_def)
  with sc b show ?thesis by (simp only: option.case prod.case simp_thms)
qed

text \<open>
  Claim C8 as stated fails in two ways. It puts acceleration structures with the
  resources that get a call only when they are not in the required state: the
  acceleration structure 12 is in the ray-tracing state and gets a call to that state
  all the same, while the texture 11 of the SRV is in the shader-resource state and
  gets none. And it promises a call for every bound UAV entry: the writable buffer of
  \<open>root_view_desc\<close> is laid out as a root view, its entry holds the view that was bound,
  no descriptor range addresses the entry, and the walk issues no call although the
  buffer 20 is in a known state.
\<close>

theorem TransitionResources_not_as_claimed:
  "TransitionEvents transition_desc [uav_view, srv_view, tlas]
     [(10, RESOURCE_STATE_UNORDERED_ACCESS), (11, RESOURCE_STATE_SHADER_RESOURCE),
      (12, RESOURCE_STATE_RAY_TRACING)] True False
   = Some [TransitionResourceCall 10 RESOURCE_STATE_UNORDERED_ACCESS,
           TransitionResourceCall 12 RESOURCE_STATE_RAY_TRACING]
   \<and> map_option (\<lambda>(sig, c). (map RootView (m_pResourceAttribs sig),
                              map (map pObject) (m_RootTables c),
                              VisitedSlots (m_RootParams sig)))
        (SignatureAndCache root_view_desc [rw_buffer_view])
      = Some ([True], [[Some rw_buffer_view]], [])
   \<and> TransitionEvents root_view_desc [rw_buffer_view] [(20, RESOURCE_STATE_SHADER_RESOURCE)]
        True False = Some []"
  by code_simp

section \<open>Properties of the root parameters\<close>

lemma CopyRootTable_Some:
  assumes "CopyRootTable SrcMem RP NumRanges pRanges Mem = Some (RP', Mem')"
  shows "RP' = RP\<lparr> NumDescriptorRanges := NumRanges, pDescriptorRanges := pRanges \<rparr>"
    and "length Mem' = length Mem"
    and "pDescriptorRanges RP + NumDescriptorRanges RP \<le> length SrcMem"
    and "pRanges + NumDescriptorRanges RP \<le> length Mem"
    and "\<And>i. i < pRanges \<Longrightarrow> Mem' ! i = Mem ! i"
    and "\<And>i. pRanges + NumDescriptorRanges RP \<le> i \<Longrightarrow> i < length Mem \<Longrightarrow> Mem' ! i = Mem ! i"
    and "\<And>r. r < NumDescriptorRanges RP \<Longrightarrow> Mem' ! (pRanges + r) = SrcMem ! (pDescriptorRanges RP + r)"
proof -
  let ?n = "NumDescriptorRanges RP"
  from assms have
    b: "pDescriptorRanges RP + ?n \<le> length SrcMem" "pRanges + ?n \<le> length Mem" and
    rp: "RP' = RP\<lparr> NumDescriptorRanges := NumRanges, pDescriptorRanges := pRanges \<rparr>" and
    m: "Mem' = take pRanges Mem @ take ?n (drop (pDescriptorRanges RP) SrcMem)
               @ drop (pRanges + ?n) Mem"
    by (auto simp: CopyRootTable_def split: if_splits)
  show "RP' = RP\<lparr> NumDescriptorRanges := NumRanges, pDescriptorRanges := pRanges \<rparr>" by (rule rp)
  show "length Mem' = length Mem" using b by (simp add: m)
  show "pDescriptorRanges RP + ?n \<le> length SrcMem" by (rule b)
  show "pRanges + ?n \<le> length Mem" by (rule b)
  show "Mem' ! i = Mem ! i" if "i < pRanges" for i
    using that b by (simp add: m nth_append)
  show "Mem' ! i = Mem ! i" if "pRanges + ?n \<le> i" "i < length Mem" for i
    using that b by (simp add: m nth_append)
  show "Mem' ! (pRanges + r) = SrcMem ! (pDescriptorRanges RP + r)" if "r < ?n" for r
    using that b by (simp add: m nth_append)
qed

lemma CopyRootTables_Some:
  assumes "CopyRootTables SrcMem nr tgt rt Tables pCurr Mem = Some (New, Mem2, pEnd)"
  shows "length New = length Tables \<and> length Mem2 = length Mem \<and> pCurr \<le> pEnd
       \<and> (\<forall>i<pCurr. Mem2 ! i = Mem ! i)
       \<and> (\<forall>i. pEnd \<le> i \<and> i < length Mem \<longrightarrow> Mem2 ! i = Mem ! i)
       \<and> (\<forall>k<length Tables.
             (\<exists>p. pCurr \<le> p
                \<and> p + NumDescriptorRanges (Tables ! k)
                      + (if Some (rt + k) = tgt then nr else 0) \<le> pEnd
                \<and> New ! k = (Tables ! k)\<lparr>
                     NumDescriptorRanges := NumDescriptorRanges (Tables ! k)
                        + (if Some (rt + k) = tgt then nr else 0),
                     pDescriptorRanges := p \<rparr>)
             \<and> pDescriptorRanges (Tables ! k) + NumDescriptorRanges (Tables ! k) \<le> length SrcMem
             \<and> pDescriptorRanges (New ! k) + NumDescriptorRanges (Tables ! k) \<le> length Mem
             \<and> (\<forall>r<NumDescriptorRanges (Tables ! k).
                   Mem2 ! (pDescriptorRanges (New ! k) + r)
                     = SrcMem ! (pDescriptorRanges (Tables ! k) + r)))"
  using assms
proof (induction Tables arbitrary: rt pCurr Mem New Mem2 pEnd)
  case Nil
  then show ?case by simp
next
  case (Cons T Ts)
  let ?N = "NumDescriptorRanges T + (if Some rt = tgt then nr else 0)"
  from Cons.prems obtain T' Mem1 New' where
    c: "CopyRootTable SrcMem T ?N pCurr Mem = Some (T', Mem1)" and
    r: "CopyRootTables SrcMem nr tgt (Suc rt) Ts (pCurr + ?N) Mem1 = Some (New', Mem2, pEnd)" and
    n: "New = T' # New'"
    by (auto simp: Let_def split: option.splits)
  note c1 = CopyRootTable_Some[OF c]
  note ih = Cons.IH[OF r]
  have len: "length New = length (T # Ts)" using ih n by simp
  have lm: "length Mem2 = length Mem" using ih c1(2) by simp
  have le: "pCurr \<le> pEnd" using ih by simp
  have low: "\<forall>i<pCurr. Mem2 ! i = Mem ! i"
    using ih c1(5) by simp
  have high: "\<forall>i. pEnd \<le> i \<and> i < length Mem \<longrightarrow> Mem2 ! i = Mem ! i"
  proof (intro allI impI)
    fix i assume i: "pEnd \<le> i \<and> i < length Mem"
    have "Mem2 ! i = Mem1 ! i" using ih i c1(2) by simp
    moreover have "pCurr + NumDescriptorRanges T \<le> i" using ih i by simp
    ultimately show "Mem2 ! i = Mem ! i" using c1(6) i by simp
  qed
  have tabs: "(\<exists>p. pCurr \<le> p
                \<and> p + NumDescriptorRanges ((T # Ts) ! k)
                      + (if Some (rt + k) = tgt then nr else 0) \<le> pEnd
                \<and> New ! k = ((T # Ts) ! k)\<lparr>
                     NumDescriptorRanges := NumDescriptorRanges ((T # Ts) ! k)
                        + (if Some (rt + k) = tgt then nr else 0),
                     pDescriptorRanges := p \<rparr>)
             \<and> pDescriptorRanges ((T # Ts) ! k) + NumDescriptorRanges ((T # Ts) ! k) \<le> length SrcMem
             \<and> pDescriptorRanges (New ! k) + NumDescriptorRanges ((T # Ts) ! k) \<le> length Mem
             \<and> (\<forall>r<NumDescriptorRanges ((T # Ts) ! k).
                   Mem2 ! (pDescriptorRanges (New ! k) + r)
                     = SrcMem ! (pDescriptorRanges ((T # Ts) ! k) + r))"
    if k: "k < length (T # Ts)" for k
  proof (cases k)
    case 0
    have p: "pDescriptorRanges T' = pCurr" using c1(1) by simp
    have "Mem2 ! (pCurr + r) = SrcMem ! (pDescriptorRanges T + r)"
      if "r < NumDescriptorRanges T" for r
    proof -
      have "pCurr + r < pCurr + ?N" using that by simp
      then have "Mem2 ! (pCurr + r) = Mem1 ! (pCurr + r)" using ih by blast
      then show ?thesis using c1(7)[OF that] by simp
    qed
    moreover have "pCurr + ?N \<le> pEnd" using ih by simp
    ultimately show ?thesis
      using 0 n c1(1,3,4) p by auto
  next
    case (Suc j)
    then have j: "j < length Ts" using k by simp
    from ih j obtain p where
      p: "pCurr + ?N \<le> p"
         "p + NumDescriptorRanges (Ts ! j) + (if Some (Suc rt + j) = tgt then nr else 0) \<le> pEnd"
         "New' ! j = (Ts ! j)\<lparr>
                     NumDescriptorRanges := NumDescriptorRanges (Ts ! j)
                        + (if Some (Suc rt + j) = tgt then nr else 0),
                     pDescriptorRanges := p \<rparr>" and
      q: "pDescriptorRanges (Ts ! j) + NumDescriptorRanges (Ts ! j) \<le> length SrcMem"
         "pDescriptorRanges (New' ! j) + NumDescriptorRanges (Ts ! j) \<le> length Mem1"
         "\<forall>r<NumDescriptorRanges (Ts ! j).
                   Mem2 ! (pDescriptorRanges (New' ! j) + r)
                     = SrcMem ! (pDescriptorRanges (Ts ! j) + r)"
      by blast
    have "pCurr \<le> p" using p(1) by simp
    then show ?thesis
      using Suc n p(2,3) q c1(2) by auto
  qed
  from len lm le low high tabs show ?case by blast
qed

text \<open>
  Claim C6. When \<open>Extend\<close> has copied the root parameters into the new memory, the arrays
  have grown by the numbers asked for; every root view that was there is unchanged;
  and every root table that was there has its root index, root type, parameter type,
  shader visibility and table size unchanged, has as many ranges as before (the table
  named by \<open>RootTableToAddRanges\<close>, and no other, has \<open>NumExtraDescriptorRanges\<close> more),
  and reads through its new pointer the ranges it had before, in the same order.
\<close>

theorem Extend_frame:
  assumes "Extend M NumExtraRootTables NumExtraRootViews NumExtraDescriptorRanges
             RootTableToAddRanges = Some (M', pRangePtr)"
  shows "length (m_pRootTables M') = length (m_pRootTables M) + NumExtraRootTables
       \<and> length (m_pRootViews M') = length (m_pRootViews M) + NumExtraRootViews
       \<and> length (m_pRanges M') = length (m_pRanges M) + NumExtraDescriptorRanges
       \<and> (\<forall>rv<length (m_pRootViews M). m_pRootViews M' ! rv = m_pRootViews M ! rv)
       \<and> (\<forall>rt<length (m_pRootTables M).
             m_RootIndex (m_pRootTables M' ! rt) = m_RootIndex (m_pRootTables M ! rt)
           \<and> m_RootType (m_pRootTables M' ! rt) = m_RootType (m_pRootTables M ! rt)
           \<and> ParameterType (m_pRootTables M' ! rt) = ParameterType (m_pRootTables M ! rt)
           \<and> ShaderVisibility (m_pRootTables M' ! rt) = ShaderVisibility (m_pRootTables M ! rt)
           \<and> m_DescriptorTableSize (m_pRootTables M' ! rt)
               = m_DescriptorTableSize (m_pRootTables M ! rt)
           \<and> NumDescriptorRanges (m_pRootTables M' ! rt)
               = NumDescriptorRanges (m_pRootTables M ! rt)
                 + (if RootTableToAddRanges = Some rt then NumExtraDescriptorRanges else 0)
           \<and> take (NumDescriptorRanges (m_pRootTables M ! rt))
                 (TableRanges M' (m_pRootTables M' ! rt))
               = TableRanges M (m_pRootTables M ! rt))"
proof -
  from assms obtain New Mem where
    c: "CopyRootTables (m_pRanges M) NumExtraDescriptorRanges RootTableToAddRanges 0
          (m_pRootTables M) 0
          (replicate (length (m_pRanges M) + NumExtraDescriptorRanges) ZeroRange)
        = Some (New, Mem, pRangePtr)" and
    m: "M' = \<lparr> m_pRootTables = New @ replicate NumExtraRootTables ZeroRootParameter,
              m_pRootViews = m_pRootViews M @ replicate NumExtraRootViews ZeroRootParameter,
              m_pRanges = Mem \<rparr>"
    by (auto simp: Extend_def split: option.splits)
  note p = CopyRootTables_Some[OF c]
  have l: "length New = length (m_pRootTables M)" using p by blast
  have "length Mem = length (m_pRanges M) + NumExtraDescriptorRanges" using p by simp
  then have lens: "length (m_pRootTables M') = length (m_pRootTables M) + NumExtraRootTables
       \<and> length (m_pRootViews M') = length (m_pRootViews M) + NumExtraRootViews
       \<and> length (m_pRanges M') = length (m_pRanges M) + NumExtraDescriptorRanges"
    using l by (simp add: m)
  have views: "\<forall>rv<length (m_pRootViews M). m_pRootViews M' ! rv = m_pRootViews M ! rv"
    by (simp add: m nth_append)
  have tabs: "m_RootIndex (m_pRootTables M' ! rt) = m_RootIndex (m_pRootTables M ! rt)
           \<and> m_RootType (m_pRootTables M' ! rt) = m_RootType (m_pRootTables M ! rt)
           \<and> ParameterType (m_pRootTables M' ! rt) = ParameterType (m_pRootTables M ! rt)
           \<and> ShaderVisibility (m_pRootTables M' ! rt) = ShaderVisibility (m_pRootTables M ! rt)
           \<and> m_DescriptorTableSize (m_pRootTables M' ! rt)
               = m_DescriptorTableSize (m_pRootTables M ! rt)
           \<and> NumDescriptorRanges (m_pRootTables M' ! rt)
               = NumDescriptorRanges (m_pRootTables M ! rt)
                 + (if RootTableToAddRanges = Some rt then NumExtraDescriptorRanges else 0)
           \<and> take (NumDescriptorRanges (m_pRootTables M ! rt))
                 (TableRanges M' (m_pRootTables M' ! rt))
               = TableRanges M (m_pRootTables M ! rt)"
    if rt: "rt < length (m_pRootTables M)" for rt
  proof -
    let ?T = "m_pRootTables M ! rt"
    let ?n = "NumDescriptorRanges ?T"
    let ?x = "if RootTableToAddRanges = Some rt then NumExtraDescriptorRanges else 0"
    have t': "m_pRootTables M' ! rt = New ! rt" using rt l by (simp add: m nth_append)
    from p rt obtain q where
      n: "New ! rt = ?T\<lparr> NumDescriptorRanges := ?n + (if Some (0 + rt) = RootTableToAddRanges
                                                       then NumExtraDescriptorRanges else 0),
                          pDescriptorRanges := q \<rparr>" and
      r: "\<forall>r<?n. Mem ! (pDescriptorRanges (New ! rt) + r)
                     = m_pRanges M ! (pDescriptorRanges ?T + r)"
      by blast
    have x: "(if Some (0 + rt) = RootTableToAddRanges then NumExtraDescriptorRanges else 0) = ?x"
      by auto
    have "take ?n (TableRanges M' (m_pRootTables M' ! rt))
            = map (\<lambda>r. Mem ! (pDescriptorRanges (New ! rt) + r)) [0..<?n]"
      unfolding TableRanges_def t' take_map by (simp add: m n take_upt)
    also have "\<dots> = TableRanges M ?T"
      unfolding TableRanges_def using r by simp
    finally show ?thesis
      unfolding t' by (simp add: n x)
  qed
  from lens views tabs show ?thesis by blast
qed

theorem Extend_frame_witness:
  "(\<exists>M'. Extend example_root_params 0 0 1 (Some 0) = Some (M', 4)
      \<and> map m_RootIndex (m_pRootTables M') = [0, 2]
      \<and> map NumDescriptorRanges (m_pRootTables M') = [3, 1]
      \<and> map pDescriptorRanges (m_pRootTables M') = [0, 3]
      \<and> take 2 (TableRanges M' (m_pRootTables M' ! 0)) = take 2 example_ranges
      \<and> take 1 (TableRanges M' (m_pRootTables M' ! 1)) = drop 2 example_ranges
      \<and> m_pRootViews M' = m_pRootViews example_root_params)"
proof -
  have "case Extend example_root_params 0 0 1 (Some 0) of
          None \<Rightarrow> False
        | Some (M', p) \<Rightarrow> p = 4 \<and> map m_RootIndex (m_pRootTables M') = [0, 2]
            \<and> map NumDescriptorRanges (m_pRootTables M') = [3, 1]
            \<and> map pDescriptorRanges (m_pRootTables M') = [0, 3]
            \<and> m_pRootViews M' = m_pRootViews example_root_params"
    by code_simp
  then obtain M' where
    e: "Extend example_root_params 0 0 1 (Some 0) = Some (M', 4)" and
    f: "map m_RootIndex (m_pRootTables M') = [0, 2]"
       "map NumDescriptorRanges (m_pRootTables M') = [3, 1]"
       "map pDescriptorRanges (m_pRootTables M') = [0, 3]"
       "m_pRootViews M' = m_pRootViews example_root_params"
    by (auto split: option.splits)
  have t: "TableRanges example_root_params (m_pRootTables example_root_params ! 0)
             = take 2 example_ranges"
          "TableRanges example_root_params (m_pRootTables example_root_params ! 1)
             = drop 2 example_ranges"
          "NumDescriptorRanges (m_pRootTables example_root_params ! 0) = 2"
          "NumDescriptorRanges (m_pRootTables example_root_params ! 1) = 1"
          "length (m_pRootTables example_root_params) = 2"
    by code_simp+
  from Extend_frame [OF e] t have
    "take 2 (TableRanges M' (m_pRootTables M' ! 0)) = take 2 example_ranges"
    "take 1 (TableRanges M' (m_pRootTables M' ! 1)) = drop 2 example_ranges"
    by (auto simp: numeral_2_eq_2)
  note g = this
  show ?thesis
    apply (rule exI[of _ M'])
    apply (intro conjI)
    apply (rule e)
    apply (rule f(1))
    apply (rule f(2))
    apply (rule f(3))
    apply (rule g(1))
    apply (rule g(2))
    apply (rule f(4))
    done
qed

section \<open>Properties of binding\<close>

lemma GetResource_Some:
  "GetResource c r ofs = Some x \<longleftrightarrow>
     unat r < length (m_RootTables c) \<and> unat ofs < length (m_RootTables c ! unat r)
     \<and> x = m_RootTables c ! unat r ! unat ofs"
  by (cases "unat r < length (m_RootTables c) \<and> unat ofs < length (m_RootTables c ! unat r)")
     (auto simp: GetResource_def)


lemma GetResource_SetResource_same:
  "GetResource c r ofs = Some x \<Longrightarrow> GetResource (SetResource c r ofs y) r ofs = Some y"
  by (simp add: GetResource_Some SetResource_def)

lemma m_ContentType_SetResource [simp]:
  "m_ContentType (SetResource c r ofs y) = m_ContentType c"
  by (simp add: SetResource_def)





lemma SameShape_NumDynamicCBs [simp]: "SameShape c (c'\<lparr> m_NumDynamicCBsBound := n \<rparr>) = SameShape c c'"
  by (simp add: SameShape_def)



lemma holds_SetResource:
  assumes "GetResource c r ofs = Some R"
  shows "\<exists>R'. GetResource (SetResource c r ofs y) r ofs = Some R' \<and> pObject R' = pObject y"
  using GetResource_SetResource_same[OF assms, of y] by simp






lemma GetResource_NumDynamicCBs [simp]:
  "GetResource (c\<lparr> m_NumDynamicCBsBound := n \<rparr>) r ofs = GetResource c r ofs"
  by (simp add: GetResource_def)













end
